(* ===== verification/Py_Text.thy ===== *)
theory Py_Text
  imports Main "HOL-Library.Sublist"
begin

text \<open>
  Prelude of the development: the Python values and the \<^verbatim>\<open>str\<close> operations that
  \<^verbatim>\<open>src/bot.py\<close> uses, as executable HOL functions, with the lemmas the component
  theories share.

  Text is \<^typ>\<open>string\<close>, a list of 8-bit characters: the model covers the code points
  0 to 255 (ASCII and Latin-1). On that range \<open>lower_char\<close>, \<open>py_isspace\<close> and the
  character ranges below agree with Python 3; a code point above 255 is outside the
  model. \<open>of_char\<close> is Python's \<^verbatim>\<open>ord\<close>, \<open>char_of\<close> its \<^verbatim>\<open>chr\<close>.

  Collections: \<open>py_defs\<close> unfolds the primitives on closed terms, \<open>charset\<close> holds
  the facts about character classes, \<open>strip_simps\<close> the facts about stripping.
\<close>

named_theorems py_defs "definitions of the Python primitives, for evaluation"
named_theorems charset "facts about character classes"
named_theorems strip_simps "facts about strip_with and collapse"

section \<open>Characters\<close>

abbreviation py_ord :: "char \<Rightarrow> nat" where
  "py_ord \<equiv> of_char"

definition in_range :: "char \<Rightarrow> char \<Rightarrow> char \<Rightarrow> bool" where
  "in_range lo hi c \<longleftrightarrow> py_ord lo \<le> py_ord c \<and> py_ord c \<le> py_ord hi"

definition is_upper :: "char \<Rightarrow> bool" where
  "is_upper c \<longleftrightarrow> in_range (CHR ''A'') (CHR ''Z'') c"

definition is_lower :: "char \<Rightarrow> bool" where
  "is_lower c \<longleftrightarrow> in_range (CHR ''a'') (CHR ''z'') c"

definition is_digit :: "char \<Rightarrow> bool" where
  "is_digit c \<longleftrightarrow> in_range (CHR ''0'') (CHR ''9'') c"

definition cased_upper :: "char \<Rightarrow> bool" where
  "cased_upper c \<longleftrightarrow> is_upper c \<or> (192 \<le> py_ord c \<and> py_ord c \<le> 222 \<and> py_ord c \<noteq> 215)"

definition lower_char :: "char \<Rightarrow> char" where
  "lower_char c = (if cased_upper c then char_of (py_ord c + 32) else c)"

definition py_lower :: "string \<Rightarrow> string" where
  "py_lower s = map lower_char s"

definition py_isspace :: "char \<Rightarrow> bool" where
  "py_isspace c \<longleftrightarrow>
     (9 \<le> py_ord c \<and> py_ord c \<le> 13) \<or> (28 \<le> py_ord c \<and> py_ord c \<le> 32) \<or>
     py_ord c = 133 \<or> py_ord c = 160"

section \<open>Stripping, prefixes, slices, replacement\<close>

definition strip_with :: "(char \<Rightarrow> bool) \<Rightarrow> string \<Rightarrow> string" where
  "strip_with P s = rev (dropWhile P (rev (dropWhile P s)))"

definition py_strip :: "string \<Rightarrow> string" where
  "py_strip s = strip_with py_isspace s"

definition py_strip_chars :: "string \<Rightarrow> string \<Rightarrow> string" where
  "py_strip_chars cs s = strip_with (\<lambda>c. c \<in> set cs) s"

definition startswith :: "string \<Rightarrow> string \<Rightarrow> bool" where
  "startswith s p \<longleftrightarrow> prefix p s"

definition endswith :: "string \<Rightarrow> string \<Rightarrow> bool" where
  "endswith s p \<longleftrightarrow> suffix p s"

definition py_in :: "string \<Rightarrow> string \<Rightarrow> bool" where
  "py_in needle hay \<longleftrightarrow> sublist needle hay"

definition slice_mid :: "nat \<Rightarrow> nat \<Rightarrow> string \<Rightarrow> string" where
  "slice_mid i j s = drop i (take (length s - j) s)"

fun replace_from :: "string \<Rightarrow> string \<Rightarrow> string \<Rightarrow> string" where
  "replace_from old new [] = []"
| "replace_from old new (c # cs) =
     (if prefix old (c # cs) \<and> old \<noteq> []
      then new @ replace_from old new (drop (length old - 1) cs)
      else c # replace_from old new cs)"

definition py_replace :: "string \<Rightarrow> string \<Rightarrow> string \<Rightarrow> string" where
  "py_replace s old new =
     (if old = [] then new @ concat (map (\<lambda>c. c # new) s) else replace_from old new s)"

section \<open>Values and truthiness\<close>

datatype pyval = PNone | PInt int | PStr string

fun truthy :: "pyval \<Rightarrow> bool" where
  "truthy PNone = False"
| "truthy (PInt i) = (i \<noteq> 0)"
| "truthy (PStr s) = (s \<noteq> [])"

definition truthy_opt :: "string option \<Rightarrow> bool" where
  "truthy_opt v = (case v of None \<Rightarrow> False | Some s \<Rightarrow> s \<noteq> [])"

fun digits_of :: "nat \<Rightarrow> string" where
  "digits_of n = (if n < 10 then [char_of (48 + n)]
     else digits_of (n div 10) @ [char_of (48 + n mod 10)])"

declare digits_of.simps [simp del]

fun py_str :: "pyval \<Rightarrow> string" where
  "py_str PNone = ''None''"
| "py_str (PInt i) = (if i < 0 then CHR ''-'' # digits_of (nat (- i)) else digits_of (nat i))"
| "py_str (PStr s) = s"

lemmas char_class_defs =
  in_range_def is_upper_def is_lower_def is_digit_def cased_upper_def py_isspace_def

lemmas [py_defs] =
  char_class_defs lower_char_def py_lower_def strip_with_def py_strip_def
  py_strip_chars_def startswith_def endswith_def py_in_def slice_mid_def py_replace_def
  truthy_opt_def char_of_eq_iff sublist_Cons_right

section \<open>Character facts\<close>

lemma py_ord_lower_char [charset]:
  "py_ord (lower_char c) = (if cased_upper c then py_ord c + 32 else py_ord c)"
  by (auto simp: lower_char_def char_class_defs)

lemma lower_char_not_upper [charset]: "\<not> is_upper (lower_char c)"
  by (auto simp: py_ord_lower_char char_class_defs)

lemma lower_char_id [charset]: "\<not> cased_upper c \<Longrightarrow> lower_char c = c"
  by (simp add: lower_char_def)

lemma lower_char_idem [charset]: "lower_char (lower_char c) = lower_char c"
  by (rule lower_char_id) (auto simp: py_ord_lower_char char_class_defs)

lemma lower_char_is_lower_iff [charset]:
  "is_lower (lower_char c) \<longleftrightarrow> is_lower c \<or> is_upper c"
  by (auto simp: py_ord_lower_char char_class_defs)

lemma lower_char_is_digit_iff [charset]: "is_digit (lower_char c) \<longleftrightarrow> is_digit c"
  by (auto simp: py_ord_lower_char char_class_defs)

lemma lower_char_eq_ascii [charset]:
  "py_ord d < 65 \<or> (90 < py_ord d \<and> py_ord d < 97) \<Longrightarrow> lower_char c = d \<longleftrightarrow> c = d"
  by (auto simp: lower_char_def char_class_defs char_of_eq_iff take_bit_eq_mod
      dest!: arg_cong [where f = py_ord])

lemma py_lower_idem [simp]: "py_lower (py_lower s) = py_lower s"
  by (simp add: py_lower_def lower_char_idem)

lemma py_lower_id: "list_all (\<lambda>c. \<not> cased_upper c) s \<Longrightarrow> py_lower s = s"
  by (induction s) (simp_all add: py_lower_def lower_char_id)

lemma py_lower_append [simp]: "py_lower (s @ t) = py_lower s @ py_lower t"
  by (simp add: py_lower_def)

lemma length_py_lower [simp]: "length (py_lower s) = length s"
  by (simp add: py_lower_def)

section \<open>Stripping facts\<close>

lemma strip_with_Nil [simp]: "strip_with P [] = []"
  by (simp add: strip_with_def)

lemma last_dropWhile: "dropWhile P xs \<noteq> [] \<Longrightarrow> last (dropWhile P xs) = last xs"
  by (metis last_appendR takeWhile_dropWhile_id)

lemma dropWhile_all_iff: "(\<forall>x\<in>set (dropWhile P s). P x) \<longleftrightarrow> (\<forall>x\<in>set s. P x)"
proof
  assume all: "\<forall>x\<in>set (dropWhile P s). P x"
  have "dropWhile P s = []"
  proof (rule ccontr)
    assume ne: "dropWhile P s \<noteq> []"
    then have "\<not> P (hd (dropWhile P s))"
      by (rule hd_dropWhile)
    with ne all show False
      by (meson hd_in_set)
  qed
  then show "\<forall>x\<in>set s. P x"
    by simp
qed (auto dest: set_dropWhileD)

lemma strip_with_eq_Nil_iff [strip_simps]: "strip_with P s = [] \<longleftrightarrow> list_all P s"
  by (simp add: strip_with_def list_all_iff dropWhile_all_iff)

lemma set_strip_with: "set (strip_with P s) \<subseteq> set s"
proof
  fix x
  assume "x \<in> set (strip_with P s)"
  then have "x \<in> set (dropWhile P s)"
    by (auto simp: strip_with_def dest: set_dropWhileD)
  then show "x \<in> set s"
    by (rule set_dropWhileD)
qed

lemma list_all_strip_with [strip_simps]: "list_all Q s \<Longrightarrow> list_all Q (strip_with P s)"
  using set_strip_with [of P s] by (auto simp: list_all_iff)

lemma sublist_strip_with [strip_simps]: "sublist (strip_with P s) s"
proof -
  have "sublist (dropWhile P (rev (dropWhile P s))) (rev (dropWhile P s))"
    by (rule sublist_dropWhile)
  then have "sublist (strip_with P s) (dropWhile P s)"
    by (simp add: strip_with_def sublist_rev_left)
  then show ?thesis
    by (rule sublist_order.order_trans) (rule sublist_dropWhile)
qed

lemma hd_strip_with [strip_simps]:
  assumes "strip_with P s \<noteq> []"
  shows "\<not> P (hd (strip_with P s))"
proof -
  let ?d = "dropWhile P s"
  from assms have r: "dropWhile P (rev ?d) \<noteq> []"
    by (simp add: strip_with_def)
  have d: "?d \<noteq> []"
  proof
    assume "?d = []"
    with r show False by simp
  qed
  have "hd (strip_with P s) = last (dropWhile P (rev ?d))"
    by (simp add: strip_with_def hd_rev)
  also from r have "\<dots> = last (rev ?d)"
    by (rule last_dropWhile)
  also have "\<dots> = hd ?d"
    by (simp add: last_rev)
  finally show ?thesis
    using hd_dropWhile [OF d] by simp
qed

lemma last_strip_with [strip_simps]:
  assumes "strip_with P s \<noteq> []"
  shows "\<not> P (last (strip_with P s))"
proof -
  from assms have "dropWhile P (rev (dropWhile P s)) \<noteq> []"
    by (simp add: strip_with_def)
  then have "\<not> P (hd (dropWhile P (rev (dropWhile P s))))"
    by (rule hd_dropWhile)
  then show ?thesis
    by (simp add: strip_with_def last_rev)
qed

lemma strip_with_id [strip_simps]:
  assumes "s = [] \<or> (\<not> P (hd s) \<and> \<not> P (last s))"
  shows "strip_with P s = s"
proof (cases "s = []")
  case True
  then show ?thesis by simp
next
  case False
  with assms have h: "\<not> P (hd s)" and l: "\<not> P (last s)"
    by auto
  from False h have "dropWhile P s = s"
    by (simp add: dropWhile_eq_self_iff)
  moreover from False l have "dropWhile P (rev s) = rev s"
    by (simp add: dropWhile_eq_self_iff hd_rev)
  ultimately show ?thesis
    by (simp add: strip_with_def)
qed

lemma strip_with_idem [simp]: "strip_with P (strip_with P s) = strip_with P s"
  by (rule strip_with_id) (auto simp: hd_strip_with last_strip_with)

lemma strip_with_snoc [strip_simps]: "P c \<Longrightarrow> strip_with P (s @ [c]) = strip_with P s"
  by (cases "\<forall>x\<in>set s. P x")
    (auto simp: strip_with_def dropWhile_append dropWhile_all_iff)

lemma py_strip_idem [simp]: "py_strip (py_strip s) = py_strip s"
  by (simp add: py_strip_def)

lemma py_strip_chars_idem [simp]: "py_strip_chars cs (py_strip_chars cs s) = py_strip_chars cs s"
  by (simp add: py_strip_chars_def)

section \<open>Prefix and slice facts\<close>

lemma startswith_append [simp]: "startswith (p @ s) p"
  by (simp add: startswith_def)

lemma endswith_append [simp]: "endswith (s @ p) p"
  by (simp add: endswith_def suffix_def)

lemma suffix_append_long:
  "length xs \<le> length zs \<Longrightarrow> suffix xs (ys @ zs) \<longleftrightarrow> suffix xs zs"
  by (auto simp: suffix_append)

lemma short_list_cases:
  "length r < 3 \<Longrightarrow> r = [] \<or> (\<exists>a. r = [a]) \<or> (\<exists>a b. r = [a, b])"
  by (cases r; cases "tl r"; cases "tl (tl r)") auto

lemma startswith_length: "startswith s p \<Longrightarrow> length p \<le> length s"
  by (simp add: startswith_def prefix_length_le)

lemma slice_mid_append [simp]:
  "slice_mid (length p) (length q) (p @ s @ q) = s"
  by (simp add: slice_mid_def)

lemma length_slice_mid: "length (slice_mid i j s) = length s - j - i"
  by (simp add: slice_mid_def)

lemma replace_from_no_occurrence:
  "\<not> sublist old s \<Longrightarrow> replace_from old new s = s"
proof (induction s)
  case Nil
  then show ?case by simp
next
  case (Cons c cs)
  then have "\<not> prefix old (c # cs)" and "\<not> sublist old cs"
    by (auto simp: sublist_Cons_right)
  with Cons.IH show ?case by simp
qed

lemma replace_from_prefix:
  "old \<noteq> [] \<Longrightarrow> replace_from old new (old @ s) = new @ replace_from old new s"
  by (cases old) simp_all

lemma py_replace_prefix_once:
  "old \<noteq> [] \<Longrightarrow> \<not> sublist old s \<Longrightarrow> py_replace (old @ s) old new = new @ s"
  by (simp add: py_replace_def replace_from_prefix replace_from_no_occurrence)

end
