(* ===== verification/Bot_Config.thy ===== *)
theory Bot_Config
  imports Py_Text
begin

text \<open>
  The module-level data of \<^verbatim>\<open>src/bot.py\<close>: the configuration read from the
  environment and the check made on it at import time, the numbering of the
  conversation states, the callback identifiers of the buttons, and the catalog of
  page types. An environment value is \<open>None\<close> when the variable is unset
  (\<^verbatim>\<open>os.getenv\<close>); the catalog is an association list in the order of the dictionary
  literal, looked up with \<open>map_of\<close>.
\<close>

section \<open>Configuration\<close>

record config =
  TELEGRAM_BOT_TOKEN :: "string option"
  GEMINI_API_KEY :: "string option"
  GITHUB_REPO_URL :: "string option"
  GITHUB_PAT :: "string option"
  NETLIFY_API_TOKEN :: "string option"
  NETLIFY_SITE_ID :: "string option"
  REPO_DIR :: string

definition getenv_default :: "string option \<Rightarrow> string \<Rightarrow> string" where
  "getenv_default v d = (case v of None \<Rightarrow> d | Some s \<Rightarrow> s)"

definition fmt_opt :: "string option \<Rightarrow> string" where
  "fmt_opt v = (case v of None \<Rightarrow> ''None'' | Some s \<Rightarrow> s)"

definition load_config ::
  "(string \<Rightarrow> string option) \<Rightarrow> config" where
  "load_config getenv =
     \<lparr>TELEGRAM_BOT_TOKEN = getenv ''TELEGRAM_BOT_TOKEN'',
      GEMINI_API_KEY = getenv ''GEMINI_API_KEY'',
      GITHUB_REPO_URL = getenv ''GITHUB_REPO_URL'',
      GITHUB_PAT = getenv ''GITHUB_PAT'',
      NETLIFY_API_TOKEN = getenv ''NETLIFY_API_TOKEN'',
      NETLIFY_SITE_ID = getenv ''NETLIFY_SITE_ID'',
      REPO_DIR = getenv_default (getenv ''REPO_DIR'') ''landing_pages_repo''\<rparr>"

definition config_ok :: "config \<Rightarrow> bool" where
  "config_ok C \<longleftrightarrow>
     list_all truthy_opt [TELEGRAM_BOT_TOKEN C, GEMINI_API_KEY C, GITHUB_REPO_URL C, GITHUB_PAT C]"

definition test_config :: config where
  "test_config = \<lparr>TELEGRAM_BOT_TOKEN = Some ''bot'', GEMINI_API_KEY = Some ''key'',
     GITHUB_REPO_URL = Some ''https://github.com/u/pages.git'', GITHUB_PAT = Some ''pat'',
     NETLIFY_API_TOKEN = Some ''tok'', NETLIFY_SITE_ID = Some ''site'', REPO_DIR = ''repo''\<rparr>"

section \<open>Conversation states and callback identifiers\<close>

definition CHANNEL_NAME :: int where "CHANNEL_NAME = 0"
definition LOGO_IMAGE :: int where "LOGO_IMAGE = 1"
definition PAGE_TYPE :: int where "PAGE_TYPE = 2"
definition FOOTER_CHOICE :: int where "FOOTER_CHOICE = 3"
definition FOOTER_TEXT :: int where "FOOTER_TEXT = 4"
definition ConversationHandler_END :: int where "ConversationHandler_END = - 1"

definition CALLBACK_START :: string where "CALLBACK_START = ''start''"
definition CALLBACK_GENERATE :: string where "CALLBACK_GENERATE = ''generate''"
definition CALLBACK_HELP :: string where "CALLBACK_HELP = ''help''"
definition CALLBACK_CANCEL :: string where "CALLBACK_CANCEL = ''cancel''"
definition CALLBACK_FOOTER_YES :: string where "CALLBACK_FOOTER_YES = ''footer_yes''"
definition CALLBACK_FOOTER_NO :: string where "CALLBACK_FOOTER_NO = ''footer_no''"

lemmas state_consts =
  CHANNEL_NAME_def LOGO_IMAGE_def PAGE_TYPE_def FOOTER_CHOICE_def FOOTER_TEXT_def
  ConversationHandler_END_def

lemmas callback_consts =
  CALLBACK_START_def CALLBACK_GENERATE_def CALLBACK_HELP_def CALLBACK_CANCEL_def
  CALLBACK_FOOTER_YES_def CALLBACK_FOOTER_NO_def

section \<open>The catalog of page types\<close>

definition LANDING_PAGE_TYPES :: "(string \<times> string) list" where
  "LANDING_PAGE_TYPES =
    [(''1'', ''Tech Startup - Modern, clean design with focus on innovation''),
     (''2'', ''E-commerce Store - Product showcase with shopping features''),
     (''3'', ''Personal Brand - Professional portfolio and about section''),
     (''4'', ''SaaS Product - Software service with features and pricing''),
     (''5'', ''Restaurant/Food - Culinary focus with menu highlights''),
     (''6'', ''Fitness/Health - Workout plans and health tips''),
     (''7'', ''Education/Course - Learning platform with course offerings''),
     (''8'', ''Non-profit - Cause-focused with donation features''),
     (''9'', ''Real Estate - Property listings and contact forms''),
     (''10'', ''Creative Agency - Portfolio showcase and services'')]"

definition dict_in :: "pyval \<Rightarrow> (string \<times> 'v) list \<Rightarrow> bool" where
  "dict_in k d = (case k of PStr s \<Rightarrow> map_of d s \<noteq> None | _ \<Rightarrow> False)"

definition dict_get :: "(string \<times> 'v) list \<Rightarrow> pyval \<Rightarrow> 'v \<Rightarrow> 'v" where
  "dict_get d k dflt =
     (case k of PStr s \<Rightarrow> (case map_of d s of Some v \<Rightarrow> v | None \<Rightarrow> dflt) | _ \<Rightarrow> dflt)"

definition dict_index :: "(string \<times> 'v) list \<Rightarrow> pyval \<Rightarrow> 'v option" where
  "dict_index d k = (case k of PStr s \<Rightarrow> map_of d s | _ \<Rightarrow> None)"

definition page_type_keys :: "string list" where
  "page_type_keys = map fst LANDING_PAGE_TYPES"

section \<open>Lemmas\<close>

lemma test_config_simps [simp]:
  "TELEGRAM_BOT_TOKEN test_config = Some ''bot''"
  "GEMINI_API_KEY test_config = Some ''key''"
  "GITHUB_REPO_URL test_config = Some ''https://github.com/u/pages.git''"
  "GITHUB_PAT test_config = Some ''pat''"
  "NETLIFY_API_TOKEN test_config = Some ''tok''"
  "NETLIFY_SITE_ID test_config = Some ''site''"
  "REPO_DIR test_config = ''repo''"
  by (simp_all add: test_config_def)

lemma truthy_opt_simps [simp]:
  "truthy_opt None = False" "truthy_opt (Some s) = (s \<noteq> [])"
  by (simp_all add: truthy_opt_def)

lemma config_ok_test_config [simp]: "config_ok test_config"
  by (simp add: config_ok_def)

lemma config_ok_iff:
  "config_ok C \<longleftrightarrow> truthy_opt (TELEGRAM_BOT_TOKEN C) \<and> truthy_opt (GEMINI_API_KEY C) \<and>
     truthy_opt (GITHUB_REPO_URL C) \<and> truthy_opt (GITHUB_PAT C)"
  by (simp add: config_ok_def)

lemma truthy_opt_Some: "truthy_opt v \<Longrightarrow> \<exists>s. v = Some s \<and> s \<noteq> []"
  by (cases v) (simp_all add: truthy_opt_def)

lemma page_type_keys_eq: "page_type_keys = map digits_of [1..<11]"
  by code_simp

lemma distinct_page_type_keys: "distinct page_type_keys"
  by (simp add: page_type_keys_def LANDING_PAGE_TYPES_def)

lemma page_type_key_short: "k \<in> set page_type_keys \<Longrightarrow> length k \<le> 2"
  by (auto simp: page_type_keys_def LANDING_PAGE_TYPES_def)

lemma dict_in_iff: "dict_in k d \<longleftrightarrow> (\<exists>s. k = PStr s \<and> s \<in> fst ` set d)"
  by (cases k) (auto simp: dict_in_def map_of_eq_None_iff)

lemma dict_in_page_types:
  "dict_in k LANDING_PAGE_TYPES \<longleftrightarrow> (\<exists>s. k = PStr s \<and> s \<in> set page_type_keys)"
  by (simp add: dict_in_iff page_type_keys_def)

lemma dict_index_in: "dict_in k d \<longleftrightarrow> dict_index d k \<noteq> None"
  by (cases k) (simp_all add: dict_in_def dict_index_def)

lemma dict_get_in: "dict_index d k = Some v \<Longrightarrow> dict_get d k dflt = v"
  by (cases k) (simp_all add: dict_index_def dict_get_def)

lemma dict_get_not_in: "\<not> dict_in k d \<Longrightarrow> dict_get d k dflt = dflt"
  by (cases k) (auto simp: dict_in_def dict_get_def)

end
