(* ===== verification/Bot_World.thy ===== *)
theory Bot_World
  imports Bot_Config
begin

text \<open>
  What lies outside the code and how the code's effects are recorded.

  \<^item> \<open>env\<close> answers every call that leaves the process: whether a git command exits
    with status 0, what \<^verbatim>\<open>git branch -r\<close> prints, what the generation service and
    the deployment service reply, whether a file download succeeds. A handler runs
    against one \<open>env\<close>; a run of several updates takes one per update.
  \<^item> \<open>bot_state\<close> is what a handler can change: one user's \<^verbatim>\<open>context.user_data\<close>
    dictionary, the paths known to exist, the text files the bot wrote, and the
    \<open>trace\<close> of every effect in the order it happened (chat output, git commands,
    HTTP requests, file operations).
  \<^item> \<open>'a io\<close> is a state and exception monad over \<open>bot_state\<close>: a Python function
    that returns \<open>x\<close> is \<open>ret x\<close>, one that raises is \<open>raise e\<close>, and \<open>bind_io\<close>
    sequences two calls, skipping the second when the first raised.

  A chat message is a constructor of \<open>msg\<close> carrying the values interpolated into its
  text; the fixed wording is not modelled. A keyboard is the list of its buttons (every
  row of the source holds one button). Sending (\<open>reply_text\<close>, \<open>edit_message_text\<close>,
  \<open>answer\<close>) only appends to the trace: that a send can fail is not modelled, and
  neither is a failure of \<open>makedirs\<close>.

  Two calculi carry the proofs of the components. \<open>emits_only P m\<close> says that \<open>m\<close>
  only appends to the trace, and only effects in \<open>P\<close>; \<open>keeps Q m\<close> says that \<open>m\<close>
  preserves the property \<open>Q\<close> of the session dictionary. Both come with one rule per
  operation of the monad, in the collections \<open>emits_intros\<close> and \<open>keeps_intros\<close>, to
  which every component adds the rules of its operations. \<open>messages\<close>,
  \<open>git_commands\<close> and \<open>requests\<close> read a trace as what the user saw, what git was
  asked and what was sent over HTTP. \<open>test_env\<close> and \<open>test_session\<close> are an outside in
  which every call succeeds and a session ready to be published, for applying the
  theorems to a concrete case.
\<close>

section \<open>Replies of the outside world\<close>

datatype exc =
    KeyError | IndexError | TypeError | ValueError | AttributeError | NetworkError
  | FileNotFoundError

datatype http_reply = Http nat bool | Http_Exception

datatype decode_failure = Not_Json | Missing_Key | Empty_List | Not_Subscriptable

datatype gemini_reply = Gemini_Failed | Gemini_Malformed decode_failure | Gemini_Text string

record env =
  git_ok :: "string list \<Rightarrow> bool"
  git_branch_r :: string
  gemini :: "string \<Rightarrow> string \<Rightarrow> gemini_reply"
  netlify_site :: http_reply
  netlify_deploy :: "string \<Rightarrow> string \<Rightarrow> http_reply"
  get_file_ok :: bool
  download_ok :: bool

section \<open>Effects\<close>

datatype button = Callback_Button string | Url_Button string

datatype msg =
    Welcome
  | Help_Text
  | Ask_Channel_Name
  | Ask_Logo string
  | Invalid_Image
  | Ask_Page_Type
  | Invalid_Choice
  | Ask_Footer string
  | Ask_Footer_Text
  | Ask_Yes_No
  | Creating
  | No_Token
  | Repo_Failed
  | Generation_Failed
  | Pushing
  | Deploying
  | Page_Live string string string
  | Page_Created string string
  | Push_Failed
  | Cancelled
  | Cancelled_Start_Over
  | Greeting
  | Invalid_Page_Type

datatype effect =
    Reply_Text msg "button list"
  | Edit_Text msg "button list"
  | Answer "msg option"
  | Git "string list" "string option" bool
  | Git_Branch_R string
  | Gemini_Post string string
  | Netlify_Get
  | Netlify_Post string string
  | Makedirs string
  | Download string string
  | Write_File string string
  | Uncaught exc

section \<open>State\<close>

record bot_state =
  user_data :: "string \<rightharpoonup> pyval"
  exists_path :: "string \<Rightarrow> bool"
  file_text :: "string \<rightharpoonup> string"
  trace :: "effect list"

definition init_state :: bot_state where
  "init_state = \<lparr>user_data = Map.empty, exists_path = (\<lambda>_. False),
     file_text = Map.empty, trace = []\<rparr>"

definition test_env :: env where
  "test_env = \<lparr>git_ok = (\<lambda>_. True), git_branch_r = [],
     gemini = (\<lambda>_ _. Gemini_Text
       [CHR 0x60, CHR 0x60, CHR 0x60, CHR ''h'', CHR ''t'', CHR ''m'', CHR ''l'', CHR '' '',
        CHR ''h'', CHR ''i'', CHR '' '', CHR 0x60, CHR 0x60, CHR 0x60]),
     netlify_site = Http 200 True, netlify_deploy = (\<lambda>_ _. Http 201 True),
     get_file_ok = True, download_ok = True\<rparr>"

definition test_session :: bot_state where
  "test_session = init_state\<lparr>
     user_data := [''channel_name'' \<mapsto> PStr ''My Cool Channel!!'', ''page_type'' \<mapsto> PStr ''1'',
       ''footer_text'' \<mapsto> PNone, ''logo_path'' \<mapsto> PStr ''repo/logo.png''],
     exists_path := (\<lambda>p. p = ''repo'' \<or> p = ''repo/logo.png'')\<rparr>"

section \<open>The monad of handlers\<close>

type_synonym 'a io = "bot_state \<Rightarrow> (exc + 'a) \<times> bot_state"

definition ret :: "'a \<Rightarrow> 'a io" where
  "ret x s = (Inr x, s)"

definition raise :: "exc \<Rightarrow> 'a io" where
  "raise e s = (Inl e, s)"

definition bind_io :: "'a io \<Rightarrow> ('a \<Rightarrow> 'b io) \<Rightarrow> 'b io" where
  "bind_io m f s = (case m s of (Inl e, s') \<Rightarrow> (Inl e, s') | (Inr x, s') \<Rightarrow> f x s')"

definition then_io :: "unit io \<Rightarrow> 'b io \<Rightarrow> 'b io" where
  "then_io m n = bind_io m (\<lambda>_. n)"

definition emit :: "effect \<Rightarrow> unit io" where
  "emit e s = (Inr (), s\<lparr>trace := trace s @ [e]\<rparr>)"

definition ud_get :: "string \<Rightarrow> pyval io" where
  "ud_get k s = (Inr (case user_data s k of None \<Rightarrow> PNone | Some v \<Rightarrow> v), s)"

definition ud_set :: "string \<Rightarrow> pyval \<Rightarrow> unit io" where
  "ud_set k v s = (Inr (), s\<lparr>user_data := (user_data s)(k \<mapsto> v)\<rparr>)"

definition path_exists :: "string \<Rightarrow> bool io" where
  "path_exists p s = (Inr (exists_path s p), s)"

definition makedirs :: "string \<Rightarrow> unit io" where
  "makedirs p s = (Inr (), s\<lparr>exists_path := (exists_path s)(p := True),
     trace := trace s @ [Makedirs p]\<rparr>)"

definition write_file :: "string \<Rightarrow> string \<Rightarrow> unit io" where
  "write_file p content s = (Inr (), s\<lparr>exists_path := (exists_path s)(p := True),
     file_text := (file_text s)(p \<mapsto> content), trace := trace s @ [Write_File p content]\<rparr>)"

definition path_join :: "string \<Rightarrow> string \<Rightarrow> string" where
  "path_join a b = (if a = [] then b else if last a = CHR ''/'' then a @ b else a @ ''/'' @ b)"

definition open_write :: "string \<Rightarrow> string \<Rightarrow> string \<Rightarrow> unit io" where
  "open_write dir filename content =
     bind_io (path_exists dir) (\<lambda>present.
       if dir \<noteq> [] \<and> \<not> present then raise FileNotFoundError
       else write_file (path_join dir filename) content)"

definition missing_cwd :: "string option \<Rightarrow> bot_state \<Rightarrow> bool" where
  "missing_cwd cwd s = (case cwd of None \<Rightarrow> False | Some d \<Rightarrow> \<not> exists_path s d)"

definition reply_text :: "msg \<Rightarrow> button list \<Rightarrow> unit io" where
  "reply_text m kb = emit (Reply_Text m kb)"

definition edit_message_text :: "msg \<Rightarrow> button list \<Rightarrow> unit io" where
  "edit_message_text m kb = emit (Edit_Text m kb)"

definition answer :: "msg option \<Rightarrow> unit io" where
  "answer m = emit (Answer m)"

definition run_io :: "'a io \<Rightarrow> bot_state \<Rightarrow> bot_state" where
  "run_io m s = (case m s of (Inl e, s') \<Rightarrow> s'\<lparr>trace := trace s' @ [Uncaught e]\<rparr>
     | (Inr x, s') \<Rightarrow> s')"

definition returns :: "'a io \<Rightarrow> bot_state \<Rightarrow> 'a option" where
  "returns m s = (case fst (m s) of Inl e \<Rightarrow> None | Inr x \<Rightarrow> Some x)"

definition lookup_ud :: "bot_state \<Rightarrow> string \<Rightarrow> pyval" where
  "lookup_ud s k = (case user_data s k of None \<Rightarrow> PNone | Some v \<Rightarrow> v)"

named_theorems io_defs "definitions of the monad operations and primitive effects"

lemmas [io_defs] =
  ret_def raise_def bind_io_def then_io_def emit_def ud_get_def ud_set_def path_exists_def
  makedirs_def write_file_def open_write_def missing_cwd_def reply_text_def edit_message_text_def answer_def run_io_def
  returns_def lookup_ud_def

section \<open>Monad laws and frame lemmas\<close>

lemma bind_ret [simp]: "bind_io (ret x) f = f x"
  by (rule ext) (simp add: bind_io_def ret_def)

lemma bind_raise [simp]: "bind_io (raise e) f = raise e"
  by (rule ext) (simp add: bind_io_def raise_def)

lemma bind_ret_right [simp]: "bind_io m ret = m"
  by (rule ext) (simp add: bind_io_def ret_def split: prod.splits sum.splits)

lemma bind_assoc: "bind_io (bind_io m f) g = bind_io m (\<lambda>x. bind_io (f x) g)"
  by (rule ext) (simp add: bind_io_def split: prod.splits sum.splits)

lemma then_io_assoc: "then_io (then_io m n) k = then_io m (then_io n k)"
  by (simp add: then_io_def bind_assoc)

section \<open>What an operation adds to the trace\<close>

text \<open>
  \<open>new_effects m s\<close> is what \<open>m\<close>, started in \<open>s\<close>, appends to the trace, and
  \<open>emits_only P m\<close> says that \<open>m\<close> only appends, and only effects that satisfy \<open>P\<close>.
  With \<open>P\<close> a class of effects this is the frame of a component (the generator adapter
  runs no git command); with \<open>P\<close> true everywhere it says that nothing already
  recorded is changed. \<open>run_effect\<close> holds of the effects that only the
  orchestrator produces: the message that a page is being created, the git commands,
  the requests to the two services and the page written to disk.
\<close>

fun is_chat :: "effect \<Rightarrow> bool" where
  "is_chat (Reply_Text m kb) = True"
| "is_chat (Edit_Text m kb) = True"
| "is_chat (Answer m) = True"
| "is_chat e = False"

fun is_git :: "effect \<Rightarrow> bool" where
  "is_git (Git argv cwd ok) = True"
| "is_git (Git_Branch_R out) = True"
| "is_git e = False"

fun is_http :: "effect \<Rightarrow> bool" where
  "is_http (Gemini_Post sp up) = True"
| "is_http Netlify_Get = True"
| "is_http (Netlify_Post b t) = True"
| "is_http (Download f p) = True"
| "is_http e = False"

fun is_file :: "effect \<Rightarrow> bool" where
  "is_file (Makedirs p) = True"
| "is_file (Write_File p c) = True"
| "is_file e = False"

fun run_effect :: "effect \<Rightarrow> bool" where
  "run_effect (Reply_Text m kb) = (m = Creating)"
| "run_effect (Edit_Text m kb) = (m = Creating)"
| "run_effect (Git argv cwd ok) = True"
| "run_effect (Git_Branch_R out) = True"
| "run_effect (Gemini_Post sp up) = True"
| "run_effect Netlify_Get = True"
| "run_effect (Netlify_Post b t) = True"
| "run_effect (Write_File p c) = True"
| "run_effect e = False"

fun messages :: "effect list \<Rightarrow> msg list" where
  "messages [] = []"
| "messages (Reply_Text m kb # es) = m # messages es"
| "messages (Edit_Text m kb # es) = m # messages es"
| "messages (e # es) = messages es"

fun git_commands :: "effect list \<Rightarrow> (string list \<times> bool) list" where
  "git_commands [] = []"
| "git_commands (Git argv cwd ok # es) = (argv, ok) # git_commands es"
| "git_commands (e # es) = git_commands es"

definition new_effects :: "'a io \<Rightarrow> bot_state \<Rightarrow> effect list" where
  "new_effects m s = drop (length (trace s)) (trace (snd (m s)))"

definition emits_only :: "(effect \<Rightarrow> bool) \<Rightarrow> 'a io \<Rightarrow> bool" where
  "emits_only P m \<longleftrightarrow>
     (\<forall>s. trace (snd (m s)) = trace s @ new_effects m s \<and> list_all P (new_effects m s))"

named_theorems emits_intros "what the operations append to the trace"

lemma emits_onlyI:
  assumes "\<And>s. \<exists>es. trace (snd (m s)) = trace s @ es \<and> list_all P es"
  shows "emits_only P m"
  unfolding emits_only_def new_effects_def
proof
  fix s
  from assms obtain es where "trace (snd (m s)) = trace s @ es" and "list_all P es"
    by blast
  then show "trace (snd (m s)) = trace s @ drop (length (trace s)) (trace (snd (m s))) \<and>
      list_all P (drop (length (trace s)) (trace (snd (m s))))"
    by simp
qed

lemma emits_onlyD:
  "emits_only P m \<Longrightarrow> trace (snd (m s)) = trace s @ new_effects m s"
  "emits_only P m \<Longrightarrow> list_all P (new_effects m s)"
  by (simp_all add: emits_only_def)

lemma emits_ret [emits_intros]: "emits_only P (ret x)"
  by (rule emits_onlyI) (simp add: ret_def)

lemma emits_raise [emits_intros]: "emits_only P (raise e)"
  by (rule emits_onlyI) (simp add: raise_def)

lemma emits_emit [emits_intros]: "P e \<Longrightarrow> emits_only P (emit e)"
  by (rule emits_onlyI) (simp add: emit_def)

lemma new_effects_bind:
  assumes "emits_only P m" and "\<And>x. emits_only P (f x)"
  shows "new_effects (bind_io m f) s =
     (case m s of (Inl e, s') \<Rightarrow> new_effects m s
      | (Inr x, s') \<Rightarrow> new_effects m s @ new_effects (f x) s')"
proof -
  obtain r s' where ms: "m s = (r, s')"
    by (cases "m s")
  from assms(1) ms have t1: "trace s' = trace s @ new_effects m s"
    by (auto dest: emits_onlyD(1) [where s = s])
  show ?thesis
  proof (cases r)
    case (Inl e)
    with ms show ?thesis
      by (simp add: new_effects_def bind_io_def)
  next
    case (Inr x)
    from assms(2) have "trace (snd (f x s')) = trace s' @ new_effects (f x) s'"
      by (rule emits_onlyD(1))
    with t1 ms Inr show ?thesis
      by (simp add: new_effects_def [of "bind_io m f"] bind_io_def)
  qed
qed

lemma emits_bind [emits_intros]:
  assumes "emits_only P m" and "\<And>x. emits_only P (f x)"
  shows "emits_only P (bind_io m f)"
proof (rule emits_onlyI)
  fix s
  obtain r s' where ms: "m s = (r, s')"
    by (cases "m s")
  from assms(1) ms have t1: "trace s' = trace s @ new_effects m s"
    and p1: "list_all P (new_effects m s)"
    by (auto dest: emits_onlyD [where s = s])
  show "\<exists>es. trace (snd (bind_io m f s)) = trace s @ es \<and> list_all P es"
  proof (cases r)
    case (Inl e)
    with ms t1 p1 show ?thesis
      by (auto simp: bind_io_def)
  next
    case (Inr x)
    from assms(2) have "trace (snd (f x s')) = trace s' @ new_effects (f x) s'"
      and "list_all P (new_effects (f x) s')"
      by (auto dest: emits_onlyD)
    with ms t1 p1 Inr show ?thesis
      by (auto simp: bind_io_def)
  qed
qed

lemma emits_then [emits_intros]:
  "emits_only P m \<Longrightarrow> emits_only P n \<Longrightarrow> emits_only P (then_io m n)"
  by (simp add: then_io_def emits_bind)

lemma emits_if [emits_intros]:
  "(b \<Longrightarrow> emits_only P m) \<Longrightarrow> (\<not> b \<Longrightarrow> emits_only P n) \<Longrightarrow>
   emits_only P (if b then m else n)"
  by simp

lemma emits_case_option [emits_intros]:
  "(x = None \<Longrightarrow> emits_only P m) \<Longrightarrow> (\<And>y. x = Some y \<Longrightarrow> emits_only P (f y)) \<Longrightarrow>
   emits_only P (case x of None \<Rightarrow> m | Some y \<Rightarrow> f y)"
  by (cases x) simp_all

lemma emits_silent [emits_intros]:
  "emits_only P (ud_get k)" "emits_only P (ud_set k v)" "emits_only P (path_exists p)"
  by (rule emits_onlyI, simp add: io_defs)+

lemma emits_files [emits_intros]:
  "P (Makedirs p) \<Longrightarrow> emits_only P (makedirs p)"
  "P (Write_File p c) \<Longrightarrow> emits_only P (write_file p c)"
  "P (Write_File (path_join d f) c) \<Longrightarrow> emits_only P (open_write d f c)"
  by (rule emits_onlyI, simp add: io_defs)+

lemma emits_chat [emits_intros]:
  "P (Reply_Text t kb) \<Longrightarrow> emits_only P (reply_text t kb)"
  "P (Edit_Text t kb) \<Longrightarrow> emits_only P (edit_message_text t kb)"
  "P (Answer a) \<Longrightarrow> emits_only P (answer a)"
  by (simp_all add: reply_text_def edit_message_text_def answer_def emits_emit)

lemma trace_run_io:
  assumes "emits_only P m"
  shows "trace (run_io m s) =
     trace s @ new_effects m s @ (case fst (m s) of Inl e \<Rightarrow> [Uncaught e] | Inr x \<Rightarrow> [])"
  using emits_onlyD(1) [OF assms, of s]
  by (cases "m s") (auto simp: run_io_def split: sum.splits)

lemma messages_append [simp]: "messages (xs @ ys) = messages xs @ messages ys"
  by (induction xs rule: messages.induct) simp_all

lemma test_env_simps [simp]:
  "git_ok test_env = (\<lambda>_. True)"
  "git_branch_r test_env = []"
  "gemini test_env = (\<lambda>_ _. Gemini_Text
       [CHR 0x60, CHR 0x60, CHR 0x60, CHR ''h'', CHR ''t'', CHR ''m'', CHR ''l'', CHR '' '',
        CHR ''h'', CHR ''i'', CHR '' '', CHR 0x60, CHR 0x60, CHR 0x60])"
  "netlify_site test_env = Http 200 True"
  "netlify_deploy test_env = (\<lambda>_ _. Http 201 True)"
  "get_file_ok test_env = True"
  "download_ok test_env = True"
  by (simp_all add: test_env_def)

lemma test_session_simps [simp]:
  "lookup_ud test_session ''channel_name'' = PStr ''My Cool Channel!!''"
  "lookup_ud test_session ''page_type'' = PStr ''1''"
  "lookup_ud test_session ''footer_text'' = PNone"
  "lookup_ud test_session ''logo_path'' = PStr ''repo/logo.png''"
  "exists_path test_session = (\<lambda>p. p = ''repo'' \<or> p = ''repo/logo.png'')"
  "file_text test_session = Map.empty"
  "trace test_session = []"
  by (simp_all add: test_session_def init_state_def lookup_ud_def)

lemma git_commands_append [simp]:
  "git_commands (xs @ ys) = git_commands xs @ git_commands ys"
  by (induction xs rule: git_commands.induct) simp_all

lemma trace_append_Nil [simp]: "s\<lparr>trace := trace s @ []\<rparr> = s"
  by simp

definition requests :: "effect list \<Rightarrow> effect list" where
  "requests es = filter is_http es"

lemma requests_simps [simp]:
  "requests [] = []"
  "requests (e # es) = (if is_http e then e # requests es else requests es)"
  "requests (xs @ ys) = requests xs @ requests ys"
  by (simp_all add: requests_def)

lemma new_effects_resumed:
  assumes "emits_only P m" and "trace s' = trace s @ es"
  shows "drop (length (trace s)) (trace (snd (m s'))) = es @ new_effects m s'"
  using emits_onlyD(1) [OF assms(1), of s'] assms(2) by simp

section \<open>What an operation does to the session\<close>

text \<open>
  \<open>keeps Q m\<close>: whenever \<open>Q\<close> holds of the session dictionary before \<open>m\<close>, it holds
  after it, whether \<open>m\<close> returns or raises. With \<open>Q\<close> the predicate ``is this
  dictionary'' it says that \<open>m\<close> leaves the session as it was (\<open>session_unchanged\<close>).
\<close>

definition keeps :: "((string \<rightharpoonup> pyval) \<Rightarrow> bool) \<Rightarrow> 'a io \<Rightarrow> bool" where
  "keeps Q m \<longleftrightarrow> (\<forall>s. Q (user_data s) \<longrightarrow> Q (user_data (snd (m s))))"

named_theorems keeps_intros "what the operations do to the session dictionary"

lemma keepsI: "(\<And>s. Q (user_data s) \<Longrightarrow> Q (user_data (snd (m s)))) \<Longrightarrow> keeps Q m"
  by (simp add: keeps_def)

lemma keepsD: "keeps Q m \<Longrightarrow> Q (user_data s) \<Longrightarrow> Q (user_data (snd (m s)))"
  by (simp add: keeps_def)

lemma session_unchanged:
  assumes "\<And>Q. keeps Q m"
  shows "user_data (snd (m s)) = user_data s"
  using assms [of "\<lambda>d. d = user_data s"] by (simp add: keeps_def)

lemma keeps_ret [keeps_intros]: "keeps Q (ret x)"
  by (simp add: keeps_def ret_def)

lemma keeps_raise [keeps_intros]: "keeps Q (raise e)"
  by (simp add: keeps_def raise_def)

lemma keeps_bind [keeps_intros]:
  assumes "keeps Q m" and "\<And>x. keeps Q (f x)"
  shows "keeps Q (bind_io m f)"
proof (rule keepsI)
  fix s :: bot_state
  assume "Q (user_data s)"
  with assms(1) have "Q (user_data (snd (m s)))"
    by (rule keepsD)
  with assms(2) show "Q (user_data (snd (bind_io m f s)))"
    by (cases "m s") (auto simp: bind_io_def dest: keepsD split: sum.splits)
qed

lemma keeps_then [keeps_intros]: "keeps Q m \<Longrightarrow> keeps Q n \<Longrightarrow> keeps Q (then_io m n)"
  by (simp add: then_io_def keeps_bind)

lemma keeps_if [keeps_intros]:
  "(b \<Longrightarrow> keeps Q m) \<Longrightarrow> (\<not> b \<Longrightarrow> keeps Q n) \<Longrightarrow> keeps Q (if b then m else n)"
  by simp

lemma keeps_case_option [keeps_intros]:
  "(x = None \<Longrightarrow> keeps Q m) \<Longrightarrow> (\<And>y. x = Some y \<Longrightarrow> keeps Q (f y)) \<Longrightarrow>
   keeps Q (case x of None \<Rightarrow> m | Some y \<Rightarrow> f y)"
  by (cases x) simp_all

lemma keeps_world [keeps_intros]:
  "keeps Q (emit e)" "keeps Q (ud_get k)" "keeps Q (path_exists p)" "keeps Q (makedirs p)"
  "keeps Q (write_file p c)" "keeps Q (open_write d f c)" "keeps Q (reply_text t kb)"
  "keeps Q (edit_message_text t kb)" "keeps Q (answer a)"
  by (simp_all add: keeps_def io_defs)

lemma keeps_ud_set [keeps_intros]:
  "(\<And>d. Q d \<Longrightarrow> Q (d(k \<mapsto> v))) \<Longrightarrow> keeps Q (ud_set k v)"
  by (simp add: keeps_def ud_set_def)

lemma keeps_run_io: "keeps Q m \<Longrightarrow> Q (user_data s) \<Longrightarrow> Q (user_data (run_io m s))"
  by (drule keepsD [where s = s]) (auto simp: run_io_def split: prod.splits sum.splits)

end
