(* ===== verification/Generator.thy ===== *)
theory Generator
  imports Bot_World
begin

text \<open>
  The content generator adapter: \<^verbatim>\<open>get_system_prompt\<close> and \<^verbatim>\<open>generate_page_html\<close> of
  \<^verbatim>\<open>src/bot.py\<close>. The prompt is built as the source builds it, piece by piece; the
  arguments are Python values because the handlers pass whatever the session holds,
  \<^verbatim>\<open>None\<close> included. The reply of the service is a \<open>gemini_reply\<close>:
  \<open>Gemini_Failed\<close> stands for every exception the function catches, a
  \<^verbatim>\<open>RequestException\<close> (no connection, a status that \<^verbatim>\<open>raise_for_status\<close> rejects);
  \<open>Gemini_Malformed\<close> for a reply that makes \<^verbatim>\<open>response.json()\<close> or the lookup
  \<^verbatim>\<open>result['candidates'][0]['content']['parts'][0]['text']\<close> raise an exception the
  function does not catch, with the kind of failure as its argument (\<open>decode_exc\<close>
  gives the exception: a missing key, an empty list, a value that cannot be indexed, a
  body that is not JSON); and \<open>Gemini_Text\<close> for the generated text. Whether a body
  that is not JSON is caught depends on the version of the HTTP library (it is a
  \<^verbatim>\<open>RequestException\<close> from version 2.27 on, a plain \<^verbatim>\<open>ValueError\<close> before); the \<open>env\<close>
  answers \<open>Gemini_Failed\<close> for the first and \<open>Gemini_Malformed Not_Json\<close> for the
  second.
\<close>

section \<open>The prompt\<close>

definition nl :: string where "nl = [CHR 0x0A]"
definition dq :: string where "dq = [CHR 0x22]"
definition sq :: string where "sq = [CHR 0x27]"

definition base_prompt_lines :: "string list" where
  "base_prompt_lines =
    [''The page must be fully responsive and styled with Tailwind CSS.'',
     ''It must follow this specific structure:'',
     ''1. A centered header with a logo (logo.png), title, and tagline.'',
     ''2. A call-to-action section with a button and a 15-second countdown timer.'',
     ''3. A main content section with a heading and two paragraphs.'',
     ''4. A footer with a credit link.'',
     ''The page should have a dark background and use vibrant, contrasting colors. The button must have a multi-color gradient and a subtle breathing animation. All text must be centered.'',
     ''Do NOT include any external JavaScript or CSS files, put all code in a single file.'']"

definition base_prompt :: "pyval \<Rightarrow> string" where
  "base_prompt channel_name =
     nl @ ''You are a web page generator. Your task is to generate a complete, single-file HTML landing page for a channel called ''
        @ dq @ py_str channel_name @ dq @ ''.'' @ nl
        @ concat (map (\<lambda>l. l @ nl) base_prompt_lines)"

definition type_instructions :: "(string \<times> string) list" where
  "type_instructions =
    [(''1'', ''Focus on modern tech aesthetics, innovation, and cutting-edge design. Use tech-related colors like blues, purples, and cyans.''),
     (''2'', ''Emphasize product showcase, shopping experience, and e-commerce features. Use warm, inviting colors like oranges, reds, and golds.''),
     (''3'', ''Professional, clean design with personal branding. Use sophisticated colors like navy, gold, and whites.''),
     (''4'', ''Software-focused with features, pricing, and signup forms. Use professional blues, greens, and modern gradients.''),
     (''5'', ''Food-focused with appetizing visuals and warm colors. Use reds, oranges, and food-related imagery descriptions.''),
     (''6'', ''Energetic, motivational design with fitness themes. Use vibrant colors like greens, oranges, and energetic gradients.''),
     (''7'', ''Educational, trustworthy design with learning focus. Use academic colors like deep blues, purples, and scholarly tones.''),
     (''8'', ''Cause-focused, emotional design with donation features. Use meaningful colors like greens, blues, and compassionate tones.''),
     (''9'', ''Professional, trustworthy design for property listings. Use earth tones, blues, and professional gradients.''),
     (''10'', ''Creative, artistic design showcasing portfolio work. Use bold, creative colors and artistic gradients.'')]"

definition footer_clause :: "pyval \<Rightarrow> string" where
  "footer_clause footer_text =
     (if truthy footer_text
      then nl @ ''The footer should include: '' @ sq @ ''Ads by '' @ py_str footer_text @ sq
      else [])"

definition type_clause :: "pyval \<Rightarrow> string" where
  "type_clause page_type =
     (case dict_index type_instructions page_type of Some t \<Rightarrow> nl @ t | None \<Rightarrow> [])"

definition final_clause :: string where
  "final_clause = nl @ ''Respond with ONLY the raw HTML code, no extra text or markdown.''"

definition get_system_prompt :: "pyval \<Rightarrow> pyval \<Rightarrow> pyval \<Rightarrow> string" where
  "get_system_prompt page_type channel_name footer_text =
     base_prompt channel_name @ footer_clause footer_text @ type_clause page_type
       @ final_clause"

definition get_user_prompt :: "pyval \<Rightarrow> pyval \<Rightarrow> string" where
  "get_user_prompt page_type channel_name =
     ''Create a '' @ dict_get LANDING_PAGE_TYPES page_type ''landing page''
       @ '' for the channel '' @ sq @ py_str channel_name @ sq"

section \<open>The code fence\<close>

definition fence :: string where
  "fence = [CHR 0x60, CHR 0x60, CHR 0x60]"

definition strip_markdown :: "string \<Rightarrow> string" where
  "strip_markdown generated_text =
     (if startswith generated_text (fence @ ''html'') \<and> endswith generated_text fence
      then py_strip (slice_mid 7 3 generated_text)
      else generated_text)"

section \<open>The request\<close>

fun decode_exc :: "decode_failure \<Rightarrow> exc" where
  "decode_exc Not_Json = ValueError"
| "decode_exc Missing_Key = KeyError"
| "decode_exc Empty_List = IndexError"
| "decode_exc Not_Subscriptable = TypeError"

definition generate_page_html :: "env \<Rightarrow> pyval \<Rightarrow> pyval \<Rightarrow> pyval \<Rightarrow> pyval io" where
  "generate_page_html E page_type channel_name footer_text =
     (let system_prompt = get_system_prompt page_type channel_name footer_text;
          user_prompt = get_user_prompt page_type channel_name
      in then_io (emit (Gemini_Post system_prompt user_prompt))
           (case gemini E system_prompt user_prompt of
              Gemini_Failed \<Rightarrow> ret PNone
            | Gemini_Malformed failure \<Rightarrow> raise (decode_exc failure)
            | Gemini_Text generated_text \<Rightarrow> ret (PStr (strip_markdown generated_text))))"

lemmas generator_defs =
  nl_def dq_def sq_def base_prompt_def footer_clause_def type_clause_def final_clause_def
  get_system_prompt_def get_user_prompt_def fence_def strip_markdown_def

section \<open>Lemmas on the fence\<close>

lemma length_fence [simp]: "length fence = 3" "length (fence @ ''html'') = 7"
  by (simp_all add: fence_def)

lemma strip_markdown_wrapped:
  "strip_markdown (fence @ ''html'' @ body @ fence) = py_strip body"
proof -
  have "startswith ((fence @ ''html'') @ body @ fence) (fence @ ''html'')"
    by (rule startswith_append)
  moreover have "endswith ((fence @ ''html'' @ body) @ fence) fence"
    by (rule endswith_append)
  moreover have "slice_mid (length (fence @ ''html'')) (length fence)
      ((fence @ ''html'') @ body @ fence) = body"
    by (rule slice_mid_append)
  ultimately show ?thesis
    by (simp add: strip_markdown_def)
qed

lemma strip_markdown_unfenced:
  "\<not> startswith t (fence @ ''html'') \<or> \<not> endswith t fence \<Longrightarrow> strip_markdown t = t"
  by (auto simp: strip_markdown_def)

lemma strip_markdown_cases:
  "strip_markdown t = t \<or> (\<exists>body. t = fence @ ''html'' @ body @ fence \<and>
     strip_markdown t = py_strip body)"
proof (cases "startswith t (fence @ ''html'') \<and> endswith t fence")
  case False
  then show ?thesis
    by (auto simp: strip_markdown_def)
next
  case True
  then obtain r where r: "t = (fence @ ''html'') @ r"
    by (auto simp: startswith_def prefix_def)
  from True have True': "endswith t fence"
    by simp
  have "suffix fence r"
  proof (cases "length r < 3")
    case True
    from short_list_cases [OF True] r True' show ?thesis
      by (auto simp: endswith_def suffix_to_prefix fence_def)
  next
    case False
    then have "suffix fence ((fence @ ''html'') @ r) \<longleftrightarrow> suffix fence r"
      by (intro suffix_append_long) simp
    with r True' show ?thesis
      by (simp add: endswith_def)
  qed
  then obtain body where "r = body @ fence"
    by (auto simp: suffix_def)
  with r have "t = fence @ ''html'' @ body @ fence"
    by simp
  then show ?thesis
    using strip_markdown_wrapped [of body] by auto
qed

lemma strip_markdown_newline_after:
  "strip_markdown (fence @ ''html'' @ body @ fence @ nl) = fence @ ''html'' @ body @ fence @ nl"
proof -
  have "\<not> suffix fence ((fence @ ''html'' @ body) @ fence @ nl)"
    by (simp add: suffix_to_prefix fence_def nl_def)
  then show ?thesis
    by (simp add: strip_markdown_def endswith_def)
qed

definition generate_result :: "env \<Rightarrow> pyval \<Rightarrow> pyval \<Rightarrow> pyval \<Rightarrow> exc + pyval" where
  "generate_result E page_type channel_name footer_text =
     (case gemini E (get_system_prompt page_type channel_name footer_text)
         (get_user_prompt page_type channel_name) of
        Gemini_Failed \<Rightarrow> Inr PNone
      | Gemini_Malformed failure \<Rightarrow> Inl (decode_exc failure)
      | Gemini_Text t \<Rightarrow> Inr (PStr (strip_markdown t)))"

lemma generate_page_html_run:
  "generate_page_html E page_type channel_name footer_text s =
     (generate_result E page_type channel_name footer_text,
      s\<lparr>trace := trace s @ [Gemini_Post (get_system_prompt page_type channel_name footer_text)
         (get_user_prompt page_type channel_name)]\<rparr>)"
  by (simp add: generate_page_html_def generate_result_def io_defs Let_def
      split: gemini_reply.splits)

section \<open>Properties of the generator adapter\<close>

text \<open>
  C16. When the service replies with text wrapped in a code fence (three backquotes and
  \<^verbatim>\<open>html\<close> in front, three backquotes behind), \<open>generate_page_html\<close> returns the text
  between the fences with surrounding white space removed, and no exception.
\<close>
theorem generate_page_html_fenced:
  assumes "gemini E (get_system_prompt page_type channel_name footer_text)
      (get_user_prompt page_type channel_name) = Gemini_Text (fence @ ''html'' @ body @ fence)"
  shows "fst (generate_page_html E page_type channel_name footer_text s)
      = Inr (PStr (py_strip body))"
  using assms strip_markdown_wrapped [of body]
  by (simp add: generate_page_html_def io_defs Let_def)

theorem generate_page_html_fenced_witness:
  "fst (generate_page_html test_env (PStr ''1'') (PStr ''shop'') PNone init_state)
     = Inr (PStr ''hi'')"
proof -
  have "py_strip '' hi '' = ''hi''"
    by (simp add: py_defs)
  with generate_page_html_fenced [of test_env "PStr ''1''" "PStr ''shop''" PNone
      "'' hi ''" init_state]
  show ?thesis
    by (simp add: test_env_def fence_def)
qed

text \<open>
  C26. The fence is removed only when the reply ends with the three backquotes: a
  fenced reply followed by a newline is returned as it is, fences included, so the
  caller does not always receive a bare payload.
\<close>
theorem generate_page_html_keeps_fence:
  assumes "gemini E (get_system_prompt page_type channel_name footer_text)
      (get_user_prompt page_type channel_name)
        = Gemini_Text (fence @ ''html'' @ body @ fence @ nl)"
  shows "fst (generate_page_html E page_type channel_name footer_text s)
      = Inr (PStr (fence @ ''html'' @ body @ fence @ nl))"
  using assms strip_markdown_newline_after [of body]
  by (simp add: generate_page_html_def io_defs Let_def)

theorem generate_page_html_keeps_fence_witness:
  "fst (generate_page_html
      (test_env\<lparr>gemini := (\<lambda>_ _. Gemini_Text (fence @ ''html'' @ ''<p/>'' @ fence @ nl))\<rparr>)
      (PStr ''1'') (PStr ''shop'') PNone init_state)
     = Inr (PStr (fence @ ''html'' @ ''<p/>'' @ fence @ nl))"
  using generate_page_html_keeps_fence [of
      "test_env\<lparr>gemini := (\<lambda>_ _. Gemini_Text (fence @ ''html'' @ ''<p/>'' @ fence @ nl))\<rparr>"
      "PStr ''1''" "PStr ''shop''" PNone "''<p/>''" init_state]
  by simp

text \<open>
  C17. One call of \<open>generate_page_html\<close> sends exactly one request, whatever the
  reply: a failed request gives \<^verbatim>\<open>None\<close> without a second attempt, and a reply without
  the expected fields raises an exception instead of giving \<^verbatim>\<open>None\<close>.
\<close>
theorem generate_page_html_single_attempt:
  "new_effects (generate_page_html E page_type channel_name footer_text) s
     = [Gemini_Post (get_system_prompt page_type channel_name footer_text)
         (get_user_prompt page_type channel_name)]
   \<and> (gemini E (get_system_prompt page_type channel_name footer_text)
         (get_user_prompt page_type channel_name) = Gemini_Failed \<longrightarrow>
       fst (generate_page_html E page_type channel_name footer_text s) = Inr PNone)
   \<and> (gemini E (get_system_prompt page_type channel_name footer_text)
         (get_user_prompt page_type channel_name) = Gemini_Malformed failure \<longrightarrow>
       fst (generate_page_html E page_type channel_name footer_text s)
         = Inl (decode_exc failure))"
  by (simp add: generate_page_html_def new_effects_def io_defs Let_def
      split: gemini_reply.splits)

theorem generate_page_html_single_attempt_witness:
  "new_effects (generate_page_html (test_env\<lparr>gemini := (\<lambda>_ _. Gemini_Malformed Missing_Key)\<rparr>)
      (PStr ''1'') (PStr ''shop'') PNone) init_state
     = [Gemini_Post (get_system_prompt (PStr ''1'') (PStr ''shop'') PNone)
         (get_user_prompt (PStr ''1'') (PStr ''shop''))]
   \<and> fst (generate_page_html (test_env\<lparr>gemini := (\<lambda>_ _. Gemini_Malformed Missing_Key)\<rparr>)
      (PStr ''1'') (PStr ''shop'') PNone init_state) = Inl KeyError
   \<and> fst (generate_page_html (test_env\<lparr>gemini := (\<lambda>_ _. Gemini_Failed)\<rparr>)
      (PStr ''1'') (PStr ''shop'') PNone init_state) = Inr PNone"
  using generate_page_html_single_attempt [of
      "test_env\<lparr>gemini := (\<lambda>_ _. Gemini_Malformed Missing_Key)\<rparr>" "PStr ''1''" "PStr ''shop''" PNone
      init_state Missing_Key]
    generate_page_html_single_attempt [of
      "test_env\<lparr>gemini := (\<lambda>_ _. Gemini_Failed)\<rparr>" "PStr ''1''" "PStr ''shop''" PNone
      init_state]
  by simp

end
