(* ===== verification/Sanitizer.thy ===== *)
theory Sanitizer
  imports Py_Text
begin

text \<open>
  The branch name sanitizer \<^verbatim>\<open>sanitize_branch_name\<close> of \<^verbatim>\<open>src/bot.py\<close> and the
  subdomain sanitizer inlined in \<^verbatim>\<open>deploy_to_netlify\<close>. The three regular expressions
  of the source are three functions: \<open>re_sub_outside\<close> (replace every character outside
  a class), \<open>collapse_runs\<close> (replace every maximal run of one character by one
  occurrence) and \<open>starts_alnum\<close> (\<^verbatim>\<open>re.match\<close> of one character class at the start).
  The lemmas show the character set and the shape of the result, when sanitizing twice
  changes nothing and when it does, and which changes of a name the sanitizer does not
  see, so that distinct names share a branch.
\<close>

section \<open>Character classes of the regular expressions\<close>

definition word_char :: "char \<Rightarrow> bool" where
  "word_char c \<longleftrightarrow> is_lower c \<or> is_upper c \<or> is_digit c \<or> c = CHR ''-'' \<or> c = CHR ''_''"

definition host_char :: "char \<Rightarrow> bool" where
  "host_char c \<longleftrightarrow> is_lower c \<or> is_upper c \<or> is_digit c \<or> c = CHR ''-''"

definition alnum_char :: "char \<Rightarrow> bool" where
  "alnum_char c \<longleftrightarrow> is_lower c \<or> is_upper c \<or> is_digit c"

section \<open>The regular expression operations\<close>

definition re_sub_outside :: "(char \<Rightarrow> bool) \<Rightarrow> char \<Rightarrow> string \<Rightarrow> string" where
  "re_sub_outside cls r s = map (\<lambda>c. if cls c then c else r) s"

fun collapse_runs :: "char \<Rightarrow> string \<Rightarrow> string" where
  "collapse_runs h [] = []"
| "collapse_runs h [x] = [x]"
| "collapse_runs h (x # y # xs) =
     (if x = h \<and> y = h then collapse_runs h (y # xs) else x # collapse_runs h (y # xs))"

definition starts_alnum :: "string \<Rightarrow> bool" where
  "starts_alnum s = (case s of [] \<Rightarrow> False | c # _ \<Rightarrow> alnum_char c)"

section \<open>The sanitizers\<close>

definition sanitize_core :: "string \<Rightarrow> string" where
  "sanitize_core name =
     (let sanitized = re_sub_outside word_char (CHR ''-'') (py_lower name);
          sanitized = collapse_runs (CHR ''-'') sanitized
      in py_strip_chars ''-'' sanitized)"

definition sanitize_branch_name :: "string \<Rightarrow> string" where
  "sanitize_branch_name name =
     (let sanitized = sanitize_core name
      in if \<not> starts_alnum sanitized then ''page-'' @ sanitized else sanitized)"

definition netlify_subdomain :: "string \<Rightarrow> string" where
  "netlify_subdomain channel_name =
     (let subdomain = re_sub_outside host_char (CHR ''-'') (py_lower channel_name)
      in py_strip_chars ''-'' (collapse_runs (CHR ''-'') subdomain))"

section \<open>What the specification promises of a result\<close>

definition ident_char :: "char \<Rightarrow> bool" where
  "ident_char c \<longleftrightarrow> is_lower c \<or> is_digit c \<or> c = CHR ''-'' \<or> c = CHR ''_''"

definition label_char :: "char \<Rightarrow> bool" where
  "label_char c \<longleftrightarrow> is_lower c \<or> is_digit c \<or> c = CHR ''-''"

definition valid_branch :: "string \<Rightarrow> bool" where
  "valid_branch s =
     (case s of [] \<Rightarrow> False | c # cs \<Rightarrow> (is_lower c \<or> is_digit c) \<and> list_all ident_char cs)"

definition has_run :: "char \<Rightarrow> string \<Rightarrow> bool" where
  "has_run h s \<longleftrightarrow> sublist [h, h] s"

lemmas sanitizer_defs =
  word_char_def host_char_def alnum_char_def re_sub_outside_def starts_alnum_def
  sanitize_core_def sanitize_branch_name_def netlify_subdomain_def
  ident_char_def label_char_def valid_branch_def has_run_def

section \<open>Character class lemmas\<close>

lemma ident_char_lower_sub [charset]:
  "ident_char (if word_char (lower_char c) then lower_char c else CHR ''-'')"
  using lower_char_not_upper [of c] by (auto simp: ident_char_def word_char_def)

lemma label_char_lower_sub [charset]:
  "label_char (if host_char (lower_char c) then lower_char c else CHR ''-'')"
  using lower_char_not_upper [of c] by (auto simp: label_char_def host_char_def)

lemma ident_char_not_upper [charset]: "ident_char c \<Longrightarrow> \<not> cased_upper c"
  by (auto simp: ident_char_def char_class_defs)

lemma ident_char_word [charset]: "ident_char c \<Longrightarrow> word_char c"
  by (auto simp: ident_char_def word_char_def)

lemma ident_alnum_iff [charset]:
  "ident_char c \<Longrightarrow> alnum_char c \<longleftrightarrow> is_lower c \<or> is_digit c"
  by (auto simp: ident_char_def alnum_char_def char_class_defs)

lemma alnum_not_hyphen [charset]: "alnum_char c \<Longrightarrow> c \<noteq> CHR ''-''"
  by (auto simp: alnum_char_def char_class_defs)

lemma label_char_ident [charset]: "label_char c \<Longrightarrow> ident_char c"
  by (auto simp: label_char_def ident_char_def)

section \<open>Replacing and collapsing\<close>

lemma re_sub_outside_id: "list_all cls s \<Longrightarrow> re_sub_outside cls r s = s"
  by (induction s) (simp_all add: re_sub_outside_def)

lemma length_re_sub_outside [simp]: "length (re_sub_outside cls r s) = length s"
  by (simp add: re_sub_outside_def)

lemma collapse_runs_eq_Nil_iff [simp]: "collapse_runs h s = [] \<longleftrightarrow> s = []"
  by (induction h s rule: collapse_runs.induct) auto

lemma hd_collapse_runs [simp]: "hd (collapse_runs h s) = hd s"
  by (induction h s rule: collapse_runs.induct) auto

lemma last_collapse_runs [simp]: "last (collapse_runs h s) = last s"
  by (induction h s rule: collapse_runs.induct) auto

lemma set_collapse_runs [simp]: "set (collapse_runs h s) = set s"
  by (induction h s rule: collapse_runs.induct) auto

lemma list_all_collapse_runs [strip_simps]:
  "list_all Q (collapse_runs h s) \<longleftrightarrow> list_all Q s"
  by (simp add: list_all_iff)

lemma length_collapse_runs: "length (collapse_runs h s) \<le> length s"
  by (induction h s rule: collapse_runs.induct) auto

lemma has_run_Cons_Cons [simp]:
  "has_run h (x # y # xs) \<longleftrightarrow> (x = h \<and> y = h) \<or> has_run h (y # xs)"
  by (auto simp: has_run_def sublist_Cons_right)

lemma has_run_short [simp]: "\<not> has_run h []" "\<not> has_run h [x]"
  by (simp_all add: has_run_def sublist_Cons_right)

lemma collapse_runs_no_run [strip_simps]: "\<not> has_run h (collapse_runs h s)"
proof (induction h s rule: collapse_runs.induct)
  case (3 h x y xs)
  then show ?case
    by (cases "collapse_runs h (y # xs)")
      (auto dest: arg_cong [where f = hd] split: if_splits)
qed simp_all

lemma collapse_runs_id [strip_simps]: "\<not> has_run h s \<Longrightarrow> collapse_runs h s = s"
  by (induction h s rule: collapse_runs.induct) auto

lemma collapse_runs_idem [simp]: "collapse_runs h (collapse_runs h s) = collapse_runs h s"
  by (simp add: collapse_runs_id collapse_runs_no_run)

lemma collapse_runs_snoc:
  "collapse_runs h (s @ [h]) =
     (if s \<noteq> [] \<and> last s = h then collapse_runs h s else collapse_runs h s @ [h])"
  by (induction h s rule: collapse_runs.induct) auto

lemma strip_collapse_snoc [strip_simps]:
  "P h \<Longrightarrow> strip_with P (collapse_runs h (s @ [h])) = strip_with P (collapse_runs h s)"
  by (simp add: collapse_runs_snoc strip_with_snoc)

lemma re_sub_outside_append [simp]:
  "re_sub_outside cls r (s @ t) = re_sub_outside cls r s @ re_sub_outside cls r t"
  by (simp add: re_sub_outside_def)

lemma has_run_sublist: "sublist s t \<Longrightarrow> has_run h s \<Longrightarrow> has_run h t"
  unfolding has_run_def by (rule sublist_order.order_trans)

lemma has_run_Cons:
  "has_run h (x # s) \<longleftrightarrow> (s \<noteq> [] \<and> x = h \<and> hd s = h) \<or> has_run h s"
  by (cases s) auto

lemma has_run_append_iff:
  "s \<noteq> [] \<Longrightarrow> t \<noteq> [] \<Longrightarrow>
   has_run h (s @ t) \<longleftrightarrow> has_run h s \<or> has_run h t \<or> (last s = h \<and> hd t = h)"
proof (induction s)
  case Nil
  then show ?case by simp
next
  case (Cons x s)
  show ?case
  proof (cases "s = []")
    case True
    with Cons.prems show ?thesis
      by (auto simp: has_run_Cons)
  next
    case False
    with Cons show ?thesis
      by (auto simp: has_run_Cons)
  qed
qed

section \<open>The shape of a sanitized core\<close>

definition clean :: "string \<Rightarrow> bool" where
  "clean s \<longleftrightarrow> list_all ident_char s \<and> \<not> has_run (CHR ''-'') s \<and>
     (s = [] \<or> (hd s \<noteq> CHR ''-'' \<and> last s \<noteq> CHR ''-''))"

lemma lower_char_eq_hyphen [charset]: "lower_char c = CHR ''-'' \<longleftrightarrow> c = CHR ''-''"
  by (rule lower_char_eq_ascii) simp

lemma lower_char_eq_underscore [charset]: "lower_char c = CHR ''_'' \<longleftrightarrow> c = CHR ''_''"
  by (rule lower_char_eq_ascii) simp

lemma word_char_lower_char [charset]: "word_char (lower_char c) \<longleftrightarrow> word_char c"
  by (auto simp: word_char_def lower_char_is_lower_iff lower_char_is_digit_iff
      lower_char_not_upper lower_char_eq_hyphen lower_char_eq_underscore)

lemma sub_is_hyphen_iff [charset]:
  "(if word_char (lower_char c) then lower_char c else CHR ''-'') = CHR ''-''
   \<longleftrightarrow> \<not> alnum_char c \<and> c \<noteq> CHR ''_''"
proof -
  have "word_char c \<and> c \<noteq> CHR ''-'' \<longleftrightarrow> alnum_char c \<or> c = CHR ''_''"
    using alnum_not_hyphen [of c] by (auto simp: word_char_def alnum_char_def)
  then show ?thesis
    by (auto simp: word_char_lower_char lower_char_eq_hyphen)
qed

lemma list_all_ident_sub:
  "list_all ident_char (re_sub_outside word_char (CHR ''-'') (py_lower name))"
  by (induction name) (simp_all add: re_sub_outside_def py_lower_def ident_char_lower_sub)

lemma list_all_ident_core: "list_all ident_char (sanitize_core name)"
  by (simp add: sanitize_core_def py_strip_chars_def list_all_strip_with
      list_all_collapse_runs list_all_ident_sub)

lemma no_run_core: "\<not> has_run (CHR ''-'') (sanitize_core name)"
proof
  assume "has_run (CHR ''-'') (sanitize_core name)"
  then have "has_run (CHR ''-'')
      (collapse_runs (CHR ''-'') (re_sub_outside word_char (CHR ''-'') (py_lower name)))"
    unfolding sanitize_core_def py_strip_chars_def Let_def
    by (rule has_run_sublist [OF sublist_strip_with])
  then show False
    by (simp add: collapse_runs_no_run)
qed

lemma ends_core:
  "sanitize_core name \<noteq> [] \<Longrightarrow>
   hd (sanitize_core name) \<noteq> CHR ''-'' \<and> last (sanitize_core name) \<noteq> CHR ''-''"
  unfolding sanitize_core_def py_strip_chars_def Let_def
  using hd_strip_with [where P = "\<lambda>c. c \<in> set ''-''"]
    last_strip_with [where P = "\<lambda>c. c \<in> set ''-''"]
  by fastforce

lemma clean_core: "clean (sanitize_core name)"
  using ends_core [of name] by (auto simp: clean_def list_all_ident_core no_run_core)

lemma sanitize_core_clean:
  assumes "clean s"
  shows "sanitize_core s = s"
proof -
  from assms have ident: "list_all ident_char s"
    by (simp add: clean_def)
  then have "py_lower s = s"
    by (intro py_lower_id) (auto simp: list_all_iff dest: ident_char_not_upper)
  moreover from ident have "re_sub_outside word_char (CHR ''-'') s = s"
    by (intro re_sub_outside_id) (auto simp: list_all_iff dest: ident_char_word)
  moreover from assms have "collapse_runs (CHR ''-'') s = s"
    by (simp add: clean_def collapse_runs_id)
  moreover from assms have "strip_with (\<lambda>c. c \<in> set ''-'') s = s"
    by (intro strip_with_id) (auto simp: clean_def)
  ultimately show ?thesis
    by (simp add: sanitize_core_def py_strip_chars_def)
qed

lemma clean_page_prefix:
  assumes "clean s" and "s \<noteq> []"
  shows "clean (''page-'' @ s)"
proof -
  from assms have "\<not> has_run (CHR ''-'') (''page-'' @ s)"
    by (subst has_run_append_iff) (auto simp: clean_def)
  with assms show ?thesis
    by (auto simp: clean_def ident_char_def char_class_defs)
qed

lemma starts_alnum_page [simp]: "starts_alnum (''page-'' @ s)"
  by (simp add: starts_alnum_def alnum_char_def char_class_defs)

lemma sanitize_core_eq_Nil_iff:
  "sanitize_core name = [] \<longleftrightarrow> list_all (\<lambda>c. \<not> alnum_char c \<and> c \<noteq> CHR ''_'') name"
proof -
  have "sanitize_core name = [] \<longleftrightarrow>
      list_all (\<lambda>c. c = CHR ''-'') (re_sub_outside word_char (CHR ''-'') (py_lower name))"
    by (simp add: sanitize_core_def py_strip_chars_def strip_with_eq_Nil_iff
        list_all_collapse_runs)
  also have "\<dots> \<longleftrightarrow> list_all (\<lambda>c. \<not> alnum_char c \<and> c \<noteq> CHR ''_'') name"
    by (induction name) (simp_all add: re_sub_outside_def py_lower_def sub_is_hyphen_iff)
  finally show ?thesis .
qed

section \<open>Changes of a name that the sanitizer does not see\<close>

lemma sanitize_core_lower: "sanitize_core (py_lower name) = sanitize_core name"
  by (simp add: sanitize_core_def)

lemma sanitize_core_snoc:
  assumes "\<not> alnum_char c \<and> c \<noteq> CHR ''_''"
  shows "sanitize_core (name @ [c]) = sanitize_core name"
proof -
  from assms have "re_sub_outside word_char (CHR ''-'') (py_lower [c]) = ''-''"
    using sub_is_hyphen_iff [of c] by (simp add: re_sub_outside_def py_lower_def)
  then show ?thesis
    by (simp add: sanitize_core_def py_strip_chars_def strip_collapse_snoc)
qed

lemma sanitize_core_as_hyphen:
  assumes "\<not> alnum_char c \<and> c \<noteq> CHR ''_''"
  shows "sanitize_core (name @ [c] @ rest) = sanitize_core (name @ ''-'' @ rest)"
  using assms sub_is_hyphen_iff [of c] sub_is_hyphen_iff [of "CHR ''-''"] alnum_not_hyphen
  by (auto simp: sanitize_core_def py_lower_def re_sub_outside_def)

section \<open>The shape of a subdomain\<close>

lemma host_sub_is_hyphen_iff [charset]:
  "(if host_char (lower_char c) then lower_char c else CHR ''-'') = CHR ''-''
   \<longleftrightarrow> \<not> alnum_char c"
proof -
  have "host_char (lower_char c) \<longleftrightarrow> host_char c"
    by (auto simp: host_char_def lower_char_is_lower_iff lower_char_is_digit_iff
        lower_char_not_upper lower_char_eq_hyphen)
  moreover have "host_char c \<and> c \<noteq> CHR ''-'' \<longleftrightarrow> alnum_char c"
    using alnum_not_hyphen [of c] by (auto simp: host_char_def alnum_char_def)
  ultimately show ?thesis
    by (auto simp: lower_char_eq_hyphen)
qed

lemma list_all_label_sub:
  "list_all label_char (re_sub_outside host_char (CHR ''-'') (py_lower name))"
  by (induction name) (simp_all add: re_sub_outside_def py_lower_def label_char_lower_sub)

lemma strip_collapsed_shape:
  fixes s :: string
  defines "r \<equiv> py_strip_chars ''-'' (collapse_runs (CHR ''-'') s)"
  shows "\<not> has_run (CHR ''-'') r"
    and "r = [] \<or> (hd r \<noteq> CHR ''-'' \<and> last r \<noteq> CHR ''-'')"
    and "r = [] \<longleftrightarrow> list_all (\<lambda>c. c = CHR ''-'') s"
    and "list_all Q s \<Longrightarrow> list_all Q r"
proof -
  show "\<not> has_run (CHR ''-'') r"
    unfolding r_def py_strip_chars_def
    using has_run_sublist [OF sublist_strip_with] collapse_runs_no_run by blast
  show "r = [] \<or> (hd r \<noteq> CHR ''-'' \<and> last r \<noteq> CHR ''-'')"
    unfolding r_def py_strip_chars_def
    using hd_strip_with [where P = "\<lambda>c. c \<in> set ''-''"]
      last_strip_with [where P = "\<lambda>c. c \<in> set ''-''"]
    by fastforce
  show "r = [] \<longleftrightarrow> list_all (\<lambda>c. c = CHR ''-'') s"
    by (simp add: r_def py_strip_chars_def strip_with_eq_Nil_iff list_all_collapse_runs)
  show "list_all Q r" if "list_all Q s"
    using that
    by (simp add: r_def py_strip_chars_def list_all_strip_with list_all_collapse_runs)
qed

section \<open>Properties of the branch name sanitizer\<close>

text \<open>
  C3. For every input text the result of \<open>sanitize_branch_name\<close> is a valid branch
  identifier: it is not empty, starts with a lower-case letter or a digit, and holds
  only lower-case letters, digits, hyphens and underscores (the specification's
  \<^verbatim>\<open>^[a-z0-9][a-z0-9_-]*$\<close>).
\<close>
theorem sanitize_branch_name_valid: "valid_branch (sanitize_branch_name name)"
proof (cases "starts_alnum (sanitize_core name)")
  case True
  then obtain c cs where core: "sanitize_core name = c # cs" and c: "alnum_char c"
    by (auto simp: starts_alnum_def split: list.splits)
  from list_all_ident_core [of name] core have "ident_char c" and "list_all ident_char cs"
    by simp_all
  with c True core show ?thesis
    by (simp add: sanitize_branch_name_def valid_branch_def ident_alnum_iff)
next
  case False
  with list_all_ident_core [of name] show ?thesis
    by (simp add: sanitize_branch_name_def valid_branch_def ident_char_def char_class_defs)
qed

text \<open>
  C9. Sanitizing a sanitized name changes nothing exactly when the name keeps at least
  one letter, digit or underscore; for a name that reduces to nothing the first result
  is the bare fallback \<^verbatim>\<open>page-\<close> and the second is \<^verbatim>\<open>page\<close>, so the idempotence
  the specification states fails there.
\<close>
theorem sanitize_branch_name_idem_iff:
  "sanitize_branch_name (sanitize_branch_name name) = sanitize_branch_name name
   \<longleftrightarrow> sanitize_core name \<noteq> []"
proof (cases "sanitize_core name = []")
  case True
  have "sanitize_branch_name ''page-'' = ''page''"
    by (simp add: sanitizer_defs py_defs)
  with True show ?thesis
    by (simp add: sanitize_branch_name_def starts_alnum_def)
next
  case False
  let ?r = "sanitize_branch_name name"
  have clean: "clean ?r" and start: "starts_alnum ?r"
    using clean_core [of name] clean_page_prefix [OF clean_core False]
      starts_alnum_page [of "sanitize_core name"]
    by (simp_all add: sanitize_branch_name_def Let_def)
  from clean have "sanitize_core ?r = ?r"
    by (rule sanitize_core_clean)
  with start have "sanitize_branch_name ?r = ?r"
    by (simp add: sanitize_branch_name_def [of ?r])
  with False show ?thesis
    by simp
qed

text \<open>
  C24. A name with no letter, digit or underscore is sanitized to exactly the fallback
  prefix \<^verbatim>\<open>page-\<close>; any other name whose core does not start with a letter or digit
  gets the prefix put in front of its core.
\<close>
theorem sanitize_branch_name_fallback:
  "sanitize_branch_name name =
     (if list_all (\<lambda>c. \<not> alnum_char c \<and> c \<noteq> CHR ''_'') name then ''page-''
      else if starts_alnum (sanitize_core name) then sanitize_core name
      else ''page-'' @ sanitize_core name)"
  by (auto simp: sanitize_branch_name_def starts_alnum_def
      sanitize_core_eq_Nil_iff [symmetric])

text \<open>
  C25. The sanitizer is far from injective. The branch of a name does not change when
  the name is put in lower case, when a character that is not a letter, a digit or an
  underscore is appended to it, or when such a character anywhere in it is replaced by
  a hyphen. Channel names that differ only in this way are published on the same
  branch, and the later publish overwrites the earlier one.
\<close>
theorem sanitize_branch_name_collisions:
  "sanitize_branch_name (py_lower name) = sanitize_branch_name name \<and>
   (\<not> alnum_char c \<and> c \<noteq> CHR ''_'' \<longrightarrow>
      sanitize_branch_name (name @ [c]) = sanitize_branch_name name \<and>
      sanitize_branch_name (name @ [c] @ rest) = sanitize_branch_name (name @ ''-'' @ rest))"
  using sanitize_core_as_hyphen [of c name rest]
  by (simp add: sanitize_branch_name_def sanitize_core_lower sanitize_core_snoc)

theorem sanitize_branch_name_collisions_witness:
  "\<not> alnum_char (CHR ''!'') \<and> CHR ''!'' \<noteq> CHR ''_'' \<and>
   sanitize_branch_name ''page-My Channel!'' = sanitize_branch_name ''page-My Channel'' \<and>
   sanitize_branch_name ''page-My Channel!2'' = sanitize_branch_name ''page-My Channel-2''"
  using sanitize_branch_name_collisions [of "''page-My Channel''" "CHR ''!''" "''2''"]
  by (simp add: alnum_char_def char_class_defs)

text \<open>
  C23. The subdomain computed for the deployment consists of lower-case letters,
  digits and single hyphens and neither starts nor ends with a hyphen. It has no
  fallback: it is empty exactly when the channel name has no letter and no digit, and
  the predicted address is then \<^verbatim>\<open>https://.netlify.app\<close>.
\<close>
theorem netlify_subdomain_shape:
  "list_all label_char (netlify_subdomain name) \<and>
   \<not> has_run (CHR ''-'') (netlify_subdomain name) \<and>
   (netlify_subdomain name = [] \<or>
      (hd (netlify_subdomain name) \<noteq> CHR ''-'' \<and> last (netlify_subdomain name) \<noteq> CHR ''-'')) \<and>
   (netlify_subdomain name = [] \<longleftrightarrow> list_all (\<lambda>c. \<not> alnum_char c) name)"
proof -
  let ?s = "re_sub_outside host_char (CHR ''-'') (py_lower name)"
  have "list_all (\<lambda>c. c = CHR ''-'') ?s \<longleftrightarrow> list_all (\<lambda>c. \<not> alnum_char c) name"
    by (induction name) (simp_all add: re_sub_outside_def py_lower_def host_sub_is_hyphen_iff)
  with strip_collapsed_shape(1,2,3) [of ?s]
    strip_collapsed_shape(4) [OF list_all_label_sub [of name]]
  show ?thesis
    by (simp add: netlify_subdomain_def)
qed

end
