(* ===== verification/Deployer.thy ===== *)
theory Deployer
  imports Bot_World Sanitizer
begin

text \<open>
  The deployment trigger adapter: \<^verbatim>\<open>deploy_to_netlify\<close> of \<^verbatim>\<open>src/bot.py\<close>. The result
  is the public URL or \<^verbatim>\<open>None\<close>. The subdomain is computed before the \<^verbatim>\<open>try\<close> block
  of the source, so a channel name that is not a string raises there; everything
  inside the block that fails (a transport error, a status other than 200 or 201, a
  body that is not JSON) gives \<^verbatim>\<open>None\<close>.
\<close>

definition deploy_title :: "string \<Rightarrow> string" where
  "deploy_title channel_name = ''Deploy '' @ channel_name @ '' landing page''"

definition create_deploy :: "env \<Rightarrow> string \<Rightarrow> string \<Rightarrow> string \<Rightarrow> pyval io" where
  "create_deploy E branch_name channel_name subdomain_url =
     then_io (emit (Netlify_Post branch_name (deploy_title channel_name)))
       (case netlify_deploy E branch_name (deploy_title channel_name) of
          Http_Exception \<Rightarrow> ret PNone
        | Http status json_ok \<Rightarrow>
            if status = 201 then
              (if json_ok then ret (PStr (''https://'' @ subdomain_url)) else ret PNone)
            else ret PNone)"

definition deploy_to_netlify :: "config \<Rightarrow> env \<Rightarrow> string \<Rightarrow> pyval \<Rightarrow> pyval io" where
  "deploy_to_netlify C E branch_name channel_name =
     (if \<not> truthy_opt (NETLIFY_API_TOKEN C) \<or> \<not> truthy_opt (NETLIFY_SITE_ID C)
      then ret PNone
      else case channel_name of
        PStr name \<Rightarrow>
          (let subdomain = netlify_subdomain name;
               subdomain_url = subdomain @ ''.netlify.app''
           in then_io (emit Netlify_Get)
                (case netlify_site E of
                   Http_Exception \<Rightarrow> ret PNone
                 | Http status json_ok \<Rightarrow>
                     if status \<noteq> 200 then ret PNone
                     else create_deploy E branch_name name subdomain_url))
      | _ \<Rightarrow> raise AttributeError)"

lemmas deployer_defs = deploy_title_def create_deploy_def deploy_to_netlify_def

definition netlify_ready :: "config \<Rightarrow> bool" where
  "netlify_ready C \<longleftrightarrow> truthy_opt (NETLIFY_API_TOKEN C) \<and> truthy_opt (NETLIFY_SITE_ID C)"

lemma emits_create_deploy [emits_intros]:
  "(\<And>e. is_http e \<Longrightarrow> P e) \<Longrightarrow>
   emits_only P (create_deploy E branch_name channel_name url)"
  unfolding create_deploy_def
  by (auto intro!: emits_intros split: http_reply.splits)

lemma emits_deploy_to_netlify [emits_intros]:
  "(\<And>e. is_http e \<Longrightarrow> P e) \<Longrightarrow>
   emits_only P (deploy_to_netlify C E branch_name channel_name)"
  unfolding deploy_to_netlify_def Let_def
  by (auto intro!: emits_intros split: http_reply.splits pyval.splits)

lemma keeps_deploy_to_netlify [keeps_intros]:
  "keeps Q (deploy_to_netlify C E branch_name channel_name)"
  unfolding deploy_to_netlify_def create_deploy_def Let_def
  by (auto intro!: keeps_intros split: http_reply.splits pyval.splits)

lemma deploy_to_netlify_unconfigured:
  "\<not> netlify_ready C \<Longrightarrow> deploy_to_netlify C E branch_name channel_name = ret PNone"
  by (auto simp: deploy_to_netlify_def netlify_ready_def)

definition site_found :: "env \<Rightarrow> bool" where
  "site_found E = (case netlify_site E of Http status json_ok \<Rightarrow> status = 200 | _ \<Rightarrow> False)"

definition deploy_accepted :: "config \<Rightarrow> env \<Rightarrow> string \<Rightarrow> string \<Rightarrow> bool" where
  "deploy_accepted C E branch_name name \<longleftrightarrow>
     netlify_ready C \<and> site_found E \<and>
     netlify_deploy E branch_name (deploy_title name) = Http 201 True"

definition deploy_result :: "config \<Rightarrow> env \<Rightarrow> string \<Rightarrow> pyval \<Rightarrow> exc + pyval" where
  "deploy_result C E branch_name channel_name =
     (if \<not> netlify_ready C then Inr PNone
      else case channel_name of
        PStr name \<Rightarrow> Inr (if deploy_accepted C E branch_name name
          then PStr (''https://'' @ netlify_subdomain name @ ''.netlify.app'') else PNone)
      | _ \<Rightarrow> Inl AttributeError)"

definition deploy_requests :: "config \<Rightarrow> env \<Rightarrow> string \<Rightarrow> pyval \<Rightarrow> effect list" where
  "deploy_requests C E branch_name channel_name =
     (if \<not> netlify_ready C then []
      else case channel_name of
        PStr name \<Rightarrow> Netlify_Get #
          (if site_found E then [Netlify_Post branch_name (deploy_title name)] else [])
      | _ \<Rightarrow> [])"

lemma deploy_to_netlify_run:
  "deploy_to_netlify C E branch_name channel_name s =
     (deploy_result C E branch_name channel_name,
      s\<lparr>trace := trace s @ deploy_requests C E branch_name channel_name\<rparr>)"
  by (cases channel_name)
    (auto simp: deploy_to_netlify_def create_deploy_def deploy_result_def
      deploy_requests_def deploy_accepted_def site_found_def netlify_ready_def io_defs Let_def
      split: http_reply.splits)

lemma messages_deploy_requests [simp]:
  "messages (deploy_requests C E branch_name channel_name) = []"
  by (cases channel_name) (simp_all add: deploy_requests_def)

lemma git_commands_deploy_requests [simp]:
  "git_commands (deploy_requests C E branch_name channel_name) = []"
  by (cases channel_name) (simp_all add: deploy_requests_def)

lemma requests_deploy_requests [simp]:
  "requests (deploy_requests C E branch_name channel_name)
     = deploy_requests C E branch_name channel_name"
  by (cases channel_name) (simp_all add: deploy_requests_def)

lemma netlify_ready_test_config [simp]: "netlify_ready test_config"
  by (simp add: netlify_ready_def)

section \<open>Properties of the deployment adapter\<close>

text \<open>
  C8. For a channel name that is a string \<open>deploy_to_netlify\<close> never raises. It
  returns the URL \<^verbatim>\<open>https://<subdomain>.netlify.app\<close>, with the subdomain sanitized
  from the channel name, exactly when the credentials are configured, the site
  lookup answers 200 and the deploy request answers 201 with a JSON body; in every
  other case it returns \<^verbatim>\<open>None\<close>.
\<close>
theorem deploy_to_netlify_result:
  "fst (deploy_to_netlify C E branch_name (PStr name) s) =
     Inr (if deploy_accepted C E branch_name name
          then PStr (''https://'' @ netlify_subdomain name @ ''.netlify.app'')
          else PNone)"
  by (auto simp: deploy_to_netlify_def create_deploy_def deploy_accepted_def site_found_def
      netlify_ready_def io_defs Let_def split: http_reply.splits)

text \<open>
  C27. Without deployment credentials \<open>deploy_to_netlify\<close> returns \<^verbatim>\<open>None\<close> at once:
  it sends no request and leaves the state as it was, whatever the channel name is.
\<close>
theorem deploy_to_netlify_skipped:
  assumes "\<not> netlify_ready C"
  shows "deploy_to_netlify C E branch_name channel_name s = (Inr PNone, s)"
  using assms by (simp add: deploy_to_netlify_unconfigured ret_def)

theorem deploy_to_netlify_skipped_witness:
  "\<not> netlify_ready (test_config\<lparr>NETLIFY_API_TOKEN := None\<rparr>) \<and>
   deploy_to_netlify (test_config\<lparr>NETLIFY_API_TOKEN := None\<rparr>) test_env ''page-x'' PNone
     init_state
     = (Inr PNone, init_state)"
proof -
  have n: "\<not> netlify_ready (test_config\<lparr>NETLIFY_API_TOKEN := None\<rparr>)"
    by (simp add: netlify_ready_def)
  from n deploy_to_netlify_skipped [OF n] show ?thesis
    by simp
qed

text \<open>
  C28. With deployment credentials configured, a session that holds no channel name
  makes \<open>deploy_to_netlify\<close> raise before any request is sent: the subdomain is
  computed from the channel name outside the guarded block.
\<close>
theorem deploy_to_netlify_raises:
  assumes "netlify_ready C"
  shows "deploy_to_netlify C E branch_name PNone s = (Inl AttributeError, s)"
  using assms by (simp add: deploy_to_netlify_def netlify_ready_def raise_def)

theorem deploy_to_netlify_raises_witness:
  "netlify_ready test_config \<and>
   deploy_to_netlify test_config test_env ''page-None'' PNone init_state
     = (Inl AttributeError, init_state)"
  using deploy_to_netlify_raises [of test_config test_env "''page-None''" init_state]
  by simp

end
