(* ===== verification/Orchestrator.thy ===== *)
theory Orchestrator
  imports Generator Publisher Deployer
begin

text \<open>
  The orchestrator: \<^verbatim>\<open>create_landing_page\<close>, \<^verbatim>\<open>create_landing_page_from_callback\<close>
  and \<^verbatim>\<open>create_landing_page_from_message\<close> of \<^verbatim>\<open>src/bot.py\<close>. The three functions
  run the same sequence (read the session, check the token, clone or pull, generate,
  write \<^verbatim>\<open>index.html\<close>, publish, deploy, report) and differ only in how they talk to
  the chat: the first replies without keyboards, the second edits the message the
  button was on, the third replies with keyboards. Each function is written out as the
  source has it. \<open>create_page\<close> is their common sequence with the way of talking as
  a parameter (\<open>variant\<close>, \<open>say\<close>), and \<open>create_page_variants\<close> proves that the
  three functions are its three instances.

  \<open>run_outcome\<close> states the contract of a run as a function of the configuration,
  the session and the answers of the outside, and \<open>outcome_report\<close> what the user is
  told for each outcome. The lemmas show that \<open>create_page\<close> implements the contract
  (\<open>create_page_report\<close>) and give all git commands, all requests and all files of a
  run (\<open>create_page_git\<close>, \<open>create_page_requests\<close>, \<open>create_page_files\<close>); the
  properties at the end are read off these.
\<close>

section \<open>The three orchestrator functions\<close>

definition page_type_description :: "pyval \<Rightarrow> string io" where
  "page_type_description page_type =
     (case dict_index LANDING_PAGE_TYPES page_type of
        None \<Rightarrow> raise KeyError
      | Some description \<Rightarrow> ret description)"

definition create_landing_page :: "config \<Rightarrow> env \<Rightarrow> unit io" where
  "create_landing_page C E =
     bind_io (ud_get ''channel_name'') (\<lambda>channel_name.
     bind_io (ud_get ''page_type'') (\<lambda>page_type.
     bind_io (ud_get ''footer_text'') (\<lambda>footer_text.
     bind_io (ud_get ''logo_path'') (\<lambda>logo_path.
     then_io (reply_text Creating [])
       (if \<not> truthy_opt (GITHUB_PAT C) then reply_text No_Token []
        else bind_io (setup_git_repo C E) (\<lambda>ready.
          if \<not> ready then reply_text Repo_Failed []
          else bind_io (generate_page_html E page_type channel_name footer_text)
            (\<lambda>html_content.
               if \<not> truthy html_content then reply_text Generation_Failed []
               else
                 let filename = ''index.html'';
                     branch_name = ''page-'' @ py_str channel_name
                 in then_io (open_write (REPO_DIR C) filename (py_str html_content))
                   (then_io (reply_text Pushing [])
                   (bind_io (push_to_github C E filename branch_name logo_path) (\<lambda>pushed.
                      if pushed then
                        then_io (reply_text Deploying [])
                          (bind_io (deploy_to_netlify C E branch_name channel_name)
                            (\<lambda>netlify_url.
                               if truthy netlify_url then
                                 bind_io (page_type_description page_type) (\<lambda>description.
                                   reply_text (Page_Live (py_str netlify_url) branch_name
                                     description) [])
                               else
                                 bind_io (page_type_description page_type) (\<lambda>description.
                                   reply_text (Page_Created branch_name description) [])))
                      else reply_text Push_Failed []))))))))))"

definition create_landing_page_from_callback :: "config \<Rightarrow> env \<Rightarrow> unit io" where
  "create_landing_page_from_callback C E =
     bind_io (ud_get ''channel_name'') (\<lambda>channel_name.
     bind_io (ud_get ''page_type'') (\<lambda>page_type.
     bind_io (ud_get ''footer_text'') (\<lambda>footer_text.
     bind_io (ud_get ''logo_path'') (\<lambda>logo_path.
     then_io (edit_message_text Creating [])
       (if \<not> truthy_opt (GITHUB_PAT C) then edit_message_text No_Token []
        else bind_io (setup_git_repo C E) (\<lambda>ready.
          if \<not> ready then edit_message_text Repo_Failed []
          else bind_io (generate_page_html E page_type channel_name footer_text)
            (\<lambda>html_content.
               if \<not> truthy html_content then edit_message_text Generation_Failed []
               else
                 let filename = ''index.html'';
                     branch_name = ''page-'' @ py_str channel_name
                 in then_io (open_write (REPO_DIR C) filename (py_str html_content))
                   (then_io (edit_message_text Pushing [])
                   (bind_io (push_to_github C E filename branch_name logo_path) (\<lambda>pushed.
                      if pushed then
                        then_io (edit_message_text Deploying [])
                          (bind_io (deploy_to_netlify C E branch_name channel_name)
                            (\<lambda>netlify_url.
                               if truthy netlify_url then
                                 bind_io (page_type_description page_type) (\<lambda>description.
                                   edit_message_text
                                     (Page_Live (py_str netlify_url) branch_name description)
                                     [Url_Button (py_str netlify_url),
                                      Callback_Button CALLBACK_GENERATE,
                                      Callback_Button CALLBACK_START])
                               else
                                 bind_io (page_type_description page_type) (\<lambda>description.
                                   edit_message_text (Page_Created branch_name description)
                                     [Callback_Button CALLBACK_GENERATE,
                                      Callback_Button CALLBACK_START])))
                      else edit_message_text Push_Failed
                             [Callback_Button CALLBACK_GENERATE,
                              Callback_Button CALLBACK_START]))))))))))"

definition create_landing_page_from_message :: "config \<Rightarrow> env \<Rightarrow> unit io" where
  "create_landing_page_from_message C E =
     bind_io (ud_get ''channel_name'') (\<lambda>channel_name.
     bind_io (ud_get ''page_type'') (\<lambda>page_type.
     bind_io (ud_get ''footer_text'') (\<lambda>footer_text.
     bind_io (ud_get ''logo_path'') (\<lambda>logo_path.
     then_io (reply_text Creating [])
       (if \<not> truthy_opt (GITHUB_PAT C) then reply_text No_Token []
        else bind_io (setup_git_repo C E) (\<lambda>ready.
          if \<not> ready then reply_text Repo_Failed []
          else bind_io (generate_page_html E page_type channel_name footer_text)
            (\<lambda>html_content.
               if \<not> truthy html_content then reply_text Generation_Failed []
               else
                 let filename = ''index.html'';
                     branch_name = ''page-'' @ py_str channel_name
                 in then_io (open_write (REPO_DIR C) filename (py_str html_content))
                   (then_io (reply_text Pushing [])
                   (bind_io (push_to_github C E filename branch_name logo_path) (\<lambda>pushed.
                      if pushed then
                        then_io (reply_text Deploying [])
                          (bind_io (deploy_to_netlify C E branch_name channel_name)
                            (\<lambda>netlify_url.
                               if truthy netlify_url then
                                 bind_io (page_type_description page_type) (\<lambda>description.
                                   reply_text
                                     (Page_Live (py_str netlify_url) branch_name description)
                                     [Url_Button (py_str netlify_url),
                                      Callback_Button CALLBACK_GENERATE,
                                      Callback_Button CALLBACK_START])
                               else
                                 bind_io (page_type_description page_type) (\<lambda>description.
                                   reply_text (Page_Created branch_name description)
                                     [Callback_Button CALLBACK_GENERATE,
                                      Callback_Button CALLBACK_START])))
                      else reply_text Push_Failed
                             [Callback_Button CALLBACK_GENERATE,
                              Callback_Button CALLBACK_START]))))))))))"

section \<open>Their common shape\<close>

text \<open>
  The three functions differ only in the call that talks to the chat and in the
  keyboards of the last message. \<open>create_page\<close> is the sequence with that call as a
  parameter; \<open>create_page_variants\<close> shows that each function is one instance of it,
  so that every later lemma is proved once, for \<open>create_page\<close>.
\<close>

datatype variant = From_Command | From_Callback | From_Message

definition say :: "variant \<Rightarrow> msg \<Rightarrow> button list \<Rightarrow> unit io" where
  "say v m kb =
     (case v of
        From_Command \<Rightarrow> reply_text m []
      | From_Callback \<Rightarrow> edit_message_text m kb
      | From_Message \<Rightarrow> reply_text m kb)"

definition said :: "variant \<Rightarrow> msg \<Rightarrow> button list \<Rightarrow> effect" where
  "said v m kb =
     (case v of
        From_Command \<Rightarrow> Reply_Text m []
      | From_Callback \<Rightarrow> Edit_Text m kb
      | From_Message \<Rightarrow> Reply_Text m kb)"

definition menu_buttons :: "button list" where
  "menu_buttons = [Callback_Button CALLBACK_GENERATE, Callback_Button CALLBACK_START]"

definition report_success :: "variant \<Rightarrow> pyval \<Rightarrow> string \<Rightarrow> pyval \<Rightarrow> unit io" where
  "report_success v netlify_url branch_name page_type =
     (if truthy netlify_url then
        bind_io (page_type_description page_type) (\<lambda>description.
          say v (Page_Live (py_str netlify_url) branch_name description)
            (Url_Button (py_str netlify_url) # menu_buttons))
      else
        bind_io (page_type_description page_type) (\<lambda>description.
          say v (Page_Created branch_name description) menu_buttons))"

definition publish_page ::
  "variant \<Rightarrow> config \<Rightarrow> env \<Rightarrow> pyval \<Rightarrow> pyval \<Rightarrow> pyval \<Rightarrow> pyval \<Rightarrow> unit io" where
  "publish_page v C E channel_name page_type logo_path html_content =
     (let filename = ''index.html'';
          branch_name = ''page-'' @ py_str channel_name
      in then_io (open_write (REPO_DIR C) filename (py_str html_content))
        (then_io (say v Pushing [])
        (bind_io (push_to_github C E filename branch_name logo_path) (\<lambda>pushed.
           if pushed then
             then_io (say v Deploying [])
               (bind_io (deploy_to_netlify C E branch_name channel_name) (\<lambda>netlify_url.
                  report_success v netlify_url branch_name page_type))
           else say v Push_Failed menu_buttons))))"

definition create_page :: "variant \<Rightarrow> config \<Rightarrow> env \<Rightarrow> unit io" where
  "create_page v C E =
     bind_io (ud_get ''channel_name'') (\<lambda>channel_name.
     bind_io (ud_get ''page_type'') (\<lambda>page_type.
     bind_io (ud_get ''footer_text'') (\<lambda>footer_text.
     bind_io (ud_get ''logo_path'') (\<lambda>logo_path.
     then_io (say v Creating [])
       (if \<not> truthy_opt (GITHUB_PAT C) then say v No_Token []
        else bind_io (setup_git_repo C E) (\<lambda>ready.
          if \<not> ready then say v Repo_Failed []
          else bind_io (generate_page_html E page_type channel_name footer_text)
            (\<lambda>html_content.
               if \<not> truthy html_content then say v Generation_Failed []
               else publish_page v C E channel_name page_type logo_path
                      html_content)))))))"

lemmas orchestrator_defs =
  say_def menu_buttons_def page_type_description_def report_success_def publish_page_def
  create_page_def

lemma say_simps:
  "say From_Command m kb = reply_text m []"
  "say From_Callback m kb = edit_message_text m kb"
  "say From_Message m kb = reply_text m kb"
  by (simp_all add: say_def)

lemma create_page_variants:
  "create_landing_page C E = create_page From_Command C E"
  "create_landing_page_from_callback C E = create_page From_Callback C E"
  "create_landing_page_from_message C E = create_page From_Message C E"
  unfolding create_landing_page_def create_landing_page_from_callback_def
    create_landing_page_from_message_def create_page_def publish_page_def
    report_success_def say_simps menu_buttons_def
  by (rule refl)+

section \<open>Frame lemmas\<close>

lemma emits_say [emits_intros]:
  "(\<And>e. is_chat e \<Longrightarrow> P e) \<Longrightarrow> emits_only P (say v m kb)"
  by (cases v) (simp_all add: say_def emits_intros)

lemma emits_generate_page_html [emits_intros]:
  "(\<And>e. is_http e \<Longrightarrow> P e) \<Longrightarrow>
   emits_only P (generate_page_html E page_type channel_name footer_text)"
  unfolding generate_page_html_def Let_def
  by (auto intro!: emits_intros split: gemini_reply.splits)

lemma emits_page_type_description [emits_intros]:
  "emits_only P (page_type_description page_type)"
  unfolding page_type_description_def
  by (auto intro!: emits_intros split: option.splits)

lemma emits_report_success [emits_intros]:
  "(\<And>e. is_chat e \<Longrightarrow> P e) \<Longrightarrow>
   emits_only P (report_success v netlify_url branch_name page_type)"
  unfolding report_success_def
  by (auto intro!: emits_intros)

lemma emits_publish_page:
  "(\<And>e. is_chat e \<or> is_git e \<or> is_http e \<or> is_file e \<Longrightarrow> P e) \<Longrightarrow>
   emits_only P (publish_page v C E channel_name page_type logo_path html_content)"
  unfolding publish_page_def Let_def
  by (auto intro!: emits_intros)

lemma emits_create_page:
  "(\<And>e. is_chat e \<or> is_git e \<or> is_http e \<or> is_file e \<Longrightarrow> P e) \<Longrightarrow>
   emits_only P (create_page v C E)"
  unfolding create_page_def
  by (auto intro!: emits_intros emits_publish_page)

lemma keeps_say [keeps_intros]: "keeps Q (say v m kb)"
  by (cases v) (simp_all add: say_def keeps_intros)

lemma keeps_generate_page_html [keeps_intros]:
  "keeps Q (generate_page_html E page_type channel_name footer_text)"
  unfolding generate_page_html_def Let_def
  by (auto intro!: keeps_intros split: gemini_reply.splits)

lemma keeps_create_page [keeps_intros]: "keeps Q (create_page v C E)"
  unfolding create_page_def publish_page_def report_success_def page_type_description_def
    Let_def
  by (auto intro!: keeps_intros split: option.splits)

lemma keeps_create_landing_page [keeps_intros]:
  "keeps Q (create_landing_page C E)"
  "keeps Q (create_landing_page_from_callback C E)"
  "keeps Q (create_landing_page_from_message C E)"
  by (simp_all add: create_page_variants keeps_create_page)

lemma emits_create_landing_page [emits_intros]:
  assumes "\<And>e. is_chat e \<or> is_git e \<or> is_http e \<or> is_file e \<Longrightarrow> P e"
  shows "emits_only P (create_landing_page C E)"
    and "emits_only P (create_landing_page_from_callback C E)"
    and "emits_only P (create_landing_page_from_message C E)"
  using assms
  by (simp_all add: create_page_variants emits_create_page)

section \<open>The outcome of a run\<close>

text \<open>
  The contract of the orchestrator: a run ends in one of the outcomes below, decided
  by the configuration, the session and the answers of the outside world, each step
  gating the next. \<open>Crashed e published\<close> is a run ended by an exception the
  orchestrator does not catch; \<open>published\<close> tells whether the branch had been pushed
  by then. \<open>outcome_report\<close> is what the user is told for each outcome.
\<close>

datatype outcome =
    Configuration_Error
  | Repository_Unavailable
  | Generation_Error
  | Git_Operation_Error
  | Partial_Success string string
  | Full_Success string string string
  | Crashed exc bool

definition index_path :: "config \<Rightarrow> string" where
  "index_path C = path_join (REPO_DIR C) ''index.html''"

definition logo_on_disk :: "config \<Rightarrow> bot_state \<Rightarrow> bool" where
  "logo_on_disk C s \<longleftrightarrow>
     (case lookup_ud s ''logo_path'' of
        PStr p \<Rightarrow> p \<noteq> [] \<and> (exists_path s p \<or> p = REPO_DIR C \<or> p = index_path C)
      | _ \<Rightarrow> False)"

definition session_plan :: "config \<Rightarrow> env \<Rightarrow> bot_state \<Rightarrow> string list list" where
  "session_plan C E s =
     publish_plan E ''index.html''
       (sanitize_branch_name (''page-'' @ py_str (lookup_ud s ''channel_name'')))
       (logo_on_disk C s)"

definition deploy_outcome :: "config \<Rightarrow> env \<Rightarrow> bot_state \<Rightarrow> outcome" where
  "deploy_outcome C E s =
     (let channel_name = lookup_ud s ''channel_name'';
          branch_name = ''page-'' @ py_str channel_name
      in case deploy_result C E branch_name channel_name of
           Inl e \<Rightarrow> Crashed e True
         | Inr netlify_url \<Rightarrow>
             (case dict_index LANDING_PAGE_TYPES (lookup_ud s ''page_type'') of
                None \<Rightarrow> Crashed KeyError True
              | Some description \<Rightarrow>
                  if truthy netlify_url
                  then Full_Success (py_str netlify_url) branch_name description
                  else Partial_Success branch_name description))"

definition run_outcome :: "config \<Rightarrow> env \<Rightarrow> bot_state \<Rightarrow> outcome" where
  "run_outcome C E s =
     (if \<not> truthy_opt (GITHUB_PAT C) then Configuration_Error
      else case setup_command C (exists_path s (REPO_DIR C)) of
        None \<Rightarrow> Crashed AttributeError False
      | Some c \<Rightarrow>
          if \<not> git_ok E c then Repository_Unavailable
          else case generate_result E (lookup_ud s ''page_type'')
                 (lookup_ud s ''channel_name'') (lookup_ud s ''footer_text'') of
            Inl e \<Rightarrow> Crashed e False
          | Inr html_content \<Rightarrow>
              if \<not> truthy html_content then Generation_Error
              else if \<not> list_all (git_ok E) (session_plan C E s) then Git_Operation_Error
              else deploy_outcome C E s)"

fun outcome_report :: "outcome \<Rightarrow> (exc + unit) \<times> msg list" where
  "outcome_report Configuration_Error = (Inr (), [Creating, No_Token])"
| "outcome_report Repository_Unavailable = (Inr (), [Creating, Repo_Failed])"
| "outcome_report Generation_Error = (Inr (), [Creating, Generation_Failed])"
| "outcome_report Git_Operation_Error = (Inr (), [Creating, Pushing, Push_Failed])"
| "outcome_report (Partial_Success b d) = (Inr (), [Creating, Pushing, Deploying, Page_Created b d])"
| "outcome_report (Full_Success u b d) = (Inr (), [Creating, Pushing, Deploying, Page_Live u b d])"
| "outcome_report (Crashed e published) =
     (Inl e, if published then [Creating, Pushing, Deploying] else [Creating])"

definition report :: "'a io \<Rightarrow> bot_state \<Rightarrow> (exc + 'a) \<times> msg list" where
  "report m s = (fst (m s), messages (new_effects m s))"

lemmas outcome_defs =
  run_outcome_def deploy_outcome_def session_plan_def logo_on_disk_def index_path_def

section \<open>The orchestrator implements the contract\<close>

lemma say_run: "say v m kb s = (Inr (), s\<lparr>trace := trace s @ [said v m kb]\<rparr>)"
  by (cases v) (simp_all add: say_def said_def io_defs)

lemma messages_said [simp]: "messages (said v m kb # es) = m # messages es"
  by (cases v) (simp_all add: said_def)

lemma is_chat_said [simp]: "is_chat (said v m kb)"
  by (cases v) (simp_all add: said_def)

lemma said_not_git [simp]: "git_commands (said v m kb # es) = git_commands es"
  by (cases v) (simp_all add: said_def)

lemma said_not_http [simp]: "\<not> is_http (said v m kb)"
  by (cases v) (simp_all add: said_def)

lemmas run_simps =
  report_def new_effects_def bind_io_def then_io_def ret_def raise_def write_file_def
  open_write_def path_exists_def
  ud_get_def [folded lookup_ud_def] say_run push_to_github_run setup_git_repo_run
  generate_page_html_run deploy_to_netlify_run Let_def

lemma report_success_report:
  "report (report_success v netlify_url branch_name page_type) s =
     (case dict_index LANDING_PAGE_TYPES page_type of
        None \<Rightarrow> (Inl KeyError, [])
      | Some d \<Rightarrow> (Inr (), [if truthy netlify_url
          then Page_Live (py_str netlify_url) branch_name d else Page_Created branch_name d]))"
  by (simp add: report_success_def page_type_description_def run_simps split: option.splits)

lemma logo_staged_after_write:
  assumes "exists_path s' = (\<lambda>p. p = index_path C \<or> p = REPO_DIR C \<or> exists_path s p)"
  shows "logo_staged (lookup_ud s ''logo_path'') s' = logo_on_disk C s"
  using assms by (auto simp: logo_staged_def logo_on_disk_def split: pyval.splits)

lemma publish_page_report:
  assumes "exists_path s' = (\<lambda>p. p = REPO_DIR C \<or> exists_path s p)"
  shows "report (publish_page v C E (lookup_ud s ''channel_name'') (lookup_ud s ''page_type'')
      (lookup_ud s ''logo_path'') html_content) s' =
    (if \<not> list_all (git_ok E) (session_plan C E s) then (Inr (), [Pushing, Push_Failed])
     else case outcome_report (deploy_outcome C E s) of (r, ms) \<Rightarrow> (r, tl ms))"
proof -
  let ?w = "s'\<lparr>exists_path := (exists_path s')(index_path C := True),
    file_text := (file_text s')(index_path C \<mapsto> py_str html_content),
    trace := trace s' @ [Write_File (index_path C) (py_str html_content),
      said v Pushing []]\<rparr>"
  have staged: "logo_staged (lookup_ud s ''logo_path'') ?w = logo_on_disk C s"
    by (rule logo_staged_after_write) (auto simp: assms)
  have present: "exists_path s' (REPO_DIR C)"
    by (simp add: assms)
  show ?thesis
    using staged present
    by (simp add: publish_page_def report_success_def page_type_description_def
        deploy_outcome_def session_plan_def index_path_def run_simps
        split: sum.splits option.splits)
qed

definition reaches_publish :: "config \<Rightarrow> env \<Rightarrow> bot_state \<Rightarrow> bool" where
  "reaches_publish C E s \<longleftrightarrow>
     truthy_opt (GITHUB_PAT C) \<and>
     (case setup_command C (exists_path s (REPO_DIR C)) of None \<Rightarrow> False | Some c \<Rightarrow> git_ok E c) \<and>
     (case generate_result E (lookup_ud s ''page_type'') (lookup_ud s ''channel_name'')
        (lookup_ud s ''footer_text'') of Inl e \<Rightarrow> False | Inr h \<Rightarrow> truthy h)"

lemma create_page_stopped:
  assumes "\<not> reaches_publish C E s"
  shows "report (create_page v C E) s = outcome_report (run_outcome C E s)"
  using assms
  by (auto simp: create_page_def reaches_publish_def run_outcome_def run_simps
      split: option.splits sum.splits)

lemma create_page_published:
  assumes "reaches_publish C E s"
  obtains c h where "setup_command C (exists_path s (REPO_DIR C)) = Some c"
    and "generate_result E (lookup_ud s ''page_type'') (lookup_ud s ''channel_name'')
        (lookup_ud s ''footer_text'') = Inr h"
    and "create_page v C E s =
      publish_page v C E (lookup_ud s ''channel_name'') (lookup_ud s ''page_type'')
        (lookup_ud s ''logo_path'') h
        (s\<lparr>exists_path := (exists_path s)(REPO_DIR C := True),
           trace := trace s @ [said v Creating [],
             Git c (setup_cwd C (exists_path s (REPO_DIR C))) True,
             Gemini_Post
               (get_system_prompt (lookup_ud s ''page_type'') (lookup_ud s ''channel_name'')
                 (lookup_ud s ''footer_text''))
               (get_user_prompt (lookup_ud s ''page_type'') (lookup_ud s ''channel_name''))]\<rparr>)"
  using assms
  by (auto simp: create_page_def reaches_publish_def run_simps split: option.splits sum.splits)

lemma report_resumed:
  assumes "emits_only P m" and "trace s' = trace s @ es"
  shows "(fst (m s'), messages (drop (length (trace s)) (trace (snd (m s')))))
     = (case report m s' of (r, ms) \<Rightarrow> (r, messages es @ ms))"
  by (simp add: new_effects_resumed [OF assms] report_def)

lemma outcome_report_Creating: "\<exists>r ms. outcome_report x = (r, Creating # ms)"
  by (cases x) simp_all

lemma create_page_report:
  "report (create_page v C E) s = outcome_report (run_outcome C E s)"
proof (cases "reaches_publish C E s")
  case False
  then show ?thesis
    by (rule create_page_stopped)
next
  case True
  then obtain c h s' where run: "create_page v C E s =
      publish_page v C E (lookup_ud s ''channel_name'') (lookup_ud s ''page_type'')
        (lookup_ud s ''logo_path'') h s'"
    and s': "exists_path s' = (exists_path s)(REPO_DIR C := True)"
      "\<exists>es. trace s' = trace s @ said v Creating [] # es \<and> messages es = []"
    by (rule create_page_published [where v = v]) auto
  from s'(2) obtain es where es: "trace s' = trace s @ said v Creating [] # es"
    "messages es = []"
    by blast
  have "exists_path s' = (\<lambda>p. p = REPO_DIR C \<or> exists_path s p)"
    by (auto simp: s'(1) intro!: ext split: if_splits)
  moreover obtain r ms where "outcome_report (deploy_outcome C E s) = (r, Creating # ms)"
    using outcome_report_Creating by blast
  ultimately show ?thesis
    using publish_page_report [of s' C s v E h]
      report_resumed [OF emits_publish_page es(1), of "\<lambda>_. True" v C E
        "lookup_ud s ''channel_name''" "lookup_ud s ''page_type''" "lookup_ud s ''logo_path''" h]
      True es(2)
    by (auto simp: report_def [of "create_page v C E"] new_effects_def run run_outcome_def
        reaches_publish_def split: option.splits sum.splits)
qed

section \<open>The commands and requests of a run\<close>

definition run_git :: "config \<Rightarrow> env \<Rightarrow> bot_state \<Rightarrow> (string list \<times> bool) list" where
  "run_git C E s =
     (if \<not> truthy_opt (GITHUB_PAT C) then []
      else case setup_command C (exists_path s (REPO_DIR C)) of
        None \<Rightarrow> []
      | Some c \<Rightarrow> (c, git_ok E c) #
          (if reaches_publish C E s then run_plan E (session_plan C E s) else []))"

definition run_requests :: "config \<Rightarrow> env \<Rightarrow> bot_state \<Rightarrow> effect list" where
  "run_requests C E s =
     (if \<not> truthy_opt (GITHUB_PAT C) then []
      else case setup_command C (exists_path s (REPO_DIR C)) of
        None \<Rightarrow> []
      | Some c \<Rightarrow>
          if \<not> git_ok E c then []
          else Gemini_Post
              (get_system_prompt (lookup_ud s ''page_type'') (lookup_ud s ''channel_name'')
                 (lookup_ud s ''footer_text''))
              (get_user_prompt (lookup_ud s ''page_type'') (lookup_ud s ''channel_name'')) #
            (if reaches_publish C E s \<and> list_all (git_ok E) (session_plan C E s)
             then deploy_requests C E (''page-'' @ py_str (lookup_ud s ''channel_name''))
               (lookup_ud s ''channel_name'')
             else []))"

lemma publish_page_effects:
  assumes "exists_path s' = (\<lambda>p. p = REPO_DIR C \<or> exists_path s p)"
  shows "git_commands (new_effects (publish_page v C E (lookup_ud s ''channel_name'')
        (lookup_ud s ''page_type'') (lookup_ud s ''logo_path'') html_content) s')
      = run_plan E (session_plan C E s)"
    and "requests (new_effects (publish_page v C E (lookup_ud s ''channel_name'')
        (lookup_ud s ''page_type'') (lookup_ud s ''logo_path'') html_content) s')
      = (if list_all (git_ok E) (session_plan C E s)
         then deploy_requests C E (''page-'' @ py_str (lookup_ud s ''channel_name''))
           (lookup_ud s ''channel_name'')
         else [])"
proof -
  let ?w = "s'\<lparr>exists_path := (exists_path s')(index_path C := True),
    file_text := (file_text s')(index_path C \<mapsto> py_str html_content),
    trace := trace s' @ [Write_File (index_path C) (py_str html_content),
      said v Pushing []]\<rparr>"
  have staged: "logo_staged (lookup_ud s ''logo_path'') ?w = logo_on_disk C s"
    by (rule logo_staged_after_write) (auto simp: assms)
  have present: "exists_path s' (REPO_DIR C)"
    by (simp add: assms)
  show "git_commands (new_effects (publish_page v C E (lookup_ud s ''channel_name'')
        (lookup_ud s ''page_type'') (lookup_ud s ''logo_path'') html_content) s')
      = run_plan E (session_plan C E s)"
    using staged present
    by (simp add: publish_page_def report_success_def page_type_description_def
        session_plan_def index_path_def run_simps split: sum.splits option.splits)
  show "requests (new_effects (publish_page v C E (lookup_ud s ''channel_name'')
        (lookup_ud s ''page_type'') (lookup_ud s ''logo_path'') html_content) s')
      = (if list_all (git_ok E) (session_plan C E s)
         then deploy_requests C E (''page-'' @ py_str (lookup_ud s ''channel_name''))
           (lookup_ud s ''channel_name'')
         else [])"
    using staged present
    by (simp add: publish_page_def report_success_def page_type_description_def
        session_plan_def index_path_def run_simps split: sum.splits option.splits)
qed

lemma create_page_git: "git_commands (new_effects (create_page v C E) s) = run_git C E s"
proof (cases "reaches_publish C E s")
  case False
  then show ?thesis
    by (auto simp: create_page_def reaches_publish_def run_git_def run_simps
        split: option.splits sum.splits)
next
  case True
  then show ?thesis
  proof (rule create_page_published [where v = v])
    fix c h
    let ?s' = "s\<lparr>exists_path := (exists_path s)(REPO_DIR C := True),
           trace := trace s @ [said v Creating [],
             Git c (setup_cwd C (exists_path s (REPO_DIR C))) True,
             Gemini_Post
               (get_system_prompt (lookup_ud s ''page_type'') (lookup_ud s ''channel_name'')
                 (lookup_ud s ''footer_text''))
               (get_user_prompt (lookup_ud s ''page_type'') (lookup_ud s ''channel_name''))]\<rparr>"
    assume c: "setup_command C (exists_path s (REPO_DIR C)) = Some c"
      and run: "create_page v C E s =
        publish_page v C E (lookup_ud s ''channel_name'') (lookup_ud s ''page_type'')
          (lookup_ud s ''logo_path'') h ?s'"
    have "exists_path ?s' = (\<lambda>p. p = REPO_DIR C \<or> exists_path s p)"
      by (auto intro!: ext split: if_splits)
    from publish_page_effects(1) [OF this, of v E h]
      new_effects_resumed [OF emits_publish_page, of "\<lambda>_. True" ?s' s _ v C E
        "lookup_ud s ''channel_name''" "lookup_ud s ''page_type''"
        "lookup_ud s ''logo_path''" h]
      True c
    show ?thesis
      by (simp add: new_effects_def [of "create_page v C E"] run run_git_def
          reaches_publish_def)
  qed
qed

lemma create_page_requests: "requests (new_effects (create_page v C E) s) = run_requests C E s"
proof (cases "reaches_publish C E s")
  case False
  then show ?thesis
    by (auto simp: create_page_def reaches_publish_def run_requests_def run_simps
        split: option.splits sum.splits)
next
  case True
  then show ?thesis
  proof (rule create_page_published [where v = v])
    fix c h
    let ?s' = "s\<lparr>exists_path := (exists_path s)(REPO_DIR C := True),
           trace := trace s @ [said v Creating [],
             Git c (setup_cwd C (exists_path s (REPO_DIR C))) True,
             Gemini_Post
               (get_system_prompt (lookup_ud s ''page_type'') (lookup_ud s ''channel_name'')
                 (lookup_ud s ''footer_text''))
               (get_user_prompt (lookup_ud s ''page_type'') (lookup_ud s ''channel_name''))]\<rparr>"
    assume c: "setup_command C (exists_path s (REPO_DIR C)) = Some c"
      and run: "create_page v C E s =
        publish_page v C E (lookup_ud s ''channel_name'') (lookup_ud s ''page_type'')
          (lookup_ud s ''logo_path'') h ?s'"
    have "exists_path ?s' = (\<lambda>p. p = REPO_DIR C \<or> exists_path s p)"
      by (auto intro!: ext split: if_splits)
    from publish_page_effects(2) [OF this, of v E h]
      new_effects_resumed [OF emits_publish_page, of "\<lambda>_. True" ?s' s _ v C E
        "lookup_ud s ''channel_name''" "lookup_ud s ''page_type''"
        "lookup_ud s ''logo_path''" h]
      True c
    show ?thesis
      by (simp add: new_effects_def [of "create_page v C E"] run run_requests_def
          reaches_publish_def)
  qed
qed

lemma publish_page_files:
  "exists_path s (REPO_DIR C) \<Longrightarrow>
   file_text (snd (publish_page v C E channel_name page_type logo_path html_content s))
     = (file_text s)(index_path C \<mapsto> py_str html_content)"
  by (simp add: publish_page_def report_success_def page_type_description_def index_path_def
      run_simps split: sum.splits option.splits)

lemma create_page_files:
  "file_text (snd (create_page v C E s)) =
     (if reaches_publish C E s
      then (file_text s)(index_path C \<mapsto>
        py_str (projr (generate_result E (lookup_ud s ''page_type'')
          (lookup_ud s ''channel_name'') (lookup_ud s ''footer_text''))))
      else file_text s)"
proof (cases "reaches_publish C E s")
  case False
  then show ?thesis
    by (auto simp: create_page_def reaches_publish_def run_simps
        split: option.splits sum.splits)
next
  case True
  from True show ?thesis
    by (rule create_page_published [where v = v]) (simp add: publish_page_files True)
qed

section \<open>Where a run can crash\<close>

lemma deploy_outcome_no_crash:
  assumes "lookup_ud s ''channel_name'' = PStr name"
    and "dict_index LANDING_PAGE_TYPES (lookup_ud s ''page_type'') = Some d"
  shows "deploy_outcome C E s \<noteq> Crashed e b"
  using assms by (simp add: deploy_outcome_def deploy_result_def Let_def)

lemma outcome_report_raises:
  "outcome_report x = (Inl e, ms) \<Longrightarrow>
   \<exists>b. x = Crashed e b \<and> ms = (if b then [Creating, Pushing, Deploying] else [Creating])"
  by (cases x) auto

lemma run_outcome_crash_published:
  "run_outcome C E s = Crashed e True \<Longrightarrow> deploy_outcome C E s = Crashed e True"
  by (auto simp: run_outcome_def split: option.splits sum.splits if_splits)

section \<open>A run in which git and the generation service succeed\<close>

lemma reaches_publish_success:
  assumes "truthy_opt (GITHUB_PAT C)"
    and "exists_path s (REPO_DIR C) \<or> GITHUB_REPO_URL C \<noteq> None"
    and "\<forall>c. git_ok E c"
    and "\<forall>sp up. gemini E sp up = Gemini_Text html" and "strip_markdown html \<noteq> []"
  shows "reaches_publish C E s" and "list_all (git_ok E) cs"
  using assms
  by (auto simp: reaches_publish_def setup_command_def generate_result_def list_all_iff)

lemma run_git_published:
  assumes "reaches_publish C E s" and "list_all (git_ok E) (session_plan C E s)"
  shows "run_git C E s = map (\<lambda>c. (c, True))
      (the (setup_command C (exists_path s (REPO_DIR C))) # session_plan C E s)"
  using assms
  by (auto simp: run_git_def reaches_publish_def run_plan_all_ok split: option.splits)

lemma run_outcome_published:
  assumes "reaches_publish C E s" and "list_all (git_ok E) (session_plan C E s)"
  shows "run_outcome C E s = deploy_outcome C E s"
  using assms
  by (auto simp: run_outcome_def reaches_publish_def split: option.splits sum.splits)

lemma deploy_outcome_named:
  assumes "lookup_ud s ''channel_name'' = PStr name"
    and "dict_index LANDING_PAGE_TYPES (lookup_ud s ''page_type'') = Some d"
  shows "deploy_outcome C E s =
     (if deploy_accepted C E (''page-'' @ name) name
      then Full_Success (''https://'' @ netlify_subdomain name @ ''.netlify.app'')
        (''page-'' @ name) d
      else Partial_Success (''page-'' @ name) d)"
  using assms by (auto simp: deploy_outcome_def deploy_result_def deploy_accepted_def Let_def)

lemma generate_result_text:
  "\<forall>sp up. gemini E sp up = Gemini_Text html \<Longrightarrow>
   generate_result E page_type channel_name footer_text = Inr (PStr (strip_markdown html))"
  by (simp add: generate_result_def)

lemma deploy_outcome_unnamed:
  assumes "lookup_ud s ''channel_name'' = PNone" and "netlify_ready C"
  shows "deploy_outcome C E s = Crashed AttributeError True"
  using assms by (simp add: deploy_outcome_def deploy_result_def)

section \<open>A session ready to be published\<close>

lemma fixture_branch:
  "sanitize_branch_name ''page-My Cool Channel!!'' = ''page-my-cool-channel''"
  by (simp add: sanitizer_defs py_defs)

lemma fixture_session_plan:
  "git_branch_r E = [] \<Longrightarrow> session_plan test_config E test_session =
     [[''git'', ''checkout'', ''-b'', ''page-my-cool-channel''], [''git'', ''add'', ''index.html''],
      [''git'', ''add'', ''logo.png''],
      [''git'', ''commit'', ''-m'', ''feat: add new landing page for page-my-cool-channel''],
      [''git'', ''push'', ''-u'', ''origin'', ''page-my-cool-channel'']]"
  using fixture_branch
  by (simp add: session_plan_def publish_plan_def checkout_command_def commit_message_def
      logo_on_disk_def py_in_def)

lemma fixture_reaches_publish:
  "git_ok E = (\<lambda>_. True) \<Longrightarrow> gemini E = gemini test_env \<Longrightarrow>
   reaches_publish test_config E test_session"
  by (simp add: reaches_publish_def setup_command_def generate_result_def strip_markdown_def
      fence_def py_defs)

lemma fixture_description:
  "dict_index LANDING_PAGE_TYPES (PStr ''1'')
     = Some ''Tech Startup - Modern, clean design with focus on innovation''"
  by (simp add: dict_index_def LANDING_PAGE_TYPES_def)

section \<open>Properties of the orchestrator\<close>

text \<open>
  C1. Each of the three orchestrator functions implements the contract of a run:
  the exception it ends with, if any, and the messages it sends to the user, in
  order, are those of the outcome that \<open>run_outcome\<close> computes from the
  configuration, the session and the answers of the outside world. In particular the
  three functions agree on what the user is told.
\<close>
theorem orchestrators_implement_outcome:
  "report (create_landing_page C E) s = outcome_report (run_outcome C E s) \<and>
   report (create_landing_page_from_callback C E) s = outcome_report (run_outcome C E s) \<and>
   report (create_landing_page_from_message C E) s = outcome_report (run_outcome C E s)"
  by (simp add: create_page_variants create_page_report)

text \<open>
  C5. When generation fails (the request fails or the page is empty) the run writes
  no file, sends no deployment request and runs none of the publish commands. The one
  git command of the run is the clone or pull of \<open>setup_git_repo\<close>, which runs before
  the page is generated: a generation failure does not mean that no git operation was
  attempted.
\<close>
theorem generation_failure_stops_run:
  assumes "truthy_opt (GITHUB_PAT C)"
    and "setup_command C (exists_path s (REPO_DIR C)) = Some c"
    and "generate_result E (lookup_ud s ''page_type'') (lookup_ud s ''channel_name'')
        (lookup_ud s ''footer_text'') = Inr h" and "\<not> truthy h"
  shows "git_commands (new_effects (create_page v C E) s) = [(c, git_ok E c)] \<and>
    file_text (snd (create_page v C E s)) = file_text s \<and>
    list_all (\<lambda>e. \<exists>sp up. e = Gemini_Post sp up) (requests (new_effects (create_page v C E) s))"
  using assms
  by (auto simp: create_page_def run_simps setup_cwd_def requests_def)

theorem generation_failure_stops_run_witness:
  "git_commands (new_effects
      (create_page From_Message test_config (test_env\<lparr>gemini := (\<lambda>_ _. Gemini_Failed)\<rparr>))
      test_session) = [([''git'', ''pull''], True)] \<and>
   file_text (snd (create_page From_Message test_config
      (test_env\<lparr>gemini := (\<lambda>_ _. Gemini_Failed)\<rparr>) test_session)) = Map.empty"
  using generation_failure_stops_run [of test_config test_session "[''git'', ''pull'']"
      "test_env\<lparr>gemini := (\<lambda>_ _. Gemini_Failed)\<rparr>" PNone From_Message]
  by (simp add: setup_command_def generate_result_def)

text \<open>
  C6. A deployment that fails after a successful publish is not an error of the
  run: the run ends normally and its last message is the one that reports the page
  as created, with the branch and the description of the page type.
\<close>
theorem deployment_failure_partial_success:
  assumes "reaches_publish C E s" and "list_all (git_ok E) (session_plan C E s)"
    and "lookup_ud s ''channel_name'' = PStr name"
    and "dict_index LANDING_PAGE_TYPES (lookup_ud s ''page_type'') = Some d"
    and "\<not> deploy_accepted C E (''page-'' @ name) name"
  shows "report (create_page v C E) s
     = (Inr (), [Creating, Pushing, Deploying, Page_Created (''page-'' @ name) d])"
  using assms
  by (auto simp: create_page_report run_outcome_def reaches_publish_def deploy_outcome_def
      deploy_result_def Let_def split: option.splits sum.splits)

theorem deployment_failure_partial_success_witness:
  "report (create_page From_Callback test_config
      (test_env\<lparr>netlify_deploy := (\<lambda>_ _. Http 500 True)\<rparr>)) test_session
     = (Inr (), [Creating, Pushing, Deploying,
         Page_Created ''page-My Cool Channel!!''
           ''Tech Startup - Modern, clean design with focus on innovation''])"
proof -
  let ?E = "test_env\<lparr>netlify_deploy := (\<lambda>_ _. Http 500 True)\<rparr>"
  have "\<not> deploy_accepted test_config ?E ''page-My Cool Channel!!'' ''My Cool Channel!!''"
    by (simp add: deploy_accepted_def)
  with deployment_failure_partial_success [of test_config ?E test_session
      "''My Cool Channel!!''"
      "''Tech Startup - Modern, clean design with focus on innovation''" From_Callback]
  show ?thesis
    by (simp add: fixture_reaches_publish list_all_iff fixture_description)
qed

text \<open>
  C12. The branch that a run pushes and the branch it asks the deployment service to
  deploy are computed differently: the push uses the sanitized name, the deployment
  request carries the name as the orchestrator built it, \<^verbatim>\<open>page-\<close> followed by the
  channel name as typed. The two differ as soon as sanitizing changes the name.
\<close>
theorem pushed_and_deployed_branch:
  assumes "reaches_publish C E s" and "list_all (git_ok E) (session_plan C E s)"
    and "lookup_ud s ''channel_name'' = PStr name"
    and "netlify_ready C" and "site_found E"
  shows "last (git_commands (new_effects (create_page v C E) s))
       = ([''git'', ''push'', ''-u'', ''origin'', sanitize_branch_name (''page-'' @ name)], True) \<and>
     last (requests (new_effects (create_page v C E) s))
       = Netlify_Post (''page-'' @ name) (deploy_title name)"
  using assms
  by (auto simp: create_page_git create_page_requests run_git_def run_requests_def
      reaches_publish_def session_plan_def publish_plan_def run_plan_all_ok deploy_requests_def
      split: option.splits)

theorem pushed_and_deployed_branch_witness:
  "last (git_commands (new_effects (create_page From_Message test_config test_env) test_session))
       = ([''git'', ''push'', ''-u'', ''origin'', ''page-my-cool-channel''], True) \<and>
   last (requests (new_effects (create_page From_Message test_config test_env) test_session))
       = Netlify_Post ''page-My Cool Channel!!'' ''Deploy My Cool Channel!! landing page''"
  using pushed_and_deployed_branch [of test_config test_env test_session
      "''My Cool Channel!!''" From_Message]
  by (simp add: fixture_reaches_publish list_all_iff fixture_branch site_found_def
      deploy_title_def)

text \<open>
  C29. With a configuration that passed the check made at start-up, a run never
  reports a missing token: the test of the token inside the orchestrator cannot fail.
\<close>
theorem config_ok_no_token_message:
  assumes "config_ok C"
  shows "No_Token \<notin> set (snd (report (create_page v C E) s))"
proof -
  from assms have "run_outcome C E s \<noteq> Configuration_Error"
    by (auto simp: run_outcome_def config_ok_iff deploy_outcome_def Let_def
        split: option.splits sum.splits)
  then show ?thesis
    by (cases "run_outcome C E s") (simp_all add: create_page_report)
qed

theorem config_ok_no_token_message_witness:
  "config_ok test_config \<and>
   No_Token \<notin> set (snd (report (create_page From_Command test_config test_env) test_session))"
  using config_ok_no_token_message [of test_config From_Command test_env test_session]
  by simp

end
