(* ===== verification/Handlers.thy ===== *)
theory Handlers
  imports Orchestrator
begin

text \<open>
  The handlers of \<^verbatim>\<open>src/bot.py\<close>, one definition each, in the order of the source.
  A handler is an \<open>io\<close> action on the user's session and the world. The handlers
  written for a conversation handler (\<^verbatim>\<open>generate\<close>, \<^verbatim>\<open>get_channel_name\<close>,
  \<^verbatim>\<open>get_logo_image\<close>, \<^verbatim>\<open>get_page_type\<close>, \<^verbatim>\<open>get_footer_choice\<close>, \<^verbatim>\<open>get_footer_text\<close>,
  \<^verbatim>\<open>cancel\<close>) return the number of the next conversation state; the others return
  nothing. An update is a message, an edited message, a button press with its callback
  data, or anything else; \<^verbatim>\<open>update.message\<close> is \<^verbatim>\<open>None\<close> for all but the first, and
  reading an attribute of \<^verbatim>\<open>None\<close> raises. \<open>session_ok\<close> is the shape of a session
  that every handler preserves. The lemmas show what the handlers append to the trace
  and that they keep the shape, give result and final state of the handlers of the
  conversation as equations (the lemmas named \<open>_run\<close>), and settle single handlers:
  the rejection of a page type outside the catalog, the directory that the logo upload
  creates, the conversation state that is never reset.
\<close>

section \<open>Updates\<close>

record document =
  doc_file_id :: string
  doc_is_image :: bool

record message =
  msg_text :: "string option"
  msg_photo :: "string list"
  msg_document :: "document option"

datatype update =
    Message message
  | Edited_Message message
  | Callback_Query string
  | Other_Update

definition update_message :: "update \<Rightarrow> message option" where
  "update_message u = (case u of Message m \<Rightarrow> Some m | _ \<Rightarrow> None)"

definition the_message :: "update \<Rightarrow> message io" where
  "the_message u = (case update_message u of None \<Rightarrow> raise AttributeError | Some m \<Rightarrow> ret m)"

definition the_text :: "message \<Rightarrow> string io" where
  "the_text m = (case msg_text m of None \<Rightarrow> raise AttributeError | Some t \<Rightarrow> ret t)"

definition stripped_text :: "update \<Rightarrow> string io" where
  "stripped_text u = bind_io (the_message u) (\<lambda>m. bind_io (the_text m) (\<lambda>t. ret (py_strip t)))"

definition uploaded_file :: "message \<Rightarrow> string option" where
  "uploaded_file m =
     (if msg_photo m \<noteq> [] then Some (last (msg_photo m))
      else map_option doc_file_id (msg_document m))"

section \<open>Keyboards\<close>

definition main_menu :: "button list" where
  "main_menu = [Callback_Button CALLBACK_GENERATE, Callback_Button CALLBACK_HELP]"

definition help_menu :: "button list" where
  "help_menu = [Callback_Button CALLBACK_GENERATE, Callback_Button CALLBACK_START]"

definition footer_keyboard :: "button list" where
  "footer_keyboard = [Callback_Button CALLBACK_FOOTER_YES, Callback_Button CALLBACK_FOOTER_NO,
     Callback_Button CALLBACK_CANCEL]"

definition page_type_data :: "string \<Rightarrow> string" where
  "page_type_data key = ''page_type_'' @ key"

definition page_type_keyboard :: "button list" where
  "page_type_keyboard =
     map (\<lambda>(key, description). Callback_Button (page_type_data key)) LANDING_PAGE_TYPES
       @ [Callback_Button CALLBACK_CANCEL]"

section \<open>Entry points\<close>

definition start :: "update \<Rightarrow> unit io" where
  "start u = bind_io (the_message u) (\<lambda>m. reply_text Welcome main_menu)"

definition help_command :: "update \<Rightarrow> unit io" where
  "help_command u = bind_io (the_message u) (\<lambda>m. reply_text Help_Text help_menu)"

definition generate :: "update \<Rightarrow> int io" where
  "generate u = bind_io (the_message u) (\<lambda>m.
     then_io (reply_text Ask_Channel_Name []) (ret CHANNEL_NAME))"

definition start_from_callback :: "unit io" where
  "start_from_callback = edit_message_text Welcome main_menu"

definition help_from_callback :: "unit io" where
  "help_from_callback = edit_message_text Help_Text help_menu"

definition generate_from_callback :: "unit io" where
  "generate_from_callback =
     then_io (edit_message_text Ask_Channel_Name [])
       (ud_set ''conversation_state'' (PInt CHANNEL_NAME))"

section \<open>Collecting the fields\<close>

definition get_channel_name :: "update \<Rightarrow> int io" where
  "get_channel_name u =
     bind_io (stripped_text u) (\<lambda>channel_name.
     then_io (ud_set ''channel_name'' (PStr channel_name))
    (then_io (reply_text (Ask_Logo channel_name) [])
       (ret LOGO_IMAGE)))"

definition download_to_drive :: "env \<Rightarrow> string \<Rightarrow> string \<Rightarrow> unit io" where
  "download_to_drive E file_id path =
     then_io (emit (Download file_id path))
       (if download_ok E
        then (\<lambda>s. (Inr (), s\<lparr>exists_path := (exists_path s)(path := True)\<rparr>))
        else raise NetworkError)"

definition save_logo :: "config \<Rightarrow> env \<Rightarrow> string \<Rightarrow> unit io" where
  "save_logo C E file_id =
     (if \<not> get_file_ok E then raise NetworkError
      else
        let logo_path = path_join (REPO_DIR C) ''logo.png''
        in then_io (makedirs (REPO_DIR C))
          (then_io (download_to_drive E file_id logo_path)
             (ud_set ''logo_path'' (PStr logo_path))))"

definition ask_page_type :: "int io" where
  "ask_page_type = then_io (reply_text Ask_Page_Type page_type_keyboard) (ret PAGE_TYPE)"

definition get_logo_image :: "config \<Rightarrow> env \<Rightarrow> update \<Rightarrow> int io" where
  "get_logo_image C E u =
     bind_io (the_message u) (\<lambda>m.
       if msg_photo m \<noteq> [] then
         then_io (save_logo C E (last (msg_photo m))) ask_page_type
       else case msg_document m of
         Some d \<Rightarrow> then_io (save_logo C E (doc_file_id d)) ask_page_type
       | None \<Rightarrow> then_io (reply_text Invalid_Image []) (ret LOGO_IMAGE))"

definition get_page_type :: "update \<Rightarrow> int io" where
  "get_page_type u =
     bind_io (stripped_text u) (\<lambda>page_type.
       if \<not> dict_in (PStr page_type) LANDING_PAGE_TYPES then
         then_io (reply_text Invalid_Choice []) (ret PAGE_TYPE)
       else
         then_io (ud_set ''page_type'' (PStr page_type))
        (bind_io (page_type_description (PStr page_type)) (\<lambda>description.
         then_io (reply_text (Ask_Footer description) footer_keyboard)
           (ret FOOTER_CHOICE))))"

definition get_footer_choice :: "config \<Rightarrow> env \<Rightarrow> update \<Rightarrow> int io" where
  "get_footer_choice C E u =
     bind_io (stripped_text u) (\<lambda>t.
       let choice = py_lower t in
       if choice \<in> set [''yes'', ''y''] then
         then_io (reply_text Ask_Footer_Text []) (ret FOOTER_TEXT)
       else if choice \<in> set [''no'', ''n''] then
         then_io (ud_set ''footer_text'' PNone)
        (then_io (create_landing_page C E)
           (ret ConversationHandler_END))
       else then_io (reply_text Ask_Yes_No []) (ret FOOTER_CHOICE))"

definition get_footer_text :: "config \<Rightarrow> env \<Rightarrow> update \<Rightarrow> int io" where
  "get_footer_text C E u =
     bind_io (stripped_text u) (\<lambda>footer_text.
     then_io (ud_set ''footer_text'' (PStr footer_text))
    (then_io (create_landing_page C E)
       (ret ConversationHandler_END)))"

definition cancel :: "update \<Rightarrow> int io" where
  "cancel u = bind_io (the_message u) (\<lambda>m.
     then_io (reply_text Cancelled []) (ret ConversationHandler_END))"

section \<open>Button handlers\<close>

definition page_type_callback :: "pyval \<Rightarrow> unit io" where
  "page_type_callback page_type =
     (if \<not> dict_in page_type LANDING_PAGE_TYPES then answer (Some Invalid_Page_Type)
      else
        then_io (ud_set ''page_type'' page_type)
       (bind_io (page_type_description page_type) (\<lambda>description.
          edit_message_text (Ask_Footer description) footer_keyboard)))"

definition footer_yes_callback :: "unit io" where
  "footer_yes_callback =
     then_io (edit_message_text Ask_Footer_Text [])
       (ud_set ''conversation_state'' (PInt FOOTER_TEXT))"

definition footer_no_callback :: "config \<Rightarrow> env \<Rightarrow> unit io" where
  "footer_no_callback C E =
     then_io (ud_set ''footer_text'' PNone) (create_landing_page_from_callback C E)"

definition cancel_from_callback :: "unit io" where
  "cancel_from_callback =
     edit_message_text Cancelled_Start_Over [Callback_Button CALLBACK_GENERATE]"

definition button_callback :: "config \<Rightarrow> env \<Rightarrow> string \<Rightarrow> unit io" where
  "button_callback C E data =
     then_io (answer None)
       (if data = CALLBACK_START then start_from_callback
        else if data = CALLBACK_GENERATE then generate_from_callback
        else if data = CALLBACK_HELP then help_from_callback
        else if data = CALLBACK_CANCEL then cancel_from_callback
        else if data = CALLBACK_FOOTER_YES then footer_yes_callback
        else if data = CALLBACK_FOOTER_NO then footer_no_callback C E
        else if startswith data ''page_type_'' then
          page_type_callback (PStr (py_replace data ''page_type_'' []))
        else ret ())"

section \<open>Free text\<close>

definition handle_message :: "config \<Rightarrow> env \<Rightarrow> update \<Rightarrow> unit io" where
  "handle_message C E u =
     (case update_message u of
        None \<Rightarrow> ret ()
      | Some m \<Rightarrow>
         (if \<not> truthy_opt (msg_text m) then ret ()
          else
            bind_io (stripped_text u) (\<lambda>user_query.
            bind_io (ud_get ''conversation_state'') (\<lambda>conversation_state.
              if conversation_state = PInt CHANNEL_NAME then
                then_io (ud_set ''channel_name'' (PStr user_query))
               (then_io (reply_text (Ask_Logo user_query) [])
                  (ud_set ''conversation_state'' (PInt LOGO_IMAGE)))
              else if conversation_state = PInt FOOTER_TEXT then
                then_io (ud_set ''footer_text'' (PStr user_query))
                  (create_landing_page_from_message C E)
              else reply_text Greeting main_menu))))"

lemmas the_message_defs = update_message_def the_message_def the_text_def stripped_text_def

lemmas keyboard_defs =
  main_menu_def help_menu_def footer_keyboard_def page_type_data_def page_type_keyboard_def
  menu_buttons_def

lemmas handler_defs =
  start_def help_command_def generate_def start_from_callback_def help_from_callback_def
  generate_from_callback_def get_channel_name_def download_to_drive_def save_logo_def
  ask_page_type_def get_logo_image_def get_page_type_def
  get_footer_choice_def get_footer_text_def cancel_def page_type_callback_def
  footer_yes_callback_def footer_no_callback_def cancel_from_callback_def
  button_callback_def handle_message_def

section \<open>Frame lemmas\<close>

lemma emits_the_message [emits_intros]:
  "emits_only P (the_message u)" "emits_only P (the_text m)" "emits_only P (stripped_text u)"
  unfolding the_message_defs
  by (auto intro!: emits_intros split: option.splits)

lemma keeps_the_message [keeps_intros]:
  "keeps Q (the_message u)" "keeps Q (the_text m)" "keeps Q (stripped_text u)"
  unfolding the_message_defs
  by (auto intro!: keeps_intros split: option.splits)

lemma keeps_page_type_description [keeps_intros]: "keeps Q (page_type_description page_type)"
  unfolding page_type_description_def
  by (auto intro!: keeps_intros split: option.splits)

lemma emits_save_logo [emits_intros]:
  assumes "P (Makedirs (REPO_DIR C))"
    and "P (Download file_id (path_join (REPO_DIR C) ''logo.png''))"
  shows "emits_only P (save_logo C E file_id)"
proof -
  have "emits_only P (\<lambda>s. (Inr (), s\<lparr>exists_path := (exists_path s)(p := True)\<rparr>))" for p
    by (rule emits_onlyI) simp
  with assms show ?thesis
    unfolding save_logo_def download_to_drive_def Let_def
    by (auto intro!: emits_intros)
qed

lemma emits_get_logo_image [emits_intros]:
  "(\<And>e. (is_chat e \<or> is_http e \<or> is_file e) \<and> \<not> run_effect e \<Longrightarrow> P e) \<Longrightarrow>
   emits_only P (get_logo_image C E u)"
  unfolding get_logo_image_def ask_page_type_def
  by (auto intro!: emits_intros split: option.splits)

lemma emits_button_callback [emits_intros]:
  assumes "\<And>e. is_chat e \<or> is_git e \<or> is_http e \<or> is_file e \<Longrightarrow> P e"
  shows "emits_only P (button_callback C E data)"
  unfolding button_callback_def start_from_callback_def generate_from_callback_def
    help_from_callback_def cancel_from_callback_def footer_yes_callback_def
    footer_no_callback_def page_type_callback_def
  by (intro emits_intros; simp add: assms)

lemma emits_button_callback_other:
  assumes "data \<noteq> CALLBACK_FOOTER_NO" and "\<And>e. is_chat e \<and> \<not> run_effect e \<Longrightarrow> P e"
  shows "emits_only P (button_callback C E data)"
  unfolding button_callback_def start_from_callback_def generate_from_callback_def
    help_from_callback_def cancel_from_callback_def footer_yes_callback_def
    page_type_callback_def
  by (intro emits_intros; simp add: assms)

lemma emits_handle_message [emits_intros]:
  assumes "\<And>e. is_chat e \<or> is_git e \<or> is_http e \<or> is_file e \<Longrightarrow> P e"
  shows "emits_only P (handle_message C E u)"
  unfolding handle_message_def
  by (intro emits_intros; simp add: assms)

lemma emits_entry_points [emits_intros]:
  assumes "\<And>e. is_chat e \<and> \<not> run_effect e \<Longrightarrow> P e"
  shows "emits_only P (start u)" and "emits_only P (help_command u)"
  using assms unfolding start_def help_command_def
  by (auto intro!: emits_intros)

section \<open>The shape of a session\<close>

text \<open>
  What the handlers store: the conversation state is one of the three numbers the
  registered handlers write, the channel name and the footer text are text (the
  footer text may be \<^verbatim>\<open>None\<close>), the page type is a key of the catalog, and the logo
  path is the one path all logos are saved under.
\<close>

definition is_str :: "pyval \<Rightarrow> bool" where
  "is_str v = (case v of PStr s \<Rightarrow> True | _ \<Rightarrow> False)"

definition logo_file :: "config \<Rightarrow> string" where
  "logo_file C = path_join (REPO_DIR C) ''logo.png''"

definition key_ok :: "config \<Rightarrow> string \<Rightarrow> pyval \<Rightarrow> bool" where
  "key_ok C k v =
     (if k = ''conversation_state'' then v \<in> set [PInt CHANNEL_NAME, PInt LOGO_IMAGE, PInt FOOTER_TEXT]
      else if k = ''channel_name'' then is_str v
      else if k = ''page_type'' then dict_in v LANDING_PAGE_TYPES
      else if k = ''footer_text'' then v = PNone \<or> is_str v
      else if k = ''logo_path'' then v = PStr (logo_file C)
      else False)"

definition session_ok :: "config \<Rightarrow> (string \<rightharpoonup> pyval) \<Rightarrow> bool" where
  "session_ok C d \<longleftrightarrow> (\<forall>k v. d k = Some v \<longrightarrow> key_ok C k v)"

lemma session_ok_empty [simp]: "session_ok C Map.empty"
  by (simp add: session_ok_def)

lemma session_ok_update: "session_ok C d \<Longrightarrow> key_ok C k v \<Longrightarrow> session_ok C (d(k \<mapsto> v))"
  by (simp add: session_ok_def)

lemma session_okD: "session_ok C d \<Longrightarrow> d k = Some v \<Longrightarrow> key_ok C k v"
  by (simp add: session_ok_def)

lemma keeps_session_ok_set [keeps_intros]:
  "key_ok C k v \<Longrightarrow> keeps (session_ok C) (ud_set k v)"
  by (rule keeps_ud_set) (rule session_ok_update)

lemma key_ok_simps [simp]:
  "key_ok C ''conversation_state'' (PInt CHANNEL_NAME)"
  "key_ok C ''conversation_state'' (PInt LOGO_IMAGE)"
  "key_ok C ''conversation_state'' (PInt FOOTER_TEXT)"
  "key_ok C ''channel_name'' (PStr t)"
  "key_ok C ''footer_text'' (PStr t)"
  "key_ok C ''footer_text'' PNone"
  "key_ok C ''logo_path'' (PStr (path_join (REPO_DIR C) ''logo.png''))"
  "key_ok C ''page_type'' v = dict_in v LANDING_PAGE_TYPES"
  by (simp_all add: key_ok_def is_str_def logo_file_def)

lemma keeps_save_logo [keeps_intros]: "keeps (session_ok C) (save_logo C E file_id)"
proof -
  have "keeps Q (\<lambda>s. (Inr (), s\<lparr>exists_path := (exists_path s)(p := True)\<rparr>))" for Q p
    by (rule keepsI) simp
  then show ?thesis
    unfolding save_logo_def download_to_drive_def Let_def
    by (auto intro!: keeps_intros)
qed

lemma keeps_get_logo_image [keeps_intros]: "keeps (session_ok C) (get_logo_image C E u)"
  unfolding get_logo_image_def ask_page_type_def
  by (auto intro!: keeps_intros split: option.splits)

lemma keeps_button_callback [keeps_intros]: "keeps (session_ok C) (button_callback C E data)"
  unfolding button_callback_def start_from_callback_def generate_from_callback_def
    help_from_callback_def cancel_from_callback_def footer_yes_callback_def
    footer_no_callback_def page_type_callback_def
  by (intro keeps_intros; simp)

lemma keeps_handle_message [keeps_intros]: "keeps (session_ok C) (handle_message C E u)"
  unfolding handle_message_def
  by (intro keeps_intros; simp)

lemma keeps_entry_points [keeps_intros]: "keeps Q (start u)" "keeps Q (help_command u)"
  unfolding start_def help_command_def
  by (auto intro!: keeps_intros)

lemma keeps_conversation_handlers:
  "keeps (session_ok C) (generate u)"
  "keeps (session_ok C) (get_channel_name u)"
  "keeps (session_ok C) (get_page_type u)"
  "keeps (session_ok C) (get_footer_choice C E u)"
  "keeps (session_ok C) (get_footer_text C E u)"
  "keeps (session_ok C) (cancel u)"
  unfolding generate_def get_channel_name_def get_page_type_def get_footer_choice_def
    get_footer_text_def cancel_def page_type_description_def Let_def
  by (auto intro!: keeps_intros split: option.splits)

section \<open>What single handlers do\<close>

lemma not_a_menu_callback:
  assumes "startswith data ''page_type_''"
  shows "data \<noteq> CALLBACK_START" "data \<noteq> CALLBACK_GENERATE" "data \<noteq> CALLBACK_HELP"
    "data \<noteq> CALLBACK_CANCEL" "data \<noteq> CALLBACK_FOOTER_YES" "data \<noteq> CALLBACK_FOOTER_NO"
  using assms by (auto simp: startswith_def callback_consts)

lemma handle_message_footer_text:
  assumes "lookup_ud s ''conversation_state'' = PInt FOOTER_TEXT"
    and "msg_text m = Some t" and "t \<noteq> []"
  shows "handle_message C E (Message m) s =
     create_landing_page_from_message C E
       (s\<lparr>user_data := (user_data s)(''footer_text'' \<mapsto> PStr (py_strip t))\<rparr>)"
  using assms
  by (simp add: handle_message_def the_message_defs state_consts bind_io_def then_io_def ret_def
      ud_set_def ud_get_def [folded lookup_ud_def])

lemma handle_message_channel_name:
  assumes "lookup_ud s ''conversation_state'' = PInt CHANNEL_NAME"
    and "msg_text m = Some t" and "t \<noteq> []"
  shows "handle_message C E (Message m) s =
     (Inr (), s\<lparr>user_data := (user_data s)(''channel_name'' \<mapsto> PStr (py_strip t),
          ''conversation_state'' \<mapsto> PInt LOGO_IMAGE),
        trace := trace s @ [Reply_Text (Ask_Logo (py_strip t)) []]\<rparr>)"
  using assms
  by (simp add: handle_message_def the_message_defs state_consts bind_io_def then_io_def ret_def
      ud_set_def emit_def reply_text_def ud_get_def [folded lookup_ud_def])

lemma handle_message_other:
  assumes "update_message u = None \<or> lookup_ud s ''conversation_state'' \<noteq> PInt FOOTER_TEXT"
  shows "list_all (\<lambda>e. \<not> run_effect e) (new_effects (handle_message C E u) s)"
  using assms
  by (auto simp: handle_message_def the_message_defs new_effects_def bind_io_def then_io_def
      ret_def raise_def ud_set_def emit_def reply_text_def ud_get_def [folded lookup_ud_def]
      split: option.splits)

lemma page_type_of_data:
  assumes "k \<in> set page_type_keys"
  shows "py_replace (page_type_data k) ''page_type_'' [] = k"
proof -
  have "\<not> sublist ''page_type_'' k"
    using page_type_key_short [OF assms] by (auto dest: sublist_length_le)
  then show ?thesis
    using py_replace_prefix_once [of "''page_type_''" k "[]"]
    by (simp add: page_type_data_def)
qed

lemma page_type_callback_run:
  assumes "dict_index LANDING_PAGE_TYPES (PStr k) = Some d"
  shows "button_callback C E (page_type_data k) s =
    (Inr (), s\<lparr>user_data := (user_data s)(''page_type'' \<mapsto> PStr k),
       trace := trace s @ [Answer None, Edit_Text (Ask_Footer d) footer_keyboard]\<rparr>)"
proof -
  from assms have catalog: "dict_in (PStr k) LANDING_PAGE_TYPES"
    by (simp add: dict_index_in)
  then have k: "k \<in> set page_type_keys"
    by (simp add: dict_in_page_types)
  have data: "startswith (page_type_data k) ''page_type_''"
    by (simp add: startswith_def page_type_data_def)
  from not_a_menu_callback [OF data] data page_type_of_data [OF k] assms catalog
  show ?thesis
    by (simp add: button_callback_def page_type_callback_def page_type_description_def io_defs)
qed

lemma footer_no_callback_run:
  "button_callback C E CALLBACK_FOOTER_NO s =
     create_page From_Callback C E
       (s\<lparr>trace := trace s @ [Answer None],
          user_data := (user_data s)(''footer_text'' \<mapsto> PNone)\<rparr>)"
  by (simp add: button_callback_def footer_no_callback_def callback_consts
      create_page_variants io_defs)

lemma logo_file_nonempty [simp]: "logo_file C \<noteq> []"
  by (simp add: logo_file_def path_join_def)

lemma save_logo_run:
  assumes "get_file_ok E" and "download_ok E"
  shows "save_logo C E file_id s =
    (Inr (), s\<lparr>exists_path := (exists_path s)(REPO_DIR C := True, logo_file C := True),
       trace := trace s @ [Makedirs (REPO_DIR C), Download file_id (logo_file C)],
       user_data := (user_data s)(''logo_path'' \<mapsto> PStr (logo_file C))\<rparr>)"
  using assms
  by (simp add: save_logo_def download_to_drive_def logo_file_def io_defs Let_def)

lemma get_logo_image_run:
  assumes "uploaded_file m = Some file_id" and "get_file_ok E" and "download_ok E"
  shows "get_logo_image C E (Message m) s =
    (Inr PAGE_TYPE,
     s\<lparr>exists_path := (exists_path s)(REPO_DIR C := True, logo_file C := True),
       trace := trace s @ [Makedirs (REPO_DIR C), Download file_id (logo_file C),
         Reply_Text Ask_Page_Type page_type_keyboard],
       user_data := (user_data s)(''logo_path'' \<mapsto> PStr (logo_file C))\<rparr>)"
  using assms
  by (auto simp: get_logo_image_def ask_page_type_def the_message_defs save_logo_run
      uploaded_file_def bind_io_def then_io_def ret_def reply_text_def emit_def
      split: if_splits option.splits)

section \<open>Properties of the handlers\<close>

text \<open>
  C11. A button press that selects a page type outside the catalog changes nothing in
  the session: the handler answers the press, tells the user that the selection is
  invalid, and stores nothing.
\<close>
theorem invalid_page_type_rejected:
  assumes "startswith data ''page_type_''"
    and "py_replace data ''page_type_'' [] \<notin> set page_type_keys"
  shows "button_callback C E data s =
     (Inr (), s\<lparr>trace := trace s @ [Answer None, Answer (Some Invalid_Page_Type)]\<rparr>)"
  using assms not_a_menu_callback [OF assms(1)]
  by (simp add: button_callback_def page_type_callback_def dict_in_page_types io_defs)

theorem invalid_page_type_rejected_witness:
  "button_callback test_config test_env ''page_type_11'' test_session =
     (Inr (), test_session\<lparr>trace := trace test_session @
        [Answer None, Answer (Some Invalid_Page_Type)]\<rparr>)"
proof -
  have "py_replace ''page_type_11'' ''page_type_'' [] = ''11''"
    by (simp add: py_replace_def)
  then show ?thesis
    using invalid_page_type_rejected [of "''page_type_11''" test_config test_env test_session]
    by (simp add: startswith_def page_type_keys_def LANDING_PAGE_TYPES_def)
qed

text \<open>
  C13. After a logo has been received the working copy directory exists, because
  \<open>get_logo_image\<close> creates it to store the logo. The next \<open>setup_git_repo\<close>
  therefore runs \<^verbatim>\<open>git pull\<close> in that directory and nothing else, also when the
  repository has never been cloned.
\<close>
theorem logo_upload_then_pull:
  assumes "msg_photo m \<noteq> [] \<or> msg_document m \<noteq> None"
    and "get_file_ok E" and "download_ok E"
  shows "setup_command C (exists_path (snd (get_logo_image C E (Message m) s)) (REPO_DIR C))
       = Some [''git'', ''pull''] \<and>
     new_effects (setup_git_repo C E') (snd (get_logo_image C E (Message m) s))
       = [Git [''git'', ''pull''] (Some (REPO_DIR C)) (git_ok E' [''git'', ''pull''])]"
proof -
  from assms(1) obtain file_id where "uploaded_file m = Some file_id"
    by (cases "msg_photo m = []") (auto simp: uploaded_file_def)
  from get_logo_image_run [OF this assms(2,3)] show ?thesis
    by (simp add: setup_command_def setup_cwd_def setup_git_repo_run new_effects_def)
qed

theorem logo_upload_then_pull_witness:
  "\<not> exists_path init_state (REPO_DIR test_config) \<and>
   new_effects (setup_git_repo test_config test_env)
     (snd (get_logo_image test_config test_env
       (Message \<lparr>msg_text = None, msg_photo = [''small'', ''large''], msg_document = None\<rparr>)
       init_state))
     = [Git [''git'', ''pull''] (Some ''repo'') True]"
  using logo_upload_then_pull [of
      "\<lparr>msg_text = None, msg_photo = [''small'', ''large''], msg_document = None\<rparr>"
      test_env test_config init_state test_env]
  by (simp add: init_state_def)

text \<open>
  C20. A text message received while the session waits for the footer text starts a
  run, and the session still waits for the footer text afterwards: nothing resets the
  conversation state, so every later text message starts another run.
\<close>
theorem footer_text_state_persists:
  assumes "lookup_ud s ''conversation_state'' = PInt FOOTER_TEXT"
    and "msg_text m = Some t" and "t \<noteq> []"
  shows "lookup_ud (snd (handle_message C E (Message m) s)) ''conversation_state''
       = PInt FOOTER_TEXT \<and>
     hd (messages (new_effects (handle_message C E (Message m)) s)) = Creating"
proof -
  let ?s = "s\<lparr>user_data := (user_data s)(''footer_text'' \<mapsto> PStr (py_strip t))\<rparr>"
  have run: "handle_message C E (Message m) s = create_landing_page_from_message C E ?s"
    using assms by (rule handle_message_footer_text)
  have "user_data (snd (create_landing_page_from_message C E ?s)) = user_data ?s"
    by (rule session_unchanged) (rule keeps_create_landing_page)
  moreover obtain r ms where "report (create_page From_Message C E) ?s = (r, Creating # ms)"
    using create_page_report [of From_Message C E ?s] outcome_report_Creating by metis
  ultimately show ?thesis
    using assms(1)
    by (simp add: run lookup_ud_def report_def new_effects_def create_page_variants)
qed

theorem footer_text_state_persists_witness:
  "hd (messages (new_effects (handle_message test_config test_env
      (Message \<lparr>msg_text = Some ''again'', msg_photo = [], msg_document = None\<rparr>))
      (test_session\<lparr>user_data := (user_data test_session)
         (''conversation_state'' \<mapsto> PInt FOOTER_TEXT)\<rparr>))) = Creating"
  using footer_text_state_persists [of
      "test_session\<lparr>user_data := (user_data test_session)
         (''conversation_state'' \<mapsto> PInt FOOTER_TEXT)\<rparr>"
      "\<lparr>msg_text = Some ''again'', msg_photo = [], msg_document = None\<rparr>" "''again''"
      test_config test_env]
  by (simp add: lookup_ud_def)

end
