(* ===== verification/Dispatcher.thy ===== *)
theory Dispatcher
  imports Handlers
begin

text \<open>
  The registration of the handlers in \<^verbatim>\<open>main\<close> of \<^verbatim>\<open>src/bot.py\<close> and the session
  store. \<open>dispatch\<close> gives an update to the first registered handler whose filter
  accepts it, in the order of registration: the two command handlers, the callback
  query handler, the text handler, the image handler. No conversation handler is
  registered, so the functions that return state numbers are reached only through
  \<open>dispatch\<close> where \<^verbatim>\<open>main\<close> names them (\<^verbatim>\<open>get_logo_image\<close>), and their return value is
  dropped. \<open>system\<close> holds one session dictionary per user and the world all users
  share; \<open>step\<close> runs one update of one user, \<open>run\<close> a list of them, and
  \<open>reachable\<close> is the set of systems a run can produce. An exception that a
  handler does not catch ends the step and is recorded in the log (\<open>run_io\<close>); what
  the handler did before stays done. \<open>step_effects\<close> is what one step appends to the
  log and \<open>starts_run\<close> the condition under which \<open>dispatch\<close> reaches an
  orchestrator. The lemmas show the invariant of the sessions by rule induction, which
  updates start a run and which do not, what each step of the conversation does to the
  system, and what the cancel button does.
\<close>

section \<open>Filters\<close>

definition command_of :: "message \<Rightarrow> string option" where
  "command_of m =
     (case msg_text m of
        None \<Rightarrow> None
      | Some t \<Rightarrow> if startswith t ''/'' then Some (takeWhile (\<lambda>c. \<not> py_isspace c) (tl t))
                  else None)"

definition filters_TEXT :: "message \<Rightarrow> bool" where
  "filters_TEXT m \<longleftrightarrow> truthy_opt (msg_text m)"

definition filters_COMMAND :: "message \<Rightarrow> bool" where
  "filters_COMMAND m \<longleftrightarrow> command_of m \<noteq> None"

definition filters_PHOTO :: "message \<Rightarrow> bool" where
  "filters_PHOTO m \<longleftrightarrow> msg_photo m \<noteq> []"

definition filters_Document_IMAGE :: "message \<Rightarrow> bool" where
  "filters_Document_IMAGE m \<longleftrightarrow> (case msg_document m of None \<Rightarrow> False | Some d \<Rightarrow> doc_is_image d)"

section \<open>Dispatch\<close>

definition drop_result :: "'a io \<Rightarrow> unit io" where
  "drop_result m = bind_io m (\<lambda>_. ret ())"

definition route_message :: "config \<Rightarrow> env \<Rightarrow> update \<Rightarrow> message \<Rightarrow> unit io" where
  "route_message C E u m =
     (if command_of m = Some ''start'' then start u
      else if command_of m = Some ''help'' then help_command u
      else if filters_TEXT m \<and> \<not> filters_COMMAND m then handle_message C E u
      else if filters_PHOTO m \<or> filters_Document_IMAGE m then
        drop_result (get_logo_image C E u)
      else ret ())"

definition dispatch :: "config \<Rightarrow> env \<Rightarrow> update \<Rightarrow> unit io" where
  "dispatch C E u =
     (case u of
        Message m \<Rightarrow> route_message C E u m
      | Edited_Message m \<Rightarrow> route_message C E u m
      | Callback_Query data \<Rightarrow> button_callback C E data
      | Other_Update \<Rightarrow> ret ())"

section \<open>The session store and runs\<close>

record system =
  sessions :: "nat \<Rightarrow> (string \<rightharpoonup> pyval)"
  paths :: "string \<Rightarrow> bool"
  files :: "string \<rightharpoonup> string"
  log :: "effect list"

definition init_system :: system where
  "init_system = \<lparr>sessions = (\<lambda>_. Map.empty), paths = (\<lambda>_. False), files = Map.empty,
     log = []\<rparr>"

definition view :: "nat \<Rightarrow> system \<Rightarrow> bot_state" where
  "view uid S = \<lparr>user_data = sessions S uid, exists_path = paths S, file_text = files S,
     trace = log S\<rparr>"

definition store :: "nat \<Rightarrow> bot_state \<Rightarrow> system \<Rightarrow> system" where
  "store uid s S = \<lparr>sessions = (sessions S)(uid := user_data s), paths = exists_path s,
     files = file_text s, log = trace s\<rparr>"

definition step :: "config \<Rightarrow> env \<Rightarrow> nat \<Rightarrow> update \<Rightarrow> system \<Rightarrow> system" where
  "step C E uid u S = store uid (run_io (dispatch C E u) (view uid S)) S"

fun run :: "config \<Rightarrow> (env \<times> nat \<times> update) list \<Rightarrow> system \<Rightarrow> system" where
  "run C [] S = S"
| "run C ((E, uid, u) # us) S = run C us (step C E uid u S)"

inductive reachable :: "config \<Rightarrow> system \<Rightarrow> bool" for C where
  reachable_init: "reachable C init_system"
| reachable_step: "reachable C S \<Longrightarrow> reachable C (step C E uid u S)"

definition step_effects :: "config \<Rightarrow> env \<Rightarrow> nat \<Rightarrow> update \<Rightarrow> system \<Rightarrow> effect list" where
  "step_effects C E uid u S = drop (length (log S)) (log (step C E uid u S))"

definition starts_run :: "update \<Rightarrow> (string \<rightharpoonup> pyval) \<Rightarrow> bool" where
  "starts_run u d =
     (case u of
        Callback_Query data \<Rightarrow> data = CALLBACK_FOOTER_NO
      | Message m \<Rightarrow> filters_TEXT m \<and> \<not> filters_COMMAND m \<and>
          d ''conversation_state'' = Some (PInt FOOTER_TEXT)
      | _ \<Rightarrow> False)"

lemmas dispatch_defs =
  command_of_def filters_TEXT_def filters_COMMAND_def filters_PHOTO_def
  filters_Document_IMAGE_def drop_result_def route_message_def dispatch_def

lemmas system_defs = init_system_def view_def store_def step_def

section \<open>Runs and reachability\<close>

lemma run_append: "run C (us @ vs) S = run C vs (run C us S)"
  by (induction us arbitrary: S) auto

lemma reachable_run: "reachable C S \<Longrightarrow> reachable C (run C us S)"
proof (induction us arbitrary: S)
  case Nil
  then show ?case by simp
next
  case (Cons x us)
  obtain E uid u where x: "x = (E, uid, u)"
    by (cases x)
  from Cons.prems have "reachable C (step C E uid u S)"
    by (rule reachable_step)
  then have "reachable C (run C us (step C E uid u S))"
    by (rule Cons.IH)
  with x show ?case by simp
qed

lemma reachable_iff_run: "reachable C S \<longleftrightarrow> (\<exists>us. S = run C us init_system)"
proof
  assume "reachable C S"
  then show "\<exists>us. S = run C us init_system"
  proof (induction rule: reachable.induct)
    case reachable_init
    have "init_system = run C [] init_system" by simp
    then show ?case ..
  next
    case (reachable_step S E uid u)
    from reachable_step.IH obtain us where "S = run C us init_system" ..
    then have "step C E uid u S = run C (us @ [(E, uid, u)]) init_system"
      by (simp add: run_append)
    then show ?case ..
  qed
next
  assume "\<exists>us. S = run C us init_system"
  then show "reachable C S"
    by (auto intro: reachable_run reachable_init)
qed

section \<open>What a step does to the system\<close>

lemma emits_dispatch:
  assumes "\<And>e. is_chat e \<or> is_git e \<or> is_http e \<or> is_file e \<Longrightarrow> P e"
  shows "emits_only P (dispatch C E u)"
proof -
  have "emits_only P (route_message C E u m)" for m
    unfolding route_message_def drop_result_def
    by (intro emits_intros; auto intro: assms)
  then show ?thesis
    by (cases u) (simp_all add: dispatch_def emits_intros assms)
qed

lemma keeps_dispatch: "keeps (session_ok C) (dispatch C E u)"
proof -
  have "keeps (session_ok C) (route_message C E u m)" for m
    unfolding route_message_def drop_result_def
    by (intro keeps_intros; simp)
  then show ?thesis
    by (cases u) (simp_all add: dispatch_def keeps_intros)
qed

lemma sessions_step:
  "sessions (step C E uid u S) =
     (sessions S)(uid := user_data (run_io (dispatch C E u) (view uid S)))"
  by (simp add: step_def store_def)

lemma log_step: "log (step C E uid u S) = trace (run_io (dispatch C E u) (view uid S))"
  by (simp add: step_def store_def)

lemma view_simps [simp]:
  "user_data (view uid S) = sessions S uid" "exists_path (view uid S) = paths S"
  "file_text (view uid S) = files S" "trace (view uid S) = log S"
  by (simp_all add: view_def)

lemma step_session_ok:
  assumes "\<And>uid. session_ok C (sessions S uid)"
  shows "session_ok C (sessions (step C E uid u S) uid')"
  using assms keeps_run_io [OF keeps_dispatch, of C "view uid S" E u]
  by (simp add: sessions_step)

lemma reachable_session_ok: "reachable C S \<Longrightarrow> session_ok C (sessions S uid)"
  by (induction arbitrary: uid rule: reachable.induct)
    (simp_all add: init_system_def step_session_ok)

lemma button_step:
  "button_callback C E data (view uid S) = (Inr (), s') \<Longrightarrow>
   step C E uid (Callback_Query data) S = store uid s' S"
  by (simp add: step_def dispatch_def run_io_def)

lemma step_effects_eq:
  "step_effects C E uid u S =
     new_effects (dispatch C E u) (view uid S) @
       (case fst (dispatch C E u (view uid S)) of Inl e \<Rightarrow> [Uncaught e] | Inr x \<Rightarrow> [])"
  using trace_run_io [OF emits_dispatch, of "\<lambda>_. True" C E u "view uid S"]
  by (simp add: step_effects_def log_step)

section \<open>Which updates start a run\<close>

lemma list_ex_Creating: "Creating \<in> set (messages es) \<Longrightarrow> list_ex run_effect es"
  by (induction es rule: messages.induct) auto

lemma create_page_starts: "list_ex run_effect (new_effects (create_page v C E) s)"
proof -
  obtain r ms where "report (create_page v C E) s = (r, Creating # ms)"
    using create_page_report [of v C E s] outcome_report_Creating by metis
  then show ?thesis
    by (intro list_ex_Creating) (simp add: report_def)
qed

lemma route_message_other:
  assumes "\<not> starts_run u (user_data s)" and "u = Message m \<or> u = Edited_Message m"
  shows "list_all (\<lambda>e. \<not> run_effect e) (new_effects (route_message C E u m) s)"
proof (cases "filters_TEXT m \<and> \<not> filters_COMMAND m")
  case True
  with assms have "update_message u = None \<or>
      lookup_ud s ''conversation_state'' \<noteq> PInt FOOTER_TEXT"
    by (auto simp: starts_run_def update_message_def lookup_ud_def split: option.splits)
  then have "list_all (\<lambda>e. \<not> run_effect e) (new_effects (handle_message C E u) s)"
    by (rule handle_message_other)
  with True show ?thesis
    by (auto simp: route_message_def filters_COMMAND_def)
next
  case False
  then have "emits_only (\<lambda>e. \<not> run_effect e) (route_message C E u m)"
    unfolding route_message_def drop_result_def
    by (intro emits_intros; simp)
  then show ?thesis
    by (rule emits_onlyD)
qed

lemma dispatch_other:
  assumes "\<not> starts_run u (user_data s)"
  shows "list_all (\<lambda>e. \<not> run_effect e) (new_effects (dispatch C E u) s)"
proof (cases u)
  case (Message m)
  with assms show ?thesis
    by (simp add: dispatch_def route_message_other)
next
  case (Edited_Message m)
  with assms show ?thesis
    by (simp add: dispatch_def route_message_other)
next
  case (Callback_Query data)
  with assms have "emits_only (\<lambda>e. \<not> run_effect e) (button_callback C E data)"
    by (intro emits_button_callback_other) (simp_all add: starts_run_def)
  with Callback_Query show ?thesis
    by (simp add: dispatch_def emits_onlyD)
next
  case Other_Update
  then show ?thesis
    by (simp add: dispatch_def new_effects_def ret_def)
qed

lemma dispatch_starts:
  assumes "starts_run u (user_data s)"
  shows "list_ex run_effect (new_effects (dispatch C E u) s)"
proof (cases u)
  case (Message m)
  with assms obtain t where m: "msg_text m = Some t" "t \<noteq> []" "command_of m = None"
    and state: "lookup_ud s ''conversation_state'' = PInt FOOTER_TEXT"
    by (auto simp: starts_run_def filters_TEXT_def filters_COMMAND_def lookup_ud_def
        dest: truthy_opt_Some)
  from handle_message_footer_text [OF state m(1,2), of C E] m Message
  have "new_effects (dispatch C E u) s = new_effects (create_page From_Message C E)
      (s\<lparr>user_data := (user_data s)(''footer_text'' \<mapsto> PStr (py_strip t))\<rparr>)"
    by (simp add: dispatch_def route_message_def filters_TEXT_def filters_COMMAND_def
        new_effects_def create_page_variants)
  then show ?thesis
    by (simp add: create_page_starts)
next
  case (Callback_Query data)
  with assms have "dispatch C E u s = create_page From_Callback C E
      (s\<lparr>trace := trace s @ [Answer None],
         user_data := (user_data s)(''footer_text'' \<mapsto> PNone)\<rparr>)"
    by (simp add: starts_run_def dispatch_def footer_no_callback_run)
  then have "new_effects (dispatch C E u) s = Answer None # new_effects (create_page From_Callback C E)
      (s\<lparr>trace := trace s @ [Answer None],
         user_data := (user_data s)(''footer_text'' \<mapsto> PNone)\<rparr>)"
    using new_effects_resumed [OF emits_create_page, of "\<lambda>_. True" _ s "[Answer None]"
        From_Callback C E]
    by (simp add: new_effects_def [of "dispatch C E u"])
  then show ?thesis
    by (simp add: create_page_starts)
qed (use assms in \<open>simp_all add: starts_run_def\<close>)

section \<open>The steps of the conversation\<close>

lemma step_generate:
  "step C E uid (Callback_Query CALLBACK_GENERATE) S =
     S\<lparr>sessions := (sessions S)(uid := (sessions S uid)
          (''conversation_state'' \<mapsto> PInt CHANNEL_NAME)),
       log := log S @ [Answer None, Edit_Text Ask_Channel_Name []]\<rparr>"
  by (simp add: step_def dispatch_def button_callback_def generate_from_callback_def
      callback_consts io_defs store_def view_def)

lemma step_channel_name:
  assumes "sessions S uid ''conversation_state'' = Some (PInt CHANNEL_NAME)"
    and "msg_text m = Some t" and "t \<noteq> []" and "\<not> startswith t ''/''"
  shows "step C E uid (Message m) S =
     S\<lparr>sessions := (sessions S)(uid := (sessions S uid)
          (''channel_name'' \<mapsto> PStr (py_strip t), ''conversation_state'' \<mapsto> PInt LOGO_IMAGE)),
       log := log S @ [Reply_Text (Ask_Logo (py_strip t)) []]\<rparr>"
proof -
  have "lookup_ud (view uid S) ''conversation_state'' = PInt CHANNEL_NAME"
    using assms(1) by (simp add: lookup_ud_def)
  from handle_message_channel_name [OF this assms(2,3), of C E] assms(2-4)
  show ?thesis
    by (simp add: step_def dispatch_def route_message_def command_of_def filters_TEXT_def
      filters_COMMAND_def run_io_def store_def)
qed

lemma step_logo:
  assumes "msg_text m = None" and "uploaded_file m = Some file_id"
    and "filters_PHOTO m \<or> filters_Document_IMAGE m"
    and "get_file_ok E" and "download_ok E"
  shows "step C E uid (Message m) S =
     S\<lparr>sessions := (sessions S)(uid := (sessions S uid)(''logo_path'' \<mapsto> PStr (logo_file C))),
       paths := (paths S)(REPO_DIR C := True, logo_file C := True),
       log := log S @ [Makedirs (REPO_DIR C), Download file_id (logo_file C),
         Reply_Text Ask_Page_Type page_type_keyboard]\<rparr>"
  using assms(1,3) get_logo_image_run [OF assms(2,4,5), of C "view uid S"]
  by (simp add: step_def dispatch_def route_message_def command_of_def filters_TEXT_def
      filters_COMMAND_def drop_result_def bind_io_def ret_def run_io_def store_def)

lemma step_page_type:
  assumes "dict_index LANDING_PAGE_TYPES (PStr k) = Some d"
  shows "step C E uid (Callback_Query (page_type_data k)) S =
     S\<lparr>sessions := (sessions S)(uid := (sessions S uid)(''page_type'' \<mapsto> PStr k)),
       log := log S @ [Answer None, Edit_Text (Ask_Footer d) footer_keyboard]\<rparr>"
  using page_type_callback_run [OF assms, of C E "view uid S"]
  by (simp add: step_def dispatch_def run_io_def store_def)

definition run_state :: "nat \<Rightarrow> system \<Rightarrow> bot_state" where
  "run_state uid S = (view uid S)\<lparr>trace := log S @ [Answer None],
     user_data := (sessions S uid)(''footer_text'' \<mapsto> PNone)\<rparr>"

lemma run_state_simps [simp]:
  "lookup_ud (run_state uid S) ''footer_text'' = PNone"
  "k \<noteq> ''footer_text'' \<Longrightarrow> lookup_ud (run_state uid S) k = lookup_ud (view uid S) k"
  "exists_path (run_state uid S) = paths S" "file_text (run_state uid S) = files S"
  by (simp_all add: run_state_def lookup_ud_def)

lemma step_footer_no:
  "step C E uid (Callback_Query CALLBACK_FOOTER_NO) S =
     store uid (run_io (create_page From_Callback C E) (run_state uid S)) S"
  using footer_no_callback_run [of C E "view uid S"]
  by (simp add: step_def dispatch_def run_io_def run_state_def)

lemma footer_no_effects:
  "step_effects C E uid (Callback_Query CALLBACK_FOOTER_NO) S =
     Answer None # new_effects (create_page From_Callback C E) (run_state uid S) @
       (case fst (create_page From_Callback C E (run_state uid S)) of
          Inl e \<Rightarrow> [Uncaught e] | Inr x \<Rightarrow> [])"
  using trace_run_io [OF emits_create_page, of "\<lambda>_. True" From_Callback C E "run_state uid S"]
  by (simp add: step_effects_def step_footer_no store_def run_state_def)

lemma footer_no_contract:
  "git_commands (step_effects C E uid (Callback_Query CALLBACK_FOOTER_NO) S)
     = run_git C E (run_state uid S)"
  "messages (step_effects C E uid (Callback_Query CALLBACK_FOOTER_NO) S)
     = snd (outcome_report (run_outcome C E (run_state uid S)))"
  "run_outcome C E (run_state uid S) = Crashed e b \<Longrightarrow>
   last (step_effects C E uid (Callback_Query CALLBACK_FOOTER_NO) S) = Uncaught e"
proof -
  have contract: "outcome_report (run_outcome C E (run_state uid S)) =
      (fst (create_page From_Callback C E (run_state uid S)),
       messages (new_effects (create_page From_Callback C E) (run_state uid S)))"
    using create_page_report [of From_Callback C E "run_state uid S"]
    by (simp add: report_def)
  show "git_commands (step_effects C E uid (Callback_Query CALLBACK_FOOTER_NO) S)
     = run_git C E (run_state uid S)"
    by (simp add: footer_no_effects create_page_git split: sum.splits)
  show "messages (step_effects C E uid (Callback_Query CALLBACK_FOOTER_NO) S)
     = snd (outcome_report (run_outcome C E (run_state uid S)))"
    by (simp add: footer_no_effects contract split: sum.splits)
  show "last (step_effects C E uid (Callback_Query CALLBACK_FOOTER_NO) S) = Uncaught e"
    if "run_outcome C E (run_state uid S) = Crashed e b"
  proof -
    from that contract have "fst (create_page From_Callback C E (run_state uid S)) = Inl e"
      by (metis fst_conv outcome_report.simps(7))
    then show ?thesis
      by (simp add: footer_no_effects)
  qed
qed

lemma footer_no_files:
  "files (step C E uid (Callback_Query CALLBACK_FOOTER_NO) S)
     = file_text (snd (create_page From_Callback C E (run_state uid S)))"
  by (simp add: step_footer_no store_def run_io_def split: prod.splits sum.splits)

section \<open>Properties of the dispatcher\<close>

text \<open>
  C4. In every system that a sequence of updates can produce, every session has the
  shape \<open>session_ok\<close>: it holds only the five keys the handlers write, the channel
  name and the footer text are text when present, a stored page type is a key of the
  catalog, and the conversation state is one of the numbers the registered handlers
  store.
\<close>
theorem run_session_ok: "session_ok C (sessions (run C us init_system) uid)"
  by (rule reachable_session_ok) (rule reachable_run [OF reachable_init])

theorem run_session_ok_witness:
  "session_ok test_config (sessions (run test_config
      [(test_env, 1, Callback_Query CALLBACK_GENERATE),
       (test_env, 1, Message \<lparr>msg_text = Some ''shop'', msg_photo = [],
          msg_document = None\<rparr>)] init_system) 1) \<and>
   sessions (run test_config
      [(test_env, 1, Callback_Query CALLBACK_GENERATE),
       (test_env, 1, Message \<lparr>msg_text = Some ''shop'', msg_photo = [],
          msg_document = None\<rparr>)] init_system) 1 ''channel_name'' = Some (PStr ''shop'')"
proof -
  have "sessions (run test_config
      [(test_env, 1, Callback_Query CALLBACK_GENERATE),
       (test_env, 1, Message \<lparr>msg_text = Some ''shop'', msg_photo = [],
          msg_document = None\<rparr>)] init_system) 1 ''channel_name'' = Some (PStr ''shop'')"
    by code_simp
  with run_session_ok [of test_config
      "[(test_env, 1, Callback_Query CALLBACK_GENERATE),
       (test_env, 1, Message \<lparr>msg_text = Some ''shop'', msg_photo = [],
          msg_document = None\<rparr>)]" 1]
  show ?thesis
    by simp
qed

text \<open>
  C22. A step produces an effect of a run (the message that the page is being
  created, a git command, a request to the generation or the deployment service, the
  page written to disk) exactly when the update is the button that declines the
  footer, or a text message that is not a command while the session waits for the
  footer text. No other update reaches the orchestrator: commands, photos, any other
  button and text in any other conversation state leave git, the services and the
  page alone, whatever the session holds.
\<close>
theorem run_started_iff:
  "list_ex run_effect (step_effects C E uid u S) \<longleftrightarrow> starts_run u (sessions S uid)"
proof (cases "starts_run u (sessions S uid)")
  case True
  then have "list_ex run_effect (new_effects (dispatch C E u) (view uid S))"
    by (intro dispatch_starts) simp
  with True show ?thesis
    by (simp add: step_effects_eq)
next
  case False
  then have "list_all (\<lambda>e. \<not> run_effect e) (new_effects (dispatch C E u) (view uid S))"
    by (intro dispatch_other) simp
  with False show ?thesis
    by (auto simp: step_effects_eq list_all_iff list_ex_iff split: sum.splits)
qed

theorem run_started_iff_witness:
  "starts_run (Callback_Query CALLBACK_FOOTER_NO) (sessions init_system 1) \<and>
   list_ex run_effect
     (step_effects test_config test_env 1 (Callback_Query CALLBACK_FOOTER_NO) init_system) \<and>
   \<not> list_ex run_effect
     (step_effects test_config test_env 1 (Callback_Query CALLBACK_GENERATE) init_system)"
  using run_started_iff [of test_config test_env 1 "Callback_Query CALLBACK_FOOTER_NO" init_system]
    run_started_iff [of test_config test_env 1 "Callback_Query CALLBACK_GENERATE" init_system]
  by (simp add: starts_run_def callback_consts)

text \<open>
  C21. Pressing the cancel button does not discard the session: the fields collected
  so far and the conversation state stay as they were, and the only effects are the
  answer to the press and the edited message.
\<close>
theorem cancel_keeps_session:
  "step C E uid (Callback_Query CALLBACK_CANCEL) S =
     S\<lparr>log := log S @ [Answer None,
       Edit_Text Cancelled_Start_Over [Callback_Button CALLBACK_GENERATE]]\<rparr>"
proof -
  have "button_callback C E CALLBACK_CANCEL (view uid S) =
      (Inr (), (view uid S)\<lparr>trace := log S @ [Answer None,
         Edit_Text Cancelled_Start_Over [Callback_Button CALLBACK_GENERATE]]\<rparr>)"
    by (simp add: button_callback_def cancel_from_callback_def callback_consts io_defs)
  from button_step [OF this] show ?thesis
    by (simp add: store_def)
qed

end
