(* ===== verification/Installer.thy ===== *)
theory Installer
  imports Py_Text
begin

text \<open>
  The installation script \<^verbatim>\<open>src/setup.py\<close>: four checks run in a fixed order, each
  gating the next, and an exit status. What the machine answers is the record \<open>host\<close>
  (the interpreter's version, what running \<^verbatim>\<open>git --version\<close> gives, whether \<^verbatim>\<open>pip\<close>
  succeeds, how copying the template goes); the state is the text of the files in the
  working directory and the list of the external actions taken so far. Opening a file
  for writing creates it, so a copy that fails while reading the template leaves an
  empty \<^verbatim>\<open>.env\<close> behind. Starting git or pip fails only in the ways the script
  handles (git missing, a non-zero exit status); any other error of the operating
  system would end the script with a traceback and is not modelled.
\<close>

section \<open>The host and the state\<close>

datatype git_probe = Git_Missing | Git_Exit int

datatype copy_result = Copied | Open_Failed | Read_Failed

datatype action = Git_Version | Pip_Install | Copy_Env

record host =
  version_info :: "nat \<times> nat"
  git_probed :: git_probe
  pip_ok :: bool
  copy_env :: copy_result

record install_state =
  disk :: "string \<rightharpoonup> string"
  actions :: "action list"

definition act :: "action \<Rightarrow> install_state \<Rightarrow> install_state" where
  "act a s = s\<lparr>actions := actions s @ [a]\<rparr>"

section \<open>The checks\<close>

definition version_less :: "nat \<times> nat \<Rightarrow> nat \<times> nat \<Rightarrow> bool" where
  "version_less v w \<longleftrightarrow> fst v < fst w \<or> (fst v = fst w \<and> snd v < snd w)"

definition check_python_version :: "host \<Rightarrow> bool" where
  "check_python_version H = (if version_less (version_info H) (3, 8) then False else True)"

definition check_git :: "host \<Rightarrow> install_state \<Rightarrow> bool \<times> install_state" where
  "check_git H s =
     (case git_probed H of
        Git_Exit returncode \<Rightarrow> (if returncode = 0 then (True, act Git_Version s)
                                else (False, act Git_Version s))
      | Git_Missing \<Rightarrow> (False, act Git_Version s))"

definition install_dependencies :: "host \<Rightarrow> install_state \<Rightarrow> bool \<times> install_state" where
  "install_dependencies H s = (pip_ok H, act Pip_Install s)"

definition create_env_file :: "host \<Rightarrow> install_state \<Rightarrow> bool \<times> install_state" where
  "create_env_file H s =
     (if disk s ''.env'' \<noteq> None then (True, s)
      else case disk s ''env.example'' of
        Some template \<Rightarrow>
          (case copy_env H of
             Copied \<Rightarrow> (True, act Copy_Env (s\<lparr>disk := (disk s)(''.env'' \<mapsto> template)\<rparr>))
           | Read_Failed \<Rightarrow> (False, act Copy_Env (s\<lparr>disk := (disk s)(''.env'' \<mapsto> [])\<rparr>))
           | Open_Failed \<Rightarrow> (False, act Copy_Env s))
      | None \<Rightarrow> (False, s))"

definition and_then ::
  "(install_state \<Rightarrow> bool \<times> install_state) \<Rightarrow> (install_state \<Rightarrow> bool \<times> install_state) \<Rightarrow>
   install_state \<Rightarrow> bool \<times> install_state" where
  "and_then check rest s = (case check s of (ok, s') \<Rightarrow> if \<not> ok then (False, s') else rest s')"

definition main :: "host \<Rightarrow> install_state \<Rightarrow> bool \<times> install_state" where
  "main H =
     and_then (\<lambda>s. (check_python_version H, s))
    (and_then (check_git H)
    (and_then (install_dependencies H)
    (and_then (create_env_file H)
       (\<lambda>s. (True, s)))))"

definition exit_status :: "host \<Rightarrow> install_state \<Rightarrow> nat" where
  "exit_status H s = (if fst (main H s) then 0 else 1)"

lemmas installer_defs =
  act_def version_less_def check_python_version_def check_git_def install_dependencies_def
  create_env_file_def and_then_def main_def exit_status_def

section \<open>The contract\<close>

text \<open>
  What the script promises: it succeeds exactly on a host that is \<open>ready\<close> for a
  working directory that can get its \<^verbatim>\<open>.env\<close>.
\<close>

definition ready :: "host \<Rightarrow> bool" where
  "ready H \<longleftrightarrow> \<not> version_less (version_info H) (3, 8) \<and> git_probed H = Git_Exit 0 \<and> pip_ok H"

definition env_obtainable :: "host \<Rightarrow> install_state \<Rightarrow> bool" where
  "env_obtainable H s \<longleftrightarrow>
     disk s ''.env'' \<noteq> None \<or> (disk s ''env.example'' \<noteq> None \<and> copy_env H = Copied)"

definition test_host :: host where
  "test_host = \<lparr>version_info = (3, 11), git_probed = Git_Exit 0, pip_ok = True,
     copy_env = Copied\<rparr>"

definition test_dir :: install_state where
  "test_dir = \<lparr>disk = [''env.example'' \<mapsto> ''TELEGRAM_BOT_TOKEN=''], actions = []\<rparr>"

lemma ready_test_host [simp]: "ready test_host"
  by (simp add: ready_def test_host_def version_less_def)

lemma test_host_simps [simp]:
  "version_info test_host = (3, 11)" "git_probed test_host = Git_Exit 0" "pip_ok test_host"
  "copy_env test_host = Copied"
  by (simp_all add: test_host_def)

lemma test_dir_simps [simp]:
  "disk test_dir = [''env.example'' \<mapsto> ''TELEGRAM_BOT_TOKEN='']" "actions test_dir = []"
  by (simp_all add: test_dir_def)

section \<open>Lemmas on the checks\<close>

lemma create_env_file_ok_iff: "fst (create_env_file H s) \<longleftrightarrow> env_obtainable H s"
  by (auto simp: create_env_file_def env_obtainable_def split: option.splits copy_result.splits)

lemma main_ready:
  "ready H \<Longrightarrow> main H s =
     create_env_file H (s\<lparr>actions := actions s @ [Git_Version, Pip_Install]\<rparr>)"
  by (cases "create_env_file H (s\<lparr>actions := actions s @ [Git_Version, Pip_Install]\<rparr>)")
    (simp add: ready_def main_def and_then_def check_python_version_def check_git_def
      install_dependencies_def act_def)

lemma main_not_ready: "\<not> ready H \<Longrightarrow> \<not> fst (main H s) \<and> disk (snd (main H s)) = disk s"
  by (auto simp: ready_def main_def and_then_def check_python_version_def check_git_def
      install_dependencies_def act_def split: git_probe.splits)

section \<open>Properties of the installation script\<close>

text \<open>
  C15. The script succeeds exactly when the interpreter is at least version 3.8, git
  runs and exits with status 0, the dependencies install, and the working directory
  has its \<^verbatim>\<open>.env\<close> or gets it by copying the template; its exit status is 0 in that
  case and 1 otherwise.
\<close>
theorem main_succeeds_iff:
  "(fst (main H s) \<longleftrightarrow> ready H \<and> env_obtainable H s) \<and>
   exit_status H s = (if ready H \<and> env_obtainable H s then 0 else 1)"
proof -
  have "fst (main H s) \<longleftrightarrow> ready H \<and> env_obtainable H s"
  proof (cases "ready H")
    case True
    then show ?thesis
      by (simp add: main_ready create_env_file_ok_iff env_obtainable_def)
  next
    case False
    then show ?thesis
      by (simp add: main_not_ready)
  qed
  then show ?thesis
    by (simp add: exit_status_def)
qed

text \<open>
  C30. The script never changes an existing \<^verbatim>\<open>.env\<close>, and after a successful run
  the file exists: either it was there, or it is a copy of the template.
\<close>
theorem main_env_file:
  "(disk s ''.env'' = Some t \<longrightarrow> disk (snd (main H s)) ''.env'' = Some t) \<and>
   (fst (main H s) \<longrightarrow> disk (snd (main H s)) ''.env'' \<noteq> None) \<and>
   (fst (main H s) \<and> disk s ''.env'' = None \<longrightarrow>
      disk (snd (main H s)) ''.env'' = disk s ''env.example'')"
proof (cases "ready H")
  case True
  then show ?thesis
    by (auto simp: main_ready create_env_file_def act_def
        split: option.splits copy_result.splits)
next
  case False
  then show ?thesis
    by (simp add: main_not_ready)
qed

theorem main_env_file_witness:
  "fst (main test_host test_dir) \<and> disk test_dir ''.env'' = None \<and>
   disk (snd (main test_host test_dir)) ''.env'' = Some ''TELEGRAM_BOT_TOKEN=''"
proof -
  have "fst (main test_host test_dir)"
    by (simp add: main_ready create_env_file_def act_def)
  with main_env_file [of test_dir "''x''" test_host] show ?thesis
    by simp
qed

text \<open>
  C31. The external actions of a run are taken in the order git, pip, copy, and each
  only after the checks before it have passed: the list of actions is an initial
  segment of that order, and nothing is installed on a host whose interpreter is too
  old or that has no working git.
\<close>
theorem main_actions_in_order:
  "(\<exists>n. actions (snd (main H s)) = actions s @ take n [Git_Version, Pip_Install, Copy_Env]) \<and>
   (Pip_Install \<in> set (actions (snd (main H s))) - set (actions s) \<longrightarrow>
      check_python_version H \<and> git_probed H = Git_Exit 0)"
proof -
  have a: "actions (snd (main H s)) = actions s @ [] \<or>
      actions (snd (main H s)) = actions s @ [Git_Version] \<or>
      actions (snd (main H s)) = actions s @ [Git_Version, Pip_Install] \<or>
      actions (snd (main H s)) = actions s @ [Git_Version, Pip_Install, Copy_Env]"
    by (auto simp: installer_defs split: git_probe.splits option.splits copy_result.splits)
  have "take 0 [Git_Version, Pip_Install, Copy_Env] = []"
    "take 1 [Git_Version, Pip_Install, Copy_Env] = [Git_Version]"
    "take 2 [Git_Version, Pip_Install, Copy_Env] = [Git_Version, Pip_Install]"
    "take 3 [Git_Version, Pip_Install, Copy_Env] = [Git_Version, Pip_Install, Copy_Env]"
    by (simp_all add: numeral_2_eq_2 numeral_3_eq_3)
  with a have "\<exists>n. actions (snd (main H s))
      = actions s @ take n [Git_Version, Pip_Install, Copy_Env]"
    by metis
  moreover have "check_python_version H \<and> git_probed H = Git_Exit 0"
    if "Pip_Install \<in> set (actions (snd (main H s))) - set (actions s)"
    using that
    by (auto simp: installer_defs split: git_probe.splits if_splits)
  ultimately show ?thesis
    by blast
qed

theorem main_actions_in_order_witness:
  "Pip_Install \<in> set (actions (snd (main test_host test_dir))) - set (actions test_dir) \<and>
   check_python_version test_host \<and> git_probed test_host = Git_Exit 0"
proof -
  have "Pip_Install \<in> set (actions (snd (main test_host test_dir))) - set (actions test_dir)"
    by (simp add: main_ready create_env_file_def act_def)
  with main_actions_in_order [of test_host test_dir] show ?thesis
    by simp
qed

text \<open>
  C32. A copy of the template that fails while the template is read leaves an empty
  \<^verbatim>\<open>.env\<close> behind; the run fails, but the next run on a ready host finds the file,
  reports success and leaves it empty.
\<close>
theorem failed_copy_then_success:
  assumes "ready H" and "ready H'" and "copy_env H = Read_Failed"
    and "disk s ''.env'' = None" and "disk s ''env.example'' = Some template"
  shows "\<not> fst (main H s) \<and> fst (main H' (snd (main H s))) \<and>
     disk (snd (main H' (snd (main H s)))) ''.env'' = Some []"
  using assms by (simp add: main_ready create_env_file_def act_def)

theorem failed_copy_then_success_witness:
  "\<not> fst (main (test_host\<lparr>copy_env := Read_Failed\<rparr>) test_dir) \<and>
   fst (main test_host (snd (main (test_host\<lparr>copy_env := Read_Failed\<rparr>) test_dir))) \<and>
   disk (snd (main test_host (snd (main (test_host\<lparr>copy_env := Read_Failed\<rparr>) test_dir))))
     ''.env'' = Some []"
proof -
  have "ready (test_host\<lparr>copy_env := Read_Failed\<rparr>)"
    by (simp add: ready_def version_less_def)
  from failed_copy_then_success [OF this ready_test_host, of test_dir "''TELEGRAM_BOT_TOKEN=''"]
  show ?thesis
    by simp
qed

end
