(* ===== verification/Spec2Isabelle.thy ===== *)
theory Spec2Isabelle
  imports Dispatcher Installer
begin

text \<open>
  Verification development for the landing page generator bot (\<^verbatim>\<open>src/bot.py\<close>) and
  its installation script (\<^verbatim>\<open>src/setup.py\<close>).

  \<^bold>\<open>The program.\<close> The bot talks to users of a chat service. Over several messages
  and button presses it collects a channel name, a logo image, a page type out of a
  catalog of ten, and an optional footer text. It then asks a text generation service
  for an HTML page, writes the page as \<^verbatim>\<open>index.html\<close> into a local git working copy
  that all users share, commits and pushes it on a branch named after the channel,
  asks a deployment service to publish that branch, and tells the user how far it got.
  All of it is the one file \<^verbatim>\<open>src/bot.py\<close>. \<^verbatim>\<open>src/setup.py\<close> prepares an installation
  (it checks the interpreter and git, installs the dependencies and creates the
  \<^verbatim>\<open>.env\<close> file) and \<^verbatim>\<open>src/test_setup.py\<close> prints what is installed and configured;
  neither is part of the running bot.

  \<^bold>\<open>The model.\<close> Python text is \<open>string\<close>, a list of 8-bit characters: the
  development covers text whose code points are below 256, and the character classes
  (\<^verbatim>\<open>str.lower\<close>, \<^verbatim>\<open>str.strip\<close>, the classes of the regular expressions) are those of
  Python on that range. A value of the session dictionary is a \<open>pyval\<close>: \<^verbatim>\<open>None\<close>, an
  integer or a string. A handler is a function from the state (\<open>bot_state\<close>: the user's
  dictionary, the paths that exist, the text of the files written, and the trace of
  effects so far) to a result and a new state; the result is \<open>Inl\<close> of an exception or
  \<open>Inr\<close> of a value. The exceptions that are branches of the model are those of
  \<open>exc\<close>: a lookup that fails on the catalog or on \<^verbatim>\<open>None\<close>, a reply of the generation
  service that cannot be decoded, a command or a file opened in a directory that does
  not exist, a download that fails. The calls that the model takes to succeed are
  listed under ``Bounds and assumptions''. What the world
  outside answers (whether a git command succeeds, what \<^verbatim>\<open>git branch -r\<close> prints, what
  the generation and deployment services reply, whether a download works) is read
  from a record \<open>env\<close> that is a parameter of every operation, so the theorems hold
  for every behaviour of the outside. Every call that leaves the process (a chat
  message, a git command, an HTTP request, a file written) appends one \<open>effect\<close> to
  the trace; the order of the effects is the order of the calls in the source. The
  texts of the messages sent to the user are abstracted to one constructor of \<open>msg\<close>
  per message of the source, with the values the source interpolates as arguments.

  \<^bold>\<open>Theories\<close>, in the order they are built:

  \<^item> \<open>Py_Text\<close>: the Python operations on text and values the program uses
    (\<open>py_lower\<close>, \<open>py_strip\<close>, \<open>py_strip_chars\<close>, \<open>startswith\<close>, \<open>endswith\<close>, \<open>py_in\<close>,
    \<open>py_replace\<close>, \<open>truthy\<close>, \<open>py_str\<close>) with their algebra: idempotence of lowering
    and stripping, what stripping leaves at both ends, slicing a wrapped text.

  \<^item> \<open>Sanitizer\<close>: \<open>sanitize_branch_name\<close> (\<^verbatim>\<open>sanitize_branch_name\<close>) and
    \<open>netlify_subdomain\<close> (the three substitutions at the head of
    \<^verbatim>\<open>deploy_to_netlify\<close>), built from \<open>re_sub_outside\<close>, \<open>collapse_runs\<close> and
    \<open>py_strip_chars\<close> as the source builds them from \<^verbatim>\<open>re.sub\<close> and \<^verbatim>\<open>strip\<close>. The lemmas
    show that every result is a valid branch name (\<open>valid_branch\<close>), characterise
    the names on which sanitizing twice differs from sanitizing once, settle the
    fallback prefix and the shape of a subdomain, and name changes of a channel name
    that the sanitizer does not see, so that different names share a branch.

  \<^item> \<open>Bot_Config\<close>: the module-level data: \<open>config\<close> and \<open>load_config\<close> (the
    \<^verbatim>\<open>os.getenv\<close> calls), \<open>config_ok\<close> (the check at import time), the numbers of the
    conversation states, the callback identifiers, the catalog \<open>LANDING_PAGE_TYPES\<close>
    and the dictionary operations on it.

  \<^item> \<open>Bot_World\<close>: exceptions, the \<open>env\<close>, messages, buttons and effects, the state,
    the monad of handlers (\<open>ret\<close>, \<open>raise\<close>, \<open>bind_io\<close>, \<open>then_io\<close>) and its primitive
    operations, the frame calculus on traces (\<open>new_effects\<close>, \<open>emits_only\<close>), the
    calculus of what an operation preserves of the session (\<open>keeps\<close>), and the
    projections \<open>messages\<close>, \<open>git_commands\<close> and \<open>requests\<close> of a trace.

  \<^item> \<open>Generator\<close>: \<open>get_system_prompt\<close> and \<open>generate_page_html\<close> with the removal
    of the code fence (\<open>strip_markdown\<close>). The lemmas give the result for each kind of
    reply, show that one request is sent per call, and say exactly when the fence is
    removed.

  \<^item> \<open>Publisher\<close>: \<open>run_git_command\<close>, \<open>setup_git_repo\<close>, \<open>push_to_github\<close>. The
    reference \<open>publish_plan\<close> lists the commands of a publish and \<open>run_plan\<close> runs a
    list of commands up to the first failure; the lemmas show that \<open>push_to_github\<close>
    runs exactly that, that a successful set-up leaves the working copy in place, and
    how the test for an existing remote branch behaves.

  \<^item> \<open>Deployer\<close>: \<open>deploy_to_netlify\<close>. The lemmas give its result and its requests in
    every case (\<open>deploy_result\<close>, \<open>deploy_requests\<close>), and the one case in which it
    raises.

  \<^item> \<open>Orchestrator\<close>: \<open>create_landing_page\<close>, \<open>create_landing_page_from_callback\<close>
    and \<open>create_landing_page_from_message\<close>, each written out as in the source, and
    \<open>create_page\<close>, their common sequence with the call that talks to the chat as a
    parameter; \<open>create_page_variants\<close> proves that the three are its instances.
    \<open>run_outcome\<close> is the contract: the outcome of a run as a function of the
    configuration, the session and the \<open>env\<close>; \<open>outcome_report\<close> is what the user is
    told for each outcome. The lemmas show that the three functions implement the
    contract, and characterise all git commands (\<open>run_git\<close>), all requests
    (\<open>run_requests\<close>) and all files written by a run.

  \<^item> \<open>Handlers\<close>: one definition per handler of the source, in its order, and the
    updates they receive. The lemmas give what each handler appends to the trace, that
    each keeps the shape \<open>session_ok\<close> of a session, and result and final state of
    the handlers of the conversation as equations.

  \<^item> \<open>Dispatcher\<close>: the registration order of \<^verbatim>\<open>main\<close> as \<open>dispatch\<close>, the per-user
    session store as \<open>system\<close>, one update as \<open>step\<close>, a sequence of updates of
    several users as \<open>run\<close>, and the systems a run can produce as the inductive
    predicate \<open>reachable\<close>. The lemmas show the invariant of the sessions, say exactly
    which updates start a run of the orchestrator (\<open>starts_run\<close>), and give each step
    of the conversation as an equation on the system.

  \<^item> \<open>Installer\<close>: the script \<^verbatim>\<open>src/setup.py\<close>: \<open>check_python_version\<close>, \<open>check_git\<close>,
    \<open>install_dependencies\<close>, \<open>create_env_file\<close> and \<open>main\<close> over a \<open>host\<close> that answers
    the checks. The lemmas say exactly when the script succeeds, what it does to
    \<^verbatim>\<open>.env\<close>, and in which order it acts.

  \<^item> \<open>Spec2Isabelle\<close> (this theory): the properties that need several components:
    what a complete conversation publishes, for every user, text and prior history;
    what the button that declines the footer does in a session without a channel
    name; and the consequence of the session invariant for the orchestrator.

  \<^bold>\<open>How the lemmas are organised.\<close> Every component theory gives, for each of its
  operations, what it appends to the trace (\<open>emits_only\<close>, collected in
  \<open>emits_intros\<close>), what it does to the session (\<open>keeps\<close>, collected in
  \<open>keeps_intros\<close>), and, where later proofs compute with it, its result and final state
  as one equation (the lemmas named \<open>_run\<close>). The orchestrator's lemmas are proved
  from these equations, not from the definitions of the components; the dispatcher's
  invariants are proved from the \<open>keeps\<close> and \<open>emits_only\<close> facts of the handlers.
  What several properties share is a lemma of its own (\<open>create_page_report\<close>,
  \<open>create_page_git\<close>, \<open>reachable_session_ok\<close>), so that each numbered property
  stands by itself.

  \<^bold>\<open>Fixtures.\<close> \<open>test_config\<close>, \<open>test_env\<close>, \<open>test_session\<close>, \<open>test_host\<close>, \<open>test_dir\<close>
  and \<open>wizard\<close> are a configuration, an outside world in which every call succeeds, a
  session ready to be published, a host that passes every check, a directory with a
  template, and the collecting updates of one conversation (\<open>collect\<close> at concrete
  messages). The theorems with hypotheses are applied to them, so that none holds only
  for lack of a case.

  \<^bold>\<open>Bounds and assumptions.\<close> Text is 8-bit, as said above. Loops of the source are
  bounded by their data (the catalog, the text being scanned), so every definition is
  a total function and no fuel is needed. The one effect of git on the file system
  that the model tracks is that a successful clone creates its target directory
  (\<open>git_creates\<close>); the content of the working copy and of the remote is not
  modelled, and neither is the content of the logo file. Updates are handled one
  after the other, each handler running to its end before the next update is taken:
  this is how the library processes updates unless it is asked for concurrency, which
  \<^verbatim>\<open>main\<close> does not do. A directory is taken to exist when its path does. Running a
  command in a directory that does not exist raises \<open>FileNotFoundError\<close>, as
  \<^verbatim>\<open>subprocess.run\<close> does.

  The following calls can fail in the program and are taken to succeed in the model;
  every theorem is to be read with these assumptions.

  \<^item> Sending to the chat: \<^verbatim>\<open>reply_text\<close>, \<^verbatim>\<open>edit_message_text\<close> and \<^verbatim>\<open>answer\<close> are
    network calls that can raise; in the model they only append to the trace. A send
    that fails would end the handler at that call with an exception nothing catches.
    What the theorems say about the messages of a run, and about a run not raising,
    holds for runs in which every message is delivered.
  \<^item> \<^verbatim>\<open>os.makedirs\<close> in \<open>get_logo_image\<close>, and writing \<^verbatim>\<open>index.html\<close> once the
    directory exists.
  \<^item> The git executable is present (its absence is modelled in the installer only),
    and within one update the result of a git command depends on its arguments only.
  \<^item> A reply of the generation service that cannot be decoded raises one of the
    exceptions of \<open>decode_exc\<close>; which one is an answer of the \<open>env\<close>.
  \<^item> \<open>command_of\<close> takes every text that starts with a slash for a command, named by
    the characters up to the first white space; the library decides by message
    entities and accepts a bot name after the command, which is not modelled.
  \<^item> In the installer, starting git or pip fails only in the ways the script handles
    (git missing, a non-zero exit status); any other error of the operating system is
    not modelled.

  \<^bold>\<open>Not modelled.\<close> The library that receives updates and sends messages
  (only its filters and the order of registration are modelled), the processes of
  git and the wire formats of the two HTTP services (their answers are the \<open>env\<close>),
  the texts of the messages beyond the values interpolated into them, logging and
  console output, and \<^verbatim>\<open>src/test_setup.py\<close>, which only prints. The state machine of
  the specification with its seven states is not a definition of this development:
  \<^verbatim>\<open>main\<close> registers no conversation handler, and the conversation that the code
  implements is the one \<open>dispatch\<close> and the key \<^verbatim>\<open>conversation_state\<close> give.
\<close>

section \<open>A conversation from the first button to the published page\<close>

definition collect :: "env \<Rightarrow> nat \<Rightarrow> message \<Rightarrow> message \<Rightarrow> string \<Rightarrow> (env \<times> nat \<times> update) list" where
  "collect E uid name_message logo_message k =
     [(E, uid, Callback_Query CALLBACK_GENERATE),
      (E, uid, Message name_message),
      (E, uid, Message logo_message),
      (E, uid, Callback_Query (page_type_data k))]"

definition decline_footer :: "env \<Rightarrow> nat \<Rightarrow> (env \<times> nat \<times> update) list" where
  "decline_footer E uid = [(E, uid, Callback_Query CALLBACK_FOOTER_NO)]"

definition wizard :: "(env \<times> nat \<times> update) list" where
  "wizard = collect test_env 1
     \<lparr>msg_text = Some ''My Cool Channel!!'', msg_photo = [], msg_document = None\<rparr>
     \<lparr>msg_text = None, msg_photo = [''small'', ''large''], msg_document = None\<rparr> ''1''"

lemma conversation_collects:
  assumes "msg_text m1 = Some t" and "t \<noteq> []" and "\<not> startswith t ''/''"
    and "msg_text m2 = None" and "uploaded_file m2 = Some file_id"
    and "filters_PHOTO m2 \<or> filters_Document_IMAGE m2"
    and "get_file_ok E" and "download_ok E"
    and "dict_index LANDING_PAGE_TYPES (PStr k) = Some d"
  shows "sessions (run C (collect E uid m1 m2 k) S) uid =
      (sessions S uid)(''channel_name'' \<mapsto> PStr (py_strip t),
        ''conversation_state'' \<mapsto> PInt LOGO_IMAGE,
        ''logo_path'' \<mapsto> PStr (logo_file C), ''page_type'' \<mapsto> PStr k)"
    and "paths (run C (collect E uid m1 m2 k) S)
      = (paths S)(REPO_DIR C := True, logo_file C := True)"
    and "files (run C (collect E uid m1 m2 k) S) = files S"
    and "log (run C (collect E uid m1 m2 k) S) = log S @
      [Answer None, Edit_Text Ask_Channel_Name [], Reply_Text (Ask_Logo (py_strip t)) [],
       Makedirs (REPO_DIR C), Download file_id (logo_file C),
       Reply_Text Ask_Page_Type page_type_keyboard,
       Answer None, Edit_Text (Ask_Footer d) footer_keyboard]"
  using assms
  by (simp_all add: collect_def step_generate step_channel_name step_logo step_page_type)

lemma collected_session:
  fixes C :: config and E :: env and uid :: nat and S :: system
    and m1 m2 :: message and k :: string
  assumes "msg_text m1 = Some t" and "t \<noteq> []" and "\<not> startswith t ''/''"
    and "msg_text m2 = None" and "uploaded_file m2 = Some file_id"
    and "filters_PHOTO m2 \<or> filters_Document_IMAGE m2"
    and "get_file_ok E" and "download_ok E"
    and "dict_index LANDING_PAGE_TYPES (PStr k) = Some d"
  defines "s \<equiv> run_state uid (run C (collect E uid m1 m2 k) S)"
  shows "lookup_ud s ''channel_name'' = PStr (py_strip t)"
    and "lookup_ud s ''page_type'' = PStr k"
    and "exists_path s (REPO_DIR C)"
    and "session_plan C E' s = publish_plan E' ''index.html''
      (sanitize_branch_name (''page-'' @ py_strip t)) True"
    and "file_text s = files S"
  using conversation_collects [OF assms(1-9), of C uid S]
  by (simp_all add: s_def run_state_def lookup_ud_def session_plan_def logo_on_disk_def)

lemma wizard_fields:
  "sessions (run test_config wizard init_system) 1 ''channel_name''
     = Some (PStr ''My Cool Channel!!'')"
  "sessions (run test_config wizard init_system) 1 ''page_type'' = Some (PStr ''1'')"
  by code_simp+

section \<open>Properties that span the components\<close>

text \<open>
  C7. A complete conversation publishes what the user sent. For every user, every
  earlier history of the system and every configuration with a token: when the user
  presses the button that starts the wizard, sends a text that is not a command, sends
  a photo or an image document that can be downloaded, chooses a page type of the
  catalog and declines the footer, and git and the generation service then succeed,
  the bot runs \<^verbatim>\<open>git pull\<close> followed by the commands of the publish plan for the branch
  sanitized from \<^verbatim>\<open>page-\<close> and the stripped text, with the logo staged; it writes the
  generated page to \<^verbatim>\<open>index.html\<close>; and it tells the user that the page is live, or
  that it was created when the deployment was not accepted. The repository is pulled
  and never cloned, because the logo upload has created the directory.
\<close>
theorem conversation_publishes:
  assumes "truthy_opt (GITHUB_PAT C)"
    and "msg_text m1 = Some t" and "t \<noteq> []" and "\<not> startswith t ''/''"
    and "msg_text m2 = None" and "uploaded_file m2 = Some file_id"
    and "filters_PHOTO m2 \<or> filters_Document_IMAGE m2"
    and "get_file_ok E" and "download_ok E"
    and "dict_index LANDING_PAGE_TYPES (PStr k) = Some d"
    and "\<forall>c. git_ok E' c"
    and "\<forall>sp up. gemini E' sp up = Gemini_Text html" and "strip_markdown html \<noteq> []"
  shows "git_commands (step_effects C E' uid (Callback_Query CALLBACK_FOOTER_NO)
        (run C (collect E uid m1 m2 k) S))
      = map (\<lambda>c. (c, True)) ([''git'', ''pull''] #
          publish_plan E' ''index.html'' (sanitize_branch_name (''page-'' @ py_strip t)) True) \<and>
    messages (step_effects C E' uid (Callback_Query CALLBACK_FOOTER_NO)
        (run C (collect E uid m1 m2 k) S))
      = [Creating, Pushing, Deploying,
         if deploy_accepted C E' (''page-'' @ py_strip t) (py_strip t)
         then Page_Live (''https://'' @ netlify_subdomain (py_strip t) @ ''.netlify.app'')
           (''page-'' @ py_strip t) d
         else Page_Created (''page-'' @ py_strip t) d] \<and>
    files (run C (collect E uid m1 m2 k @ decline_footer E' uid) S) (index_path C)
      = Some (strip_markdown html)"
proof -
  let ?s = "run_state uid (run C (collect E uid m1 m2 k) S)"
  note s = collected_session [OF assms(2-10), where C = C and uid = uid and S = S]
  have reach: "reaches_publish C E' ?s" "list_all (git_ok E') (session_plan C E' ?s)"
    using reaches_publish_success [OF assms(1) disjI1 [OF s(3)] assms(11-13)] by simp_all
  from s(1,2) assms(10) have "run_outcome C E' ?s =
      (if deploy_accepted C E' (''page-'' @ py_strip t) (py_strip t)
       then Full_Success (''https://'' @ netlify_subdomain (py_strip t) @ ''.netlify.app'')
         (''page-'' @ py_strip t) d
       else Partial_Success (''page-'' @ py_strip t) d)"
    by (simp add: run_outcome_published [OF reach] deploy_outcome_named)
  moreover from s(3,4) have "run_git C E' ?s = map (\<lambda>c. (c, True)) ([''git'', ''pull''] #
      publish_plan E' ''index.html'' (sanitize_branch_name (''page-'' @ py_strip t)) True)"
    by (simp add: run_git_published [OF reach] setup_command_def)
  moreover have "file_text (snd (create_page From_Callback C E' ?s)) (index_path C)
      = Some (strip_markdown html)"
    using reach(1) assms(12) by (simp add: create_page_files generate_result_text)
  ultimately show ?thesis
    by (simp add: footer_no_contract footer_no_files run_append decline_footer_def)
qed

theorem conversation_publishes_witness:
  "git_commands (step_effects test_config test_env 1 (Callback_Query CALLBACK_FOOTER_NO)
      (run test_config wizard init_system)) =
     [([''git'', ''pull''], True),
      ([''git'', ''checkout'', ''-b'', ''page-my-cool-channel''], True),
      ([''git'', ''add'', ''index.html''], True),
      ([''git'', ''add'', ''logo.png''], True),
      ([''git'', ''commit'', ''-m'', ''feat: add new landing page for page-my-cool-channel''],
       True),
      ([''git'', ''push'', ''-u'', ''origin'', ''page-my-cool-channel''], True)] \<and>
   messages (step_effects test_config test_env 1 (Callback_Query CALLBACK_FOOTER_NO)
      (run test_config wizard init_system)) =
     [Creating, Pushing, Deploying,
      Page_Live ''https://my-cool-channel.netlify.app'' ''page-My Cool Channel!!''
        ''Tech Startup - Modern, clean design with focus on innovation'']"
proof -
  have "py_strip ''My Cool Channel!!'' = ''My Cool Channel!!''"
    and "netlify_subdomain ''My Cool Channel!!'' = ''my-cool-channel''"
    and "strip_markdown (fence @ ''html hi '' @ fence) \<noteq> []"
    by (simp_all add: sanitizer_defs py_defs strip_markdown_def fence_def)
  with conversation_publishes [of test_config
      "\<lparr>msg_text = Some ''My Cool Channel!!'', msg_photo = [], msg_document = None\<rparr>"
      "''My Cool Channel!!''"
      "\<lparr>msg_text = None, msg_photo = [''small'', ''large''], msg_document = None\<rparr>"
      "''large''" test_env "''1''"
      "''Tech Startup - Modern, clean design with focus on innovation''" test_env
      "fence @ ''html hi '' @ fence" 1 init_system]
  show ?thesis
    by (simp add: wizard_def fixture_description fixture_branch uploaded_file_def
        filters_PHOTO_def startswith_def fence_def publish_plan_def checkout_command_def
        commit_message_def py_in_def deploy_accepted_def site_found_def deploy_title_def)
qed

text \<open>
  C14. A run can be started before anything has been collected: the button that
  declines the footer starts the orchestrator whatever the session holds. For every
  system in which the user's session has no channel name, with a configuration that
  passed the start-up check and holds deployment credentials, and with git and the
  generation service succeeding, the step publishes a page for the channel name
  \<^verbatim>\<open>None\<close>: its last git command is the push of the branch \<^verbatim>\<open>page-none\<close>. After the
  push it ends with an \<^verbatim>\<open>AttributeError\<close> that nothing catches, and the user is left
  with the message that the page is being deployed.
\<close>
theorem declined_footer_without_name:
  assumes "config_ok C" and "netlify_ready C"
    and "sessions S uid ''channel_name'' = None"
    and "\<forall>c. git_ok E c"
    and "\<forall>sp up. gemini E sp up = Gemini_Text html" and "strip_markdown html \<noteq> []"
  shows "last (git_commands (step_effects C E uid (Callback_Query CALLBACK_FOOTER_NO) S))
      = ([''git'', ''push'', ''-u'', ''origin'', ''page-none''], True) \<and>
    messages (step_effects C E uid (Callback_Query CALLBACK_FOOTER_NO) S)
      = [Creating, Pushing, Deploying] \<and>
    last (step_effects C E uid (Callback_Query CALLBACK_FOOTER_NO) S) = Uncaught AttributeError"
proof -
  let ?s = "run_state uid S"
  from assms(1) have token: "truthy_opt (GITHUB_PAT C)" and url: "GITHUB_REPO_URL C \<noteq> None"
    by (auto simp: config_ok_iff dest: truthy_opt_Some)
  have reach: "reaches_publish C E ?s" "list_all (git_ok E) (session_plan C E ?s)"
    using reaches_publish_success [OF token disjI2 [OF url] assms(4-6)] by simp_all
  from assms(3) have name: "lookup_ud ?s ''channel_name'' = PNone"
    by (simp add: run_state_def lookup_ud_def)
  have "sanitize_branch_name ''page-None'' = ''page-none''"
    by (simp add: sanitizer_defs py_defs)
  with name have "last (run_git C E ?s) = ([''git'', ''push'', ''-u'', ''origin'', ''page-none''], True)"
    by (simp add: run_git_published [OF reach] session_plan_def publish_plan_def last_map)
  moreover from name assms(2) have "run_outcome C E ?s = Crashed AttributeError True"
    by (simp add: run_outcome_published [OF reach] deploy_outcome_unnamed)
  ultimately show ?thesis
    by (simp add: footer_no_contract)
qed

theorem declined_footer_without_name_witness:
  "sessions init_system 1 ''channel_name'' = None \<and>
   last (git_commands (step_effects test_config test_env 1 (Callback_Query CALLBACK_FOOTER_NO)
      init_system)) = ([''git'', ''push'', ''-u'', ''origin'', ''page-none''], True) \<and>
   last (step_effects test_config test_env 1 (Callback_Query CALLBACK_FOOTER_NO) init_system)
     = Uncaught AttributeError"
proof -
  have "strip_markdown (fence @ ''html hi '' @ fence) \<noteq> []"
    by (simp add: strip_markdown_def fence_def py_defs)
  with declined_footer_without_name [of test_config init_system 1 test_env
      "fence @ ''html hi '' @ fence"]
  show ?thesis
    by (simp add: init_system_def fence_def)
qed

text \<open>
  C10. In every system that a sequence of updates can produce, a session that holds
  a channel name and a page type cannot make a run end with an exception after the
  branch has been pushed: the two lookups that raise (the channel name in the
  deployment adapter, the page type in the final message) find what they need. For the
  orchestrator itself: if it raises in such a session, the only message it has sent
  is the first one, so it raised before the publish. Sending a chat message is taken
  to succeed, as everywhere in this development.
\<close>
theorem complete_session_no_crash_after_publish:
  assumes "reachable C S"
    and "sessions S uid ''channel_name'' \<noteq> None"
    and "sessions S uid ''page_type'' \<noteq> None"
  shows "run_outcome C E (view uid S) \<noteq> Crashed e True \<and>
    (fst (create_page v C E (view uid S)) = Inl e \<longrightarrow>
       messages (new_effects (create_page v C E) (view uid S)) = [Creating])"
proof -
  from assms(2,3) obtain c p where c: "sessions S uid ''channel_name'' = Some c"
    and p: "sessions S uid ''page_type'' = Some p"
    by auto
  from session_okD [OF reachable_session_ok [OF assms(1)] c]
    session_okD [OF reachable_session_ok [OF assms(1)] p]
  have "is_str c" and "dict_in p LANDING_PAGE_TYPES"
    by (simp_all add: key_ok_def)
  then obtain name d where "c = PStr name" and "dict_index LANDING_PAGE_TYPES p = Some d"
    by (cases c) (auto simp: is_str_def dict_index_in)
  with c p have "deploy_outcome C E (view uid S) \<noteq> Crashed e True"
    by (intro deploy_outcome_no_crash) (simp_all add: lookup_ud_def)
  then have safe: "run_outcome C E (view uid S) \<noteq> Crashed e True"
    by (auto dest: run_outcome_crash_published)
  moreover have "messages (new_effects (create_page v C E) (view uid S)) = [Creating]"
    if "fst (create_page v C E (view uid S)) = Inl e"
    using that safe create_page_report [of v C E "view uid S", symmetric]
      outcome_report_raises [of "run_outcome C E (view uid S)" e]
    by (auto simp: report_def)
  ultimately show ?thesis
    by blast
qed

theorem complete_session_no_crash_after_publish_witness:
  "run_outcome test_config test_env (view 1 (run test_config wizard init_system))
     \<noteq> Crashed AttributeError True"
  using complete_session_no_crash_after_publish [of test_config
      "run test_config wizard init_system" 1 test_env AttributeError]
    reachable_run [OF reachable_init, of test_config wizard] wizard_fields
  by simp

end
